theory Spec2Isabelle
  imports Main "HOL-Library.Sublist"
begin

section \<open>Strings\<close>

text \<open>
  Source strings are modelled as \<open>string\<close> (lists of \<open>char\<close>); a character outside ASCII
  appears as the bytes of its UTF-8 encoding. \<open>toLowerCase\<close> maps the letters A-Z to a-z,
  the Kelvin sign U+212A to \<open>k\<close>, and U+0130 to \<open>i\<close> followed by U+0307: these are the only
  characters whose lower case has an ASCII letter. The lower case of any other character
  outside ASCII lies outside ASCII; the model leaves its bytes as they are, which makes no
  difference to \<open>sanitizeId\<close>, where every character outside \<open>[a-z0-9]\<close> becomes a dash and
  runs of dashes are collapsed. \<open>toUpperCase\<close> is modelled on ASCII texts: it maps a-z to A-Z.
\<close>

definition is_upper :: "char \<Rightarrow> bool" where
  "is_upper c = ((65::nat) \<le> of_char c \<and> of_char c \<le> (90::nat))"

definition is_lower :: "char \<Rightarrow> bool" where
  "is_lower c = ((97::nat) \<le> of_char c \<and> of_char c \<le> (122::nat))"

definition is_digit :: "char \<Rightarrow> bool" where
  "is_digit c = ((48::nat) \<le> of_char c \<and> of_char c \<le> (57::nat))"

definition lower_char :: "char \<Rightarrow> char" where
  "lower_char c = (if is_upper c then char_of (of_char c + (32::nat)) else c)"

definition upper_char :: "char \<Rightarrow> char" where
  "upper_char c = (if is_lower c then char_of (of_char c - (32::nat)) else c)"

fun toLowerCase :: "string \<Rightarrow> string" where
  "toLowerCase (a # b # c # cs) =
     (if a = CHR 0xE2 \<and> b = CHR 0x84 \<and> c = CHR 0xAA then CHR ''k'' # toLowerCase cs
      else if a = CHR 0xC4 \<and> b = CHR 0xB0 then CHR ''i'' # CHR 0xCC # CHR 0x87 # toLowerCase (c # cs)
      else lower_char a # toLowerCase (b # c # cs))"
| "toLowerCase [a, b] =
     (if a = CHR 0xC4 \<and> b = CHR 0xB0 then [CHR ''i'', CHR 0xCC, CHR 0x87]
      else [lower_char a, lower_char b])"
| "toLowerCase [a] = [lower_char a]"
| "toLowerCase [] = []"

definition toUpperCase :: "string \<Rightarrow> string" where
  "toUpperCase s = map upper_char s"

text \<open>\<open>replace(/[^a-z0-9]/g, '-')\<close>\<close>

definition replace_non_alnum :: "string \<Rightarrow> string" where
  "replace_non_alnum s = map (\<lambda>c. if is_lower c \<or> is_digit c then c else CHR ''-'') s"

text \<open>\<open>replace(/-+/g, '-')\<close>: every maximal run of dashes becomes one dash.\<close>

fun collapse_dashes :: "string \<Rightarrow> string" where
  "collapse_dashes [] = []"
| "collapse_dashes [c] = [c]"
| "collapse_dashes (c # d # cs) =
     (if c = CHR ''-'' \<and> d = CHR ''-'' then collapse_dashes (d # cs)
      else c # collapse_dashes (d # cs))"

text \<open>\<open>replace(/^-|-$/g, '')\<close>: one dash at the start and one dash at the end are removed.\<close>

definition strip_dashes :: "string \<Rightarrow> string" where
  "strip_dashes s =
     (let r = (case s of [] \<Rightarrow> [] | c # cs \<Rightarrow> if c = CHR ''-'' then cs else s)
      in if r \<noteq> [] \<and> last r = CHR ''-'' then butlast r else r)"

definition sanitizeId :: "string \<Rightarrow> string" where
  "sanitizeId name = strip_dashes (collapse_dashes (replace_non_alnum (toLowerCase name)))"

text \<open>Shape of a sanitized identifier, used to state what \<open>sanitizeId\<close> returns.\<close>

definition id_char :: "char \<Rightarrow> bool" where
  "id_char c = (is_lower c \<or> is_digit c \<or> c = CHR ''-'')"

fun no_double_dash :: "string \<Rightarrow> bool" where
  "no_double_dash [] = True"
| "no_double_dash [c] = True"
| "no_double_dash (c # d # cs) = (\<not> (c = CHR ''-'' \<and> d = CHR ''-'') \<and> no_double_dash (d # cs))"

definition trimmed :: "string \<Rightarrow> bool" where
  "trimmed s = (s = [] \<or> (hd s \<noteq> CHR ''-'' \<and> last s \<noteq> CHR ''-''))"

section \<open>JSON values and the JavaScript operations applied to them\<close>

text \<open>
  Values of type \<open>any\<close> (parsed JSON or YAML) are modelled by \<open>json\<close>. The source only
  tests numbers for truthiness and converts them to text, so a number is given by the text
  that JavaScript prints for it (\<open>Number::toString\<close>, e.g. \<open>5\<close>, \<open>-0.5\<close>, \<open>1e+21\<close>, \<open>NaN\<close>); the
  zero of either sign prints as \<open>0\<close>. An object is the list of its entries in iteration
  order. The JavaScript value \<open>undefined\<close> is \<open>None\<close> of \<open>json option\<close>.
\<close>

datatype json =
    JNull
  | JBool bool
  | JNum string
  | JStr string
  | JArr "json list"
  | JObj "(string \<times> json) list"

text \<open>What the source can throw: a \<open>TypeError\<close> of the runtime, or \<open>new Error(message)\<close>.\<close>

datatype error = TypeError | Error string

fun truthy :: "json \<Rightarrow> bool" where
  "truthy JNull = False"
| "truthy (JBool b) = b"
| "truthy (JNum n) = (n \<noteq> ''0'' \<and> n \<noteq> ''NaN'')"
| "truthy (JStr s) = (s \<noteq> [])"
| "truthy (JArr xs) = True"
| "truthy (JObj kvs) = True"

definition truthy_opt :: "json option \<Rightarrow> bool" where
  "truthy_opt v = (case v of None \<Rightarrow> False | Some x \<Rightarrow> truthy x)"

definition digit_char :: "nat \<Rightarrow> char" where
  "digit_char n = char_of (48 + n)"

function show_nat :: "nat \<Rightarrow> string" where
  "show_nat n = (if n < 10 then [digit_char n] else show_nat (n div 10) @ [digit_char (n mod 10)])"
  by pat_completeness auto
termination
  by (relation "measure id") auto

text \<open>\<open>Array.prototype.join\<close>\<close>

fun join :: "string \<Rightarrow> string list \<Rightarrow> string" where
  "join sep [] = []"
| "join sep [x] = x"
| "join sep (x # y # ys) = x @ sep @ join sep (y # ys)"

text \<open>A callback that may throw, mapped over an array: the first error ends the loop.\<close>

fun sequence_err :: "(error + 'a) list \<Rightarrow> error + 'a list" where
  "sequence_err [] = Inr []"
| "sequence_err (m # ms) =
     (case m of
        Inl e \<Rightarrow> Inl e
      | Inr x \<Rightarrow> (case sequence_err ms of Inl e \<Rightarrow> Inl e | Inr xs \<Rightarrow> Inr (x # xs)))"

text \<open>
  \<open>String(v)\<close>, which is also the conversion of \<open>${v}\<close> in a template literal. An array is
  converted by \<open>join\<close>: its elements are converted in turn, \<open>null\<close> to the empty text. An
  object is converted by the \<open>toString\<close> it inherits, which gives \<open>[object Object]\<close>; an
  object with a key \<open>toString\<close> of its own hides the inherited method by a value that cannot
  be called, and the conversion throws a \<open>TypeError\<close>.
\<close>

fun js_String :: "json \<Rightarrow> error + string" where
  "js_String JNull = Inr ''null''"
| "js_String (JBool b) = Inr (if b then ''true'' else ''false'')"
| "js_String (JNum n) = Inr n"
| "js_String (JStr s) = Inr s"
| "js_String (JArr xs) =
     (case sequence_err (map (\<lambda>x. if x = JNull then Inr [] else js_String x) xs) of
        Inl e \<Rightarrow> Inl e
      | Inr ss \<Rightarrow> Inr (join '','' ss))"
| "js_String (JObj kvs) =
     (if ''toString'' \<in> set (map fst kvs) then Inl TypeError else Inr ''[object Object]'')"

text \<open>
  \<open>Object.entries(v)\<close> for a value that is neither \<open>null\<close> nor \<open>undefined\<close> (every call of
  the source is guarded by a truthiness test): the entries of an object, the indexed
  elements of an array, the indexed characters of a string, nothing for a number or a
  boolean. \<open>Object.keys(v)\<close> is \<open>map fst (entries v)\<close>.
\<close>

fun entries :: "json \<Rightarrow> (string \<times> json) list" where
  "entries (JObj kvs) = kvs"
| "entries (JArr xs) = zip (map show_nat [0..<length xs]) xs"
| "entries (JStr s) = zip (map show_nat [0..<length s]) (map (\<lambda>c. JStr [c]) s)"
| "entries v = []"

text \<open>
  Reading the property \<open>k\<close> of a value that is not \<open>null\<close>. The property names read by
  the source are fixed words, none of them \<open>length\<close> or another built-in property, and
  keys taken from \<open>Object.keys\<close>.
\<close>

definition get :: "json \<Rightarrow> string \<Rightarrow> json option" where
  "get v k = map_of (entries v) k"

section \<open>Package descriptor validation (package-json-validation.ts)\<close>

datatype change_action = Add | Modify | Remove

record required_change =
  field :: string
  expected :: string
  current :: "json option"
  action :: change_action

record ValidationResult =
  isValid :: bool
  errors :: "string list"
  warnings :: "string list"
  suggestions :: "string list"
  requiredChanges :: "required_change list"

definition push_error :: "string \<Rightarrow> ValidationResult \<Rightarrow> ValidationResult" where
  "push_error msg r = r\<lparr>errors := errors r @ [msg]\<rparr>"

definition push_warning :: "string \<Rightarrow> ValidationResult \<Rightarrow> ValidationResult" where
  "push_warning msg r = r\<lparr>warnings := warnings r @ [msg]\<rparr>"

definition push_suggestion :: "string \<Rightarrow> ValidationResult \<Rightarrow> ValidationResult" where
  "push_suggestion msg r = r\<lparr>suggestions := suggestions r @ [msg]\<rparr>"

definition push_change :: "required_change \<Rightarrow> ValidationResult \<Rightarrow> ValidationResult" where
  "push_change c r = r\<lparr>requiredChanges := requiredChanges r @ [c]\<rparr>"

text \<open>\<open>packageJson.scripts || {}\<close> and the like: a falsy or missing value becomes \<open>{}\<close>.\<close>

definition or_empty :: "json option \<Rightarrow> json" where
  "or_empty v = (case v of None \<Rightarrow> JObj [] | Some x \<Rightarrow> if truthy x then x else JObj [])"

text \<open>
  One round of the loop over \<open>requiredScripts\<close> in \<open>validateSmitheryCliScripts\<close>. The
  message of an incorrect script converts the script found to text, which can throw.
\<close>

definition check_script :: "json \<Rightarrow> string \<times> string \<Rightarrow> ValidationResult \<Rightarrow> error + ValidationResult" where
  \<open>check_script scripts entry result =
     (let scriptName = fst entry; expectedCommand = snd entry in
      if \<not> truthy_opt (get scripts scriptName) then
        Inr (push_change \<lparr>field = ''scripts.'' @ scriptName, expected = expectedCommand,
                           current = None, action = Add\<rparr>
               (push_error ((''Missing required script: '' @ [CHR 0x27]) @ scriptName @ [CHR 0x27]) result))
      else if get scripts scriptName \<noteq> Some (JStr expectedCommand) then
        (case js_String (the (get scripts scriptName)) of
           Inl e \<Rightarrow> Inl e
         | Inr got \<Rightarrow>
             Inr (push_change \<lparr>field = ''scripts.'' @ scriptName, expected = expectedCommand,
                                current = get scripts scriptName, action = Modify\<rparr>
                    (push_error ((''Incorrect script for '' @ [CHR 0x27]) @ scriptName @ ([CHR 0x27] @ '' - expected: '' @ [CHR 0x27]) @ expectedCommand
                                 @ ([CHR 0x27] @ '', got: '' @ [CHR 0x27]) @ got @ [CHR 0x27]) result)))
      else Inr result)\<close>

text \<open>A \<open>for\<close> loop whose body may throw: the first error ends it.\<close>

fun for_each :: "('a \<Rightarrow> 'b \<Rightarrow> error + 'b) \<Rightarrow> 'a list \<Rightarrow> 'b \<Rightarrow> error + 'b" where
  "for_each body [] r = Inr r"
| "for_each body (x # xs) r = (case body x r of Inl e \<Rightarrow> Inl e | Inr r' \<Rightarrow> for_each body xs r')"

definition requiredScripts :: "(string \<times> string) list" where
  "requiredScripts = [(''build'', ''npx @smithery/cli build''), (''dev'', ''npx @smithery/cli dev'')]"

text \<open>
  \<open>scripts.start && scripts.start.includes('stdio')\<close>: a string has the substring test, an
  array the membership test, any other truthy value has no \<open>includes\<close> and the call throws.
\<close>

definition validateSmitheryCliScripts :: "json \<Rightarrow> ValidationResult \<Rightarrow> error + ValidationResult" where
  \<open>validateSmitheryCliScripts scripts result =
     (case for_each (check_script scripts) requiredScripts result of
        Inl e \<Rightarrow> Inl e
      | Inr r \<Rightarrow>
          (case get scripts ''start'' of
             None \<Rightarrow> Inr r
           | Some start \<Rightarrow>
               if \<not> truthy start then Inr r
               else (case start of
                       JStr s \<Rightarrow>
                         Inr (if sublist ''stdio'' s
                              then push_warning ''Start script appears to use STDIO transport - consider updating for HTTP transport'' r
                              else r)
                     | JArr xs \<Rightarrow>
                         Inr (if JStr ''stdio'' \<in> set xs
                              then push_warning ''Start script appears to use STDIO transport - consider updating for HTTP transport'' r
                              else r)
                     | _ \<Rightarrow> Inl TypeError)))\<close>

definition validateSmitheryCliDependencies :: "json \<Rightarrow> json \<Rightarrow> ValidationResult \<Rightarrow> ValidationResult" where
  \<open>validateSmitheryCliDependencies deps devDeps result =
     (let r1 = (if \<not> truthy_opt (get devDeps ''@smithery/cli'') then
                  push_change \<lparr>field = ''devDependencies.@smithery/cli'',
                                expected = ''^1.0.0 (or your preferred version)'',
                                current = None, action = Add\<rparr>
                    (push_error ''Missing required devDependency: @smithery/cli'' result)
                else result)
      in if \<not> truthy_opt (get devDeps ''tsx'') then
           push_change \<lparr>field = ''devDependencies.tsx'',
                         expected = ''^4.0.0 (or your preferred version)'',
                         current = None, action = Add\<rparr>
             (push_error ''Missing required devDependency: tsx'' r1)
         else r1)\<close>

text \<open>
  Reading a property of \<open>null\<close> throws, so a descriptor that parses to \<open>null\<close> fails at
  \<open>packageJson.name\<close>. A truthy \<open>module\<close> that is not a string has no \<open>endsWith\<close>.
\<close>

definition validateSmitheryCliPackageJson :: "json \<Rightarrow> ValidationResult \<Rightarrow> error + ValidationResult" where
  \<open>validateSmitheryCliPackageJson packageJson result =
     (if packageJson = JNull then Inl TypeError
      else
        let r1 = (if \<not> truthy_opt (get packageJson ''name'') then
                    push_change \<lparr>field = ''name'', expected = ''your-server-name'',
                                  current = None, action = Add\<rparr>
                      (push_error (''Missing required field: 'name'' @ [CHR 0x27]) result)
                  else result);
            r2 = (if \<not> truthy_opt (get packageJson ''version'') then
                    push_change \<lparr>field = ''version'', expected = ''1.0.0'',
                                  current = None, action = Add\<rparr>
                      (push_error (''Missing required field: 'version'' @ [CHR 0x27]) r1)
                  else r1)
        in case (if \<not> truthy_opt (get packageJson ''module'') then
                   Inr (push_change \<lparr>field = ''module'', expected = ''./src/index.ts'',
                                       current = None, action = Add\<rparr>
                          (push_error ''Missing 'module' field required for Smithery CLI'' r2))
                 else (case get packageJson ''module'' of
                         Some (JStr m) \<Rightarrow>
                           Inr (if \<not> suffix ''.ts'' m \<and> \<not> suffix ''.js'' m
                                then push_warning ''Module field should point to your main TypeScript or JavaScript file'' r2
                                else r2)
                       | _ \<Rightarrow> Inl TypeError)) of
             Inl e \<Rightarrow> Inl e
           | Inr r3 \<Rightarrow>
               let r4 = (if get packageJson ''type'' \<noteq> Some (JStr ''module'') then
                           push_suggestion ''Add '"type": "module"' to package.json for better ES modules support''
                             (push_warning ''Consider setting 'type': 'module' for ES modules support'' r3)
                         else r3)
               in (case validateSmitheryCliScripts (or_empty (get packageJson ''scripts'')) r4 of
                     Inl e \<Rightarrow> Inl e
                   | Inr r5 \<Rightarrow>
                       Inr (validateSmitheryCliDependencies
                              (or_empty (get packageJson ''dependencies''))
                              (or_empty (get packageJson ''devDependencies'')) r5)))\<close>

definition validateCustomContainerPackageJson :: "json \<Rightarrow> ValidationResult \<Rightarrow> error + ValidationResult" where
  \<open>validateCustomContainerPackageJson packageJson result =
     Inr (push_suggestion ''Custom container migration allows full flexibility - configure dependencies and scripts as needed for your specific setup'' result)\<close>

definition validatePythonContainerPackageJson :: "json \<Rightarrow> ValidationResult \<Rightarrow> error + ValidationResult" where
  \<open>validatePythonContainerPackageJson packageJson result =
     (if packageJson = JNull then Inl TypeError
      else
        let r1 = (if \<not> truthy_opt (get packageJson ''name'')
                  then push_warning ''Consider adding 'name' field for better project identification'' result
                  else result);
            r2 = (if \<not> truthy_opt (get packageJson ''version'')
                  then push_warning ''Consider adding 'version' field for better project versioning'' r1
                  else r1)
        in Inr (push_suggestion ''For Python projects, ensure requirements.txt or pyproject.toml contains your Python dependencies'' r2))\<close>

text \<open>
  \<open>performValidation\<close>: the mode is a plain string in the source; a mode outside the three
  cases of the \<open>switch\<close> runs no rule.
\<close>

definition performValidation :: "json \<Rightarrow> string \<Rightarrow> error + ValidationResult" where
  \<open>performValidation packageJson migrationPath =
     (let result = \<lparr>isValid = True, errors = [], warnings = [], suggestions = [], requiredChanges = []\<rparr>
      in case (if migrationPath = ''ts-smithery-cli'' then validateSmitheryCliPackageJson packageJson result
               else if migrationPath = ''ts-custom-container'' then validateCustomContainerPackageJson packageJson result
               else if migrationPath = ''py-custom-container'' then validatePythonContainerPackageJson packageJson result
               else Inr result) of
           Inl e \<Rightarrow> Inl e
         | Inr r \<Rightarrow> Inr (r\<lparr>isValid := (length (errors r) = 0)\<rparr>))\<close>

text \<open>A descriptor that lacks exactly \<open>module\<close>, \<open>scripts.build\<close> and \<open>devDependencies.tsx\<close>, and what the validator reports for it.\<close>

definition sample_package :: json where
  \<open>sample_package = JObj [(''name'', JStr ''srv''), (''version'', JStr ''1.0.0''), (''type'', JStr ''module''),
     (''scripts'', JObj [(''dev'', JStr ''npx @smithery/cli dev'')]),
     (''devDependencies'', JObj [(''@smithery/cli'', JStr ''^1.0.0'')])]\<close>







section \<open>Reading the deployment descriptor (templates/utils.ts, migration-overview.ts)\<close>

text \<open>
  \<open>YAML.parse\<close> belongs to a library, so the parser is a parameter \<open>parse\<close> of every function
  that calls it: \<open>parse text = None\<close> when the library throws, \<open>Some v\<close> when it returns \<open>v\<close>.
  \<open>opt_chain x k\<close> is the optional chaining \<open>x?.k\<close>.
\<close>

definition opt_chain :: "json option \<Rightarrow> string \<Rightarrow> json option" where
  "opt_chain x k = (case x of None \<Rightarrow> None | Some v \<Rightarrow> if v = JNull then None else get v k)"

text \<open>\<open>parseSmitheryYaml\<close> returns \<open>null\<close> when the parser throws.\<close>

definition parseSmitheryYaml :: "(string \<Rightarrow> json option) \<Rightarrow> string \<Rightarrow> json" where
  "parseSmitheryYaml parse yamlContent = (case parse yamlContent of None \<Rightarrow> JNull | Some parsed \<Rightarrow> parsed)"

definition extractConfigSchemaFromSmitheryYaml :: "(string \<Rightarrow> json option) \<Rightarrow> string \<Rightarrow> json option" where
  "extractConfigSchemaFromSmitheryYaml parse yamlContent =
     opt_chain (opt_chain (Some (parseSmitheryYaml parse yamlContent)) ''startCommand'') ''configSchema''"

definition extractExampleConfigFromSmitheryYaml :: "(string \<Rightarrow> json option) \<Rightarrow> string \<Rightarrow> json option" where
  "extractExampleConfigFromSmitheryYaml parse yamlContent =
     opt_chain (opt_chain (Some (parseSmitheryYaml parse yamlContent)) ''startCommand'') ''exampleConfig''"

text \<open>\<open>v && Object.keys(v).length > 0\<close>, as a truth value.\<close>

definition has_keys :: "json option \<Rightarrow> bool" where
  "has_keys v = (case v of None \<Rightarrow> False | Some x \<Rightarrow> truthy x \<and> length (entries x) > 0)"

definition analyzeSmitheryYamlForSessionConfig :: "(string \<Rightarrow> json option) \<Rightarrow> string \<Rightarrow> bool" where
  "analyzeSmitheryYamlForSessionConfig parse yamlContent =
     (case parse yamlContent of
        None \<Rightarrow> False
      | Some parsed \<Rightarrow>
          (let hasConfigSchema = has_keys (opt_chain (opt_chain (Some parsed) ''startCommand'') ''configSchema'');
               hasExampleConfig = has_keys (opt_chain (opt_chain (Some parsed) ''startCommand'') ''exampleConfig'')
           in hasConfigSchema \<or> hasExampleConfig))"

section \<open>Migration overview (migration-overview.ts)\<close>

text \<open>Characters outside ASCII appear in the texts as their UTF-8 bytes.\<close>

record file_needed =
  filename :: string
  description :: string
  required :: bool
  generated :: "bool option"

record project_structure =
  description :: string
  "structure" :: string

record MigrationOverview =
  migrationPath :: string
  title :: string
  description :: string
  prerequisites :: "string list"
  filesNeeded :: "file_needed list"
  projectStructure :: project_structure
  deploymentSteps :: "string list"
  additionalNotes :: "string list"
  nextSteps :: "string list"

record MigrationOverviewParams =
  migrationPath :: string
  includeBackwardCompatibility :: "bool option"
  needsFileSystemAccess :: "bool option"
  needsLocalApps :: "bool option"
  existingSmitheryYaml :: "string option"

record common_params =
  includeBackwardCompatibility :: bool
  needsLocalAccess :: bool
  needsFileSystemAccess :: bool
  needsLocalApps :: bool
  needsSessionConfig :: bool

definition generateLocalStdioOverview :: "common_params \<Rightarrow> MigrationOverview" where
  \<open>generateLocalStdioOverview params =
     (let localReasons0 = ([] :: string list);
          localReasons1 = (if common_params.needsFileSystemAccess params
                           then localReasons0 @ [''File system access required''] else localReasons0);
          localReasons = (if common_params.needsLocalApps params
                          then localReasons1 @ [''Local application integration needed''] else localReasons1)
      in \<lparr>MigrationOverview.migrationPath = ''local-stdio-only'',
          title = ''Local STDIO Servers - Contact Support'',
          description = ''Your server needs local file system access or local application integration. We're actively working on improving support for local servers and would love to work with you personally to get yours set up - no migration work needed on your end!'',
          prerequisites = [''Nothing! We'll handle the setup for you.''],
          filesNeeded = [],
          projectStructure =
            \<lparr>project_structure.description = ''Keep your existing project structure - no changes needed'',
             structure = ''No changes to your existing codebase required''\<rparr>,
          deploymentSteps =
            [([CHR 0xF0, CHR 0x9F, CHR 0x93, CHR 0xA7] @ '' Email us: contact@smithery.ai''),
             ([CHR 0xF0, CHR 0x9F, CHR 0x92, CHR 0xAC] @ '' Join our Discord: https://discord.gg/sKd9uycgH9''),
             ''We'll work with you directly to get your server set up - no work needed on your end!''],
          additionalNotes = [],
          nextSteps = []\<rparr>)\<close>

definition generateSmitheryCLIOverview :: "common_params \<Rightarrow> MigrationOverview" where
  \<open>generateSmitheryCLIOverview params =
     \<lparr>MigrationOverview.migrationPath = ''ts-smithery-cli'',
      title = ''TypeScript with Smithery CLI Migration (RECOMMENDED)'',
      description = ''RECOMMENDED: This is the recommended approach for TypeScript projects. Migrate to HTTP transport using Smithery CLI with automatic deployment and containerization. This is the simplest migration path with built-in development tools and requires minimal configuration.'',
      prerequisites =
        [''Node.js 18+ installed'',
         ''Existing TypeScript MCP server with STDIO transport'',
         ''GitHub repository for deployment'',
         ''Basic understanding of MCP concepts''],
      filesNeeded =
        [\<lparr>filename = ''src/index.ts (or main entry file)'',
          file_needed.description = ''Entry point file that exports the createServer function'',
          required = True, generated = Some True\<rparr>,
         \<lparr>filename = ''package.json'',
          file_needed.description = ''Updated with Smithery CLI scripts and module field pointing to createServer export'',
          required = True, generated = Some False\<rparr>,
         \<lparr>filename = ''yarn.lock or pnpm-lock.yaml'',
          file_needed.description = ''Lock file required if using yarn or pnpm (not needed for npm)'',
          required = False, generated = Some False\<rparr>,
         \<lparr>filename = ''smithery.yaml'',
          file_needed.description = ''Smithery configuration (runtime: typescript)'',
          required = True, generated = Some True\<rparr>]
        @ (if common_params.includeBackwardCompatibility params
           then [\<lparr>filename = ''tsconfig.json'',
                  file_needed.description = ''TypeScript configuration for STDIO builds'',
                  required = False, generated = Some False\<rparr>]
           else []),
      projectStructure =
        \<lparr>project_structure.description = ''Reference TypeScript project structure optimized for Smithery CLI'',
         structure = (''my-mcp-server/\<newline>'' @
                      [CHR 0xE2, CHR 0x94, CHR 0x9C, CHR 0xE2, CHR 0x94, CHR 0x80, CHR 0xE2, CHR 0x94, CHR 0x80] @ '' src/\<newline>'' @
                      [CHR 0xE2, CHR 0x94, CHR 0x82] @ ''   '' @ [CHR 0xE2, CHR 0x94, CHR 0x94, CHR 0xE2, CHR 0x94, CHR 0x80, CHR 0xE2, CHR 0x94, CHR 0x80] @ '' index.ts          # Main server file (exported createServer)\<newline>'' @
                      [CHR 0xE2, CHR 0x94, CHR 0x9C, CHR 0xE2, CHR 0x94, CHR 0x80, CHR 0xE2, CHR 0x94, CHR 0x80] @ '' package.json          # Updated with Smithery CLI config\<newline>'' @
                      [CHR 0xE2, CHR 0x94, CHR 0x9C, CHR 0xE2, CHR 0x94, CHR 0x80, CHR 0xE2, CHR 0x94, CHR 0x80] @ '' smithery.yaml         # Smithery runtime configuration\<newline>'' @
                      [CHR 0xE2, CHR 0x94, CHR 0x9C, CHR 0xE2, CHR 0x94, CHR 0x80, CHR 0xE2, CHR 0x94, CHR 0x80] @ '' tsconfig.json         # TypeScript configuration\<newline>'' @
                      [CHR 0xE2, CHR 0x94, CHR 0x94, CHR 0xE2, CHR 0x94, CHR 0x80, CHR 0xE2, CHR 0x94, CHR 0x80] @ '' README.md            # Documentation'')\<rparr>,
      deploymentSteps =
        [''1. Update package.json with Smithery CLI scripts and module field pointing to createServer export'',
         ''2. Add build and dev scripts: "build": "npx @smithery/cli build", "dev": "npx @smithery/cli dev"'',
         ''3. Generate new src/index.ts with exported createServer function'',
         ''4. Update smithery.yaml with runtime: typescript'',
         ''5. Test locally with 'npm run dev' (interactive playground)'',
         ''6. Push changes to your GitHub repository'',
         ''7. Wait a few minutes for auto-deploy, or manually trigger deployment from your Smithery server dashboard if it doesn't start automatically''],
      additionalNotes =
        [''No Dockerfile needed - Smithery CLI handles containerization'',
         ''Session-based configuration management'',
         ''Required scripts: "build": "npx @smithery/cli build", "dev": "npx @smithery/cli dev"'',
         ''Include your lock file (yarn.lock or pnpm-lock.yaml) if using yarn/pnpm - this helps detect your package manager'',
         ''The 'module' field in package.json must point to the file that exports createServer (e.g., './src/index.ts')'']
        @ (if common_params.includeBackwardCompatibility params
           then [''STDIO backward compatibility included''] else []),
      nextSteps =
        [(''Use 'create_migration_template' tool with mode 'ts-smithery-cli'' @ [CHR 0x27]),
         ''Use 'generate_smithery_yaml' tool for smithery.yaml configuration'',
         ''Use 'validate_package_json' tool with migrationPath 'ts-smithery-cli' to ensure all required scripts and dependencies are present'']\<rparr>\<close>

definition generateTypeScriptContainerOverview :: "common_params \<Rightarrow> MigrationOverview" where
  \<open>generateTypeScriptContainerOverview params =
     \<lparr>MigrationOverview.migrationPath = ''ts-custom-container'',
      title = ''TypeScript Custom Container Migration'',
      description = ''Migrate to HTTP transport using custom Express server with full Docker control. Provides maximum flexibility for middleware and custom logic.'',
      prerequisites =
        [''Node.js 18+ installed'',
         ''Docker installed and running'',
         ''Understanding of Express.js and middleware'',
         ''Existing TypeScript MCP server'',
         ''GitHub repository for deployment''],
      filesNeeded =
        [\<lparr>filename = ''src/index.ts'',
          file_needed.description = ''Main server file with Express app and MCP request handler'',
          required = True, generated = Some True\<rparr>,
         \<lparr>filename = ''Dockerfile'',
          file_needed.description = ''Custom Docker container configuration'',
          required = True, generated = Some True\<rparr>,
         \<lparr>filename = ''package.json'',
          file_needed.description = ''Updated with Express dependencies and scripts'',
          required = True, generated = Some False\<rparr>,
         \<lparr>filename = ''smithery.yaml'',
          file_needed.description = ''Smithery configuration (runtime: container, type: http)'',
          required = True, generated = Some True\<rparr>,
         \<lparr>filename = ''tsconfig.json'',
          file_needed.description = ''TypeScript configuration for building'',
          required = True, generated = Some False\<rparr>]
        @ (if common_params.includeBackwardCompatibility params
           then [\<lparr>filename = ''.env.example'',
                  file_needed.description = ''Environment variables template'',
                  required = False, generated = Some False\<rparr>]
           else []),
      projectStructure =
        \<lparr>project_structure.description = ''Reference TypeScript project with Express server and Docker containerization'',
         structure = (''my-mcp-server/\<newline>'' @
                      [CHR 0xE2, CHR 0x94, CHR 0x9C, CHR 0xE2, CHR 0x94, CHR 0x80, CHR 0xE2, CHR 0x94, CHR 0x80] @ '' src/\<newline>'' @
                      [CHR 0xE2, CHR 0x94, CHR 0x82] @ ''   '' @ [CHR 0xE2, CHR 0x94, CHR 0x94, CHR 0xE2, CHR 0x94, CHR 0x80, CHR 0xE2, CHR 0x94, CHR 0x80] @ '' index.ts          # Express server with MCP handlers\<newline>'' @
                      [CHR 0xE2, CHR 0x94, CHR 0x9C, CHR 0xE2, CHR 0x94, CHR 0x80, CHR 0xE2, CHR 0x94, CHR 0x80] @ '' dist/                 # Built JavaScript output\<newline>'' @
                      [CHR 0xE2, CHR 0x94, CHR 0x9C, CHR 0xE2, CHR 0x94, CHR 0x80, CHR 0xE2, CHR 0x94, CHR 0x80] @ '' Dockerfile            # Custom container configuration\<newline>'' @
                      [CHR 0xE2, CHR 0x94, CHR 0x9C, CHR 0xE2, CHR 0x94, CHR 0x80, CHR 0xE2, CHR 0x94, CHR 0x80] @ '' package.json          # Express dependencies and build scripts\<newline>'' @
                      [CHR 0xE2, CHR 0x94, CHR 0x9C, CHR 0xE2, CHR 0x94, CHR 0x80, CHR 0xE2, CHR 0x94, CHR 0x80] @ '' smithery.yaml         # Container runtime configuration\<newline>'' @
                      [CHR 0xE2, CHR 0x94, CHR 0x9C, CHR 0xE2, CHR 0x94, CHR 0x80, CHR 0xE2, CHR 0x94, CHR 0x80] @ '' tsconfig.json         # TypeScript build configuration\<newline>'' @
                      [CHR 0xE2, CHR 0x94, CHR 0x94, CHR 0xE2, CHR 0x94, CHR 0x80, CHR 0xE2, CHR 0x94, CHR 0x80] @ '' README.md            # Documentation'')\<rparr>,
      deploymentSteps =
        [''1. Generate Express-based src/index.ts with MCP request handlers'',
         ''2. Create custom Dockerfile with Node.js and build steps'',
         ''3. Update package.json with Express dependencies'',
         ''4. Create smithery.yaml with container runtime configuration'',
         (''5. Test locally: 'npm run build && docker build -t server . && docker run -p 8081:8081 -e PORT=8081 server'' @ [CHR 0x27]),
         ''6. Push changes to your GitHub repository'',
         ''7. Wait a few minutes for auto-deploy, or manually trigger deployment from your Smithery server dashboard if it doesn't start automatically'',
         ''8. Smithery builds and deploys your custom container''],
      additionalNotes =
        [''Full control over Express middleware and routing'',
         ''Custom Docker environment configuration'',
         ''Advanced CORS and security configurations'',
         ''Per-request configuration parsing from URL parameters'',
         ''IMPORTANT: Server must listen on process.env.PORT (Smithery provides this, defaults to 8081)'']
        @ (if common_params.includeBackwardCompatibility params
           then [''STDIO backward compatibility with TRANSPORT env var''] else []),
      nextSteps =
        [(''Use 'create_migration_template' tool with mode 'ts-custom-container'' @ [CHR 0x27]),
         (''Use 'generate_dockerfile' tool with containerType 'ts-custom-container'' @ [CHR 0x27]),
         ''Use 'generate_smithery_yaml' tool for container runtime configuration'',
         ''Update package.json with Express, CORS, and other dependencies'']\<rparr>\<close>

definition generatePythonContainerOverview :: "common_params \<Rightarrow> MigrationOverview" where
  \<open>generatePythonContainerOverview params =
     (let needsSessionConfig = common_params.needsSessionConfig params in
      \<lparr>MigrationOverview.migrationPath = ''py-custom-container'',
       title = ''Python Custom Container Migration'',
       description = ''Migrate to HTTP transport using FastMCP with custom middleware and Docker control. Ideal for Python-based MCP servers with advanced configuration needs.'',
       prerequisites =
         [''Python 3.11+ installed'',
          ''uv or pip package manager'',
          ''Docker installed and running'',
          ''Understanding of FastAPI/Starlette middleware'',
          ''Existing Python MCP server'',
          ''GitHub repository for deployment''],
       filesNeeded =
         [\<lparr>filename = ''src/main.py'',
           file_needed.description = ''Main server file with FastMCP and HTTP transport'',
           required = True, generated = Some True\<rparr>]
         @ (if needsSessionConfig
            then [\<lparr>filename = ''src/middleware.py'',
                   file_needed.description = ''Custom middleware for Smithery configuration handling (access tokens, session settings)'',
                   required = True, generated = Some True\<rparr>]
            else [])
         @ [\<lparr>filename = ''Dockerfile'',
             file_needed.description = ''Custom Docker container with Python and uv/pip'',
             required = True, generated = Some True\<rparr>,
            \<lparr>filename = ''pyproject.toml'',
             file_needed.description = ''Python project configuration with FastMCP dependencies'',
             required = True, generated = Some False\<rparr>,
            \<lparr>filename = ''smithery.yaml'',
             file_needed.description = ''Smithery configuration (runtime: container, type: http)'',
             required = True, generated = Some True\<rparr>,
            \<lparr>filename = ''uv.lock'',
             file_needed.description = ''Dependency lock file (if using uv)'',
             required = False, generated = Some False\<rparr>],
       projectStructure =
         \<lparr>project_structure.description = ''Reference Python project structure with FastMCP server and Docker containerization'',
          structure = (''my-mcp-server/\<newline>'' @
                       [CHR 0xE2, CHR 0x94, CHR 0x9C, CHR 0xE2, CHR 0x94, CHR 0x80, CHR 0xE2, CHR 0x94, CHR 0x80] @ '' src/\<newline>'' @
                       [CHR 0xE2, CHR 0x94, CHR 0x82] @ ''   '' @ [CHR 0xE2, CHR 0x94, CHR 0x9C, CHR 0xE2, CHR 0x94, CHR 0x80, CHR 0xE2, CHR 0x94, CHR 0x80] @ '' main.py           # FastMCP server with HTTP transport'')
            @ (if needsSessionConfig then (''\<newline>'' @
                                           [CHR 0xE2, CHR 0x94, CHR 0x82] @ ''   '' @ [CHR 0xE2, CHR 0x94, CHR 0x94, CHR 0xE2, CHR 0x94, CHR 0x80, CHR 0xE2, CHR 0x94, CHR 0x80] @ '' middleware.py     # Custom Smithery config middleware'') else [])
            @ (''\<newline>'' @
               [CHR 0xE2, CHR 0x94, CHR 0x9C, CHR 0xE2, CHR 0x94, CHR 0x80, CHR 0xE2, CHR 0x94, CHR 0x80] @ '' Dockerfile            # Custom Python container\<newline>'' @
               [CHR 0xE2, CHR 0x94, CHR 0x9C, CHR 0xE2, CHR 0x94, CHR 0x80, CHR 0xE2, CHR 0x94, CHR 0x80] @ '' pyproject.toml        # Python dependencies and config\<newline>'' @
               [CHR 0xE2, CHR 0x94, CHR 0x9C, CHR 0xE2, CHR 0x94, CHR 0x80, CHR 0xE2, CHR 0x94, CHR 0x80] @ '' uv.lock              # Dependency lock file (uv)\<newline>'' @
               [CHR 0xE2, CHR 0x94, CHR 0x9C, CHR 0xE2, CHR 0x94, CHR 0x80, CHR 0xE2, CHR 0x94, CHR 0x80] @ '' smithery.yaml         # Container runtime configuration\<newline>'' @
               [CHR 0xE2, CHR 0x94, CHR 0x94, CHR 0xE2, CHR 0x94, CHR 0x80, CHR 0xE2, CHR 0x94, CHR 0x80] @ '' README.md            # Documentation'')\<rparr>,
       deploymentSteps =
         [''1. Generate FastMCP-based src/main.py with HTTP transport'']
         @ (if needsSessionConfig then [''2. Create src/middleware.py for configuration handling''] else [])
         @ [(if needsSessionConfig then ''3'' else ''2'') @ ''. Create custom Dockerfile with Python and dependency management'',
            (if needsSessionConfig then ''4'' else ''3'') @ ''. Update pyproject.toml with FastMCP and required dependencies'',
            (if needsSessionConfig then ''5'' else ''4'') @ ''. Create smithery.yaml with container runtime configuration'',
            (if needsSessionConfig then ''6'' else ''5'') @ (''. Test locally: 'uv sync && docker build -t server . && docker run -p 8081:8081 -e PORT=8081 server'' @ [CHR 0x27]),
            (if needsSessionConfig then ''7'' else ''6'') @ ''. Push changes to your GitHub repository'',
            (if needsSessionConfig then ''8'' else ''7'') @ ''. Wait a few minutes for auto-deploy, or manually trigger deployment from your Smithery server dashboard if it doesn't start automatically''],
       additionalNotes =
         [''FastMCP provides simple decorator-based tool registration'']
         @ (if needsSessionConfig then [''Per-request configuration access through middleware'']
            else [''No middleware needed if no session configuration required''])
         @ (if common_params.includeBackwardCompatibility params
            then [''STDIO backward compatibility with TRANSPORT env var''] else [])
         @ [''CORS handling for browser-based MCP clients'',
            ''IMPORTANT: Server must listen on int(os.environ.get('PORT', 8081)) - Smithery provides PORT env var''],
       nextSteps =
         [(''Use 'create_migration_template' tool with mode 'py-custom-container'' @ [CHR 0x27]),
          (''Use 'generate_dockerfile' tool with containerType 'py-custom-container'' @ [CHR 0x27]),
          ''Use 'generate_smithery_yaml' tool for container runtime configuration'',
          ''Create pyproject.toml with FastMCP and uvicorn dependencies'']\<rparr>)\<close>

text \<open>
  \<open>generateMigrationOverview\<close>: the three flags default to \<open>false\<close>; an empty descriptor
  text is falsy and is not analysed; a path outside the four cases throws.
\<close>

definition generateMigrationOverview ::
  "(string \<Rightarrow> json option) \<Rightarrow> MigrationOverviewParams \<Rightarrow> error + MigrationOverview" where
  \<open>generateMigrationOverview parse params =
     (let migrationPath = MigrationOverviewParams.migrationPath params;
          includeBackwardCompatibility =
            (case MigrationOverviewParams.includeBackwardCompatibility params of None \<Rightarrow> False | Some b \<Rightarrow> b);
          needsFileSystemAccess =
            (case MigrationOverviewParams.needsFileSystemAccess params of None \<Rightarrow> False | Some b \<Rightarrow> b);
          needsLocalApps =
            (case MigrationOverviewParams.needsLocalApps params of None \<Rightarrow> False | Some b \<Rightarrow> b);
          detectedSessionConfig =
            (case existingSmitheryYaml params of
               None \<Rightarrow> False
             | Some y \<Rightarrow> if y = [] then False else analyzeSmitheryYamlForSessionConfig parse y);
          needsLocalAccess = (needsFileSystemAccess \<or> needsLocalApps);
          commonParams =
            \<lparr>common_params.includeBackwardCompatibility = includeBackwardCompatibility,
             needsLocalAccess = needsLocalAccess,
             common_params.needsFileSystemAccess = needsFileSystemAccess,
             common_params.needsLocalApps = needsLocalApps,
             needsSessionConfig = detectedSessionConfig\<rparr>
      in if migrationPath = ''local-stdio-only'' then Inr (generateLocalStdioOverview commonParams)
         else if migrationPath = ''ts-smithery-cli'' then Inr (generateSmitheryCLIOverview commonParams)
         else if migrationPath = ''ts-custom-container'' then Inr (generateTypeScriptContainerOverview commonParams)
         else if migrationPath = ''py-custom-container'' then Inr (generatePythonContainerOverview commonParams)
         else Inl (Error (''Unsupported migration path: '' @ migrationPath)))\<close>

text \<open>The fixed "contact support" plan of the local-only path.\<close>

definition contact_support_plan :: MigrationOverview where
  \<open>contact_support_plan =
     \<lparr>MigrationOverview.migrationPath = ''local-stdio-only'',
      title = ''Local STDIO Servers - Contact Support'',
      description = ''Your server needs local file system access or local application integration. We're actively working on improving support for local servers and would love to work with you personally to get yours set up - no migration work needed on your end!'',
      prerequisites = [''Nothing! We'll handle the setup for you.''],
      filesNeeded = [],
      projectStructure =
        \<lparr>project_structure.description = ''Keep your existing project structure - no changes needed'',
         structure = ''No changes to your existing codebase required''\<rparr>,
      deploymentSteps =
        [([CHR 0xF0, CHR 0x9F, CHR 0x93, CHR 0xA7] @ '' Email us: contact@smithery.ai''),
         ([CHR 0xF0, CHR 0x9F, CHR 0x92, CHR 0xAC] @ '' Join our Discord: https://discord.gg/sKd9uycgH9''),
         ''We'll work with you directly to get your server set up - no work needed on your end!''],
      additionalNotes = [],
      nextSteps = []\<rparr>\<close>

section \<open>Serializing JSON values (JSON.stringify, formatObjectAsYaml)\<close>

definition hex_digit :: "nat \<Rightarrow> char" where
  "hex_digit n = (if n < 10 then char_of (48 + n) else char_of (87 + n))"

text \<open>The escapes of \<open>JSON.stringify\<close> inside a quoted string.\<close>

definition json_escape_char :: "char \<Rightarrow> string" where
  \<open>json_escape_char c =
     (if c = CHR 0x22 then [CHR 0x5C, CHR 0x22]
      else if c = CHR 0x5C then [CHR 0x5C, CHR 0x5C]
      else if c = CHR 0x08 then [CHR 0x5C, CHR ''b'']
      else if c = CHR 0x09 then [CHR 0x5C, CHR ''t'']
      else if c = CHR 0x0A then [CHR 0x5C, CHR ''n'']
      else if c = CHR 0x0C then [CHR 0x5C, CHR ''f'']
      else if c = CHR 0x0D then [CHR 0x5C, CHR ''r'']
      else if (of_char c :: nat) < 32
        then [CHR 0x5C, CHR ''u'', CHR ''0'', CHR ''0'', hex_digit (of_char c div 16), hex_digit (of_char c mod 16)]
      else [c])\<close>

definition json_quote :: "string \<Rightarrow> string" where
  \<open>json_quote s = [CHR 0x22] @ concat (map json_escape_char s) @ [CHR 0x22]\<close>

fun json_stringify :: "json \<Rightarrow> string" where
  "json_stringify JNull = ''null''"
| "json_stringify (JBool b) = (if b then ''true'' else ''false'')"
| "json_stringify (JNum n) = (if n \<in> {''NaN'', ''Infinity'', ''-Infinity''} then ''null'' else n)"
| "json_stringify (JStr s) = json_quote s"
| "json_stringify (JArr xs) = ''['' @ join '','' (map json_stringify xs) @ '']''"
| "json_stringify (JObj kvs) =
     ''{'' @ join '','' (map (\<lambda>kv. json_quote (fst kv) @ '':'' @ json_stringify (snd kv)) kvs) @ ''}''"

text \<open>\<open>typeof v === 'object' && v !== null\<close>: objects and arrays.\<close>

fun is_object :: "json \<Rightarrow> bool" where
  "is_object (JObj kvs) = True"
| "is_object (JArr xs) = True"
| "is_object v = False"

text \<open>
  \<open>formatObjectAsYaml\<close>: a value that is no object is printed alone; otherwise one line
  per scalar entry, a nested block per object entry, a dash list per array entry.
\<close>

function formatObjectAsYaml :: "json \<Rightarrow> nat \<Rightarrow> string" where
  \<open>formatObjectAsYaml obj indent =
     (let spaces = replicate indent CHR '' '' in
      if \<not> is_object obj then spaces @ json_stringify obj @ ''\<newline>''
      else concat (map (\<lambda>kv.
             case snd kv of
               JObj kvs \<Rightarrow> spaces @ fst kv @ '':\<newline>'' @ formatObjectAsYaml (snd kv) (indent + 2)
             | JArr items \<Rightarrow>
                 spaces @ fst kv @ '':\<newline>''
                 @ concat (map (\<lambda>item. spaces @ ''  - '' @ json_stringify item @ ''\<newline>'') items)
             | _ \<Rightarrow> spaces @ fst kv @ '': '' @ json_stringify (snd kv) @ ''\<newline>'')
           (entries obj)))\<close>
  by pat_completeness auto
termination
proof (relation "measure (\<lambda>(obj, indent). size obj)")
  fix obj :: json and indent :: nat and spaces :: string and kv :: "string \<times> json"
    and kvs :: "(string \<times> json) list"
  assume obj: "\<not> \<not> is_object obj" and kv: "kv \<in> set (entries obj)"
  have "size (snd kv) < size obj"
  proof (cases obj)
    case (JArr xs)
    with kv have "(fst kv, snd kv) \<in> set (zip (map show_nat [0..<length xs]) xs)" by simp
    then have "snd kv \<in> set xs" by (rule set_zip_rightD)
    then have "size (snd kv) < Suc (size_list size xs)" by (induction xs) auto
    with JArr show ?thesis by simp
  next
    case (JObj es)
    with kv have "kv \<in> set es" by simp
    then have "size (snd kv) < Suc (size_list (size_prod (\<lambda>x. 0) size) es)"
      by (induction es) auto
    with JObj show ?thesis by simp
  qed (use obj in auto)
  then show "((snd kv, indent + 2), (obj, indent)) \<in> measure (\<lambda>(obj, indent). size obj)"
    by simp
qed simp

section \<open>Deployment descriptor generator (smithery-yaml-generator.ts)\<close>

record SmitheryYamlParams =
  runtime :: "string option"
  startCommandType :: string
  configSchema :: "json option"
  exampleConfig :: "json option"
  env :: "(string \<times> string) list option"
  dockerfile :: "string option"
  dockerBuildPath :: "string option"
  commandFunction :: "string option"
  debug :: "bool option"

text \<open>Truthiness of an optional string: missing and empty are falsy.\<close>

definition truthy_str :: "string option \<Rightarrow> bool" where
  "truthy_str s = (case s of None \<Rightarrow> False | Some x \<Rightarrow> x \<noteq> [])"

record build_object =
  dockerfile :: "string option"
  dockerBuildPath :: "string option"

record start_command =
  type :: string
  commandFunction :: "string option"
  configSchema :: "json option"
  exampleConfig :: "json option"

text \<open>
  The object \<open>yamlContent\<close> is the list of its entries in insertion order. An entry is
  given by its key and the value stored under it: \<open>runtime\<close> holds a string, \<open>build\<close>,
  \<open>startCommand\<close> and \<open>env\<close> hold objects.
\<close>

datatype yaml_field =
    FRuntime string
  | FBuild build_object
  | FStartCommand start_command
  | FEnv "(string \<times> string) list"

fun key_of :: "yaml_field \<Rightarrow> string" where
  "key_of (FRuntime v) = ''runtime''"
| "key_of (FBuild b) = ''build''"
| "key_of (FStartCommand sc) = ''startCommand''"
| "key_of (FEnv e) = ''env''"

text \<open>
  \<open>yamlContent[key] = value\<close>: an existing key keeps its place, a new key goes to the end.
\<close>

fun obj_set :: "yaml_field \<Rightarrow> yaml_field list \<Rightarrow> yaml_field list" where
  "obj_set f [] = [f]"
| "obj_set f (g # gs) = (if key_of g = key_of f then f # gs else g # obj_set f gs)"

text \<open>\<open>String.prototype.trimEnd\<close> on ASCII white space and line terminators.\<close>

definition is_space :: "char \<Rightarrow> bool" where
  "is_space c = (c = CHR '' '' \<or> c = CHR 0x09 \<or> c = CHR 0x0A \<or> c = CHR 0x0B \<or> c = CHR 0x0C \<or> c = CHR 0x0D)"

definition trimEnd :: "string \<Rightarrow> string" where
  "trimEnd s = rev (dropWhile is_space (rev s))"

text \<open>\<open>s.split(sep)\<close> for a separator of one character.\<close>

fun split_on :: "char \<Rightarrow> string \<Rightarrow> string list" where
  "split_on sep [] = [[]]"
| "split_on sep (c # cs) =
     (if c = sep then [] # split_on sep cs
      else (case split_on sep cs of [] \<Rightarrow> [[c]] | l # ls \<Rightarrow> (c # l) # ls))"

definition is_local_only_stdio :: "SmitheryYamlParams \<Rightarrow> bool" where
  "is_local_only_stdio params =
     (startCommandType params = ''stdio'' \<and> truthy_str (SmitheryYamlParams.commandFunction params))"

text \<open>The object stored under \<open>startCommand\<close>.\<close>

definition startCommand_of :: "SmitheryYamlParams \<Rightarrow> start_command" where
  \<open>startCommand_of params =
     \<lparr>type = startCommandType params,
      start_command.commandFunction =
        (if startCommandType params = ''stdio'' \<and> truthy_str (SmitheryYamlParams.commandFunction params)
         then SmitheryYamlParams.commandFunction params else None),
      start_command.configSchema = Some (or_empty (SmitheryYamlParams.configSchema params)),
      start_command.exampleConfig = Some (or_empty (SmitheryYamlParams.exampleConfig params))\<rparr>\<close>

text \<open>The object \<open>yamlContent\<close> as it stands before it is converted to text.\<close>

definition yamlContent :: "SmitheryYamlParams \<Rightarrow> yaml_field list" where
  \<open>yamlContent params =
     (let isLocalOnlyStdio = is_local_only_stdio params;
          y0 = ([] :: yaml_field list);
          y1 = (if runtime params = Some ''typescript'' then
                  (let y = obj_set (FRuntime ''typescript'') y0 in
                   case env params of None \<Rightarrow> y | Some e \<Rightarrow> obj_set (FEnv e) y)
                else if \<not> isLocalOnlyStdio then
                  (let y = (if truthy_str (runtime params)
                            then obj_set (FRuntime (the (runtime params))) y0 else y0)
                   in if truthy_str (SmitheryYamlParams.dockerfile params)
                         \<or> truthy_str (SmitheryYamlParams.dockerBuildPath params)
                      then obj_set
                             (FBuild \<lparr>build_object.dockerfile =
                                        (if truthy_str (SmitheryYamlParams.dockerfile params)
                                         then SmitheryYamlParams.dockerfile params else None),
                                      build_object.dockerBuildPath =
                                        (if truthy_str (SmitheryYamlParams.dockerBuildPath params)
                                         then SmitheryYamlParams.dockerBuildPath params else None)\<rparr>) y
                      else y)
                else y0);
          y2 = obj_set (FStartCommand (startCommand_of params)) y1
      in case env params of None \<Rightarrow> y2 | Some e \<Rightarrow> obj_set (FEnv e) y2)\<close>

definition render_config :: "json \<Rightarrow> string" where
  \<open>render_config c = (if length (entries c) = 0 then ''    {}\<newline>'' else formatObjectAsYaml c 4)\<close>

definition render_startCommand :: "start_command \<Rightarrow> string" where
  \<open>render_startCommand startCommand =
     trimEnd
       (''startCommand:\<newline>''
        @ ''  type: "'' @ type startCommand @ ''"\<newline>''
        @ (if truthy_str (start_command.commandFunction startCommand) then
             (''  commandFunction:\<newline>'' @
              ''    # A JS function that produces the CLI command based on the given config to start the MCP on stdio.\<newline>'' @
              ''    |-\<newline>'')
             @ concat (map (\<lambda>line. ''    '' @ line @ ''\<newline>'')
                         (split_on CHR 0x0A (the (start_command.commandFunction startCommand))))
           else [])
        @ (case start_command.configSchema startCommand of
             None \<Rightarrow> []
           | Some c \<Rightarrow>
               ''  # JSON Schema defining the configuration options for the MCP.\<newline>''
               @ ''  configSchema:\<newline>'' @ render_config c)
        @ (case start_command.exampleConfig startCommand of
             None \<Rightarrow> []
           | Some c \<Rightarrow> ''  exampleConfig:\<newline>'' @ render_config c))\<close>

definition render_build :: "build_object \<Rightarrow> string" where
  \<open>render_build build =
     trimEnd
       (''build:\<newline>''
        @ (if truthy_str (build_object.dockerfile build)
           then ''  dockerfile: "'' @ the (build_object.dockerfile build) @ ''"\<newline>'' else [])
        @ (if truthy_str (build_object.dockerBuildPath build)
           then ''  dockerBuildPath: "'' @ the (build_object.dockerBuildPath build) @ ''"\<newline>'' else []))\<close>

definition render_env :: "(string \<times> string) list \<Rightarrow> string" where
  \<open>render_env e =
     trimEnd (''env:\<newline>'' @ concat (map (\<lambda>kv. ''  '' @ fst kv @ '': "'' @ snd kv @ ''"\<newline>'') e))\<close>

text \<open>
  The conversion of one entry of \<open>yamlContent\<close>, chosen by the key and the type of the
  value. The last branch of the source (\<open>JSON.stringify\<close> of a value that is neither an
  object under one of the three keys nor a string) is never taken.
\<close>

fun render_entry :: "yaml_field \<Rightarrow> string" where
  \<open>render_entry (FStartCommand sc) = render_startCommand sc\<close>
| \<open>render_entry (FBuild b) = render_build b\<close>
| \<open>render_entry (FEnv e) = render_env e\<close>
| \<open>render_entry (FRuntime v) = ''runtime: "'' @ v @ ''"''\<close>

definition generateSmitheryYaml :: "SmitheryYamlParams \<Rightarrow> string" where
  \<open>generateSmitheryYaml params =
     (let comment = ''# Smithery configuration file: https://smithery.ai/docs/build/project-config/smithery-yaml\<newline>'';
          yamlString = join ''\<newline>'' (map render_entry (yamlContent params))
      in comment @ yamlString @ ''\<newline>'')\<close>

text \<open>
  The field order the specification gives, and a request for the TypeScript runtime with
  an environment.
\<close>

definition spec_field_order :: "string list" where
  "spec_field_order = [''runtime'', ''build'', ''startCommand'', ''env'']"

definition typescript_env_params :: SmitheryYamlParams where
  \<open>typescript_env_params =
     \<lparr>runtime = Some ''typescript'', startCommandType = ''http'',
      SmitheryYamlParams.configSchema = None, SmitheryYamlParams.exampleConfig = None,
      env = Some [(''API_URL'', ''https://example.com'')],
      SmitheryYamlParams.dockerfile = None, SmitheryYamlParams.dockerBuildPath = None,
      SmitheryYamlParams.commandFunction = None, debug = None\<rparr>\<close>

definition container_stdio_params :: SmitheryYamlParams where
  \<open>container_stdio_params =
     \<lparr>runtime = Some ''container'', startCommandType = ''stdio'',
      SmitheryYamlParams.configSchema = None, SmitheryYamlParams.exampleConfig = None,
      env = None,
      SmitheryYamlParams.dockerfile = Some ''Dockerfile'', SmitheryYamlParams.dockerBuildPath = None,
      SmitheryYamlParams.commandFunction = Some ''(config) => ({ command: 'node', args: ['dist/index.js'] })'',
      debug = None\<rparr>\<close>

definition container_http_params :: SmitheryYamlParams where
  \<open>container_http_params =
     \<lparr>runtime = Some ''container'', startCommandType = ''http'',
      SmitheryYamlParams.configSchema =
        Some (JObj [(''type'', JStr ''object''),
                    (''properties'', JObj [(''apiKey'', JObj [(''type'', JStr ''string'')])])]),
      SmitheryYamlParams.exampleConfig = None,
      env = Some [(''NODE_ENV'', ''production'')],
      SmitheryYamlParams.dockerfile = Some ''Dockerfile'', SmitheryYamlParams.dockerBuildPath = Some ''.'',
      SmitheryYamlParams.commandFunction = None, debug = None\<rparr>\<close>

section \<open>Shared template utilities (templates/utils.ts)\<close>

record McpTool =
  name :: string
  description :: string
  inputSchema :: "json option"
  handler :: "string option"

record McpPrompt =
  name :: string
  description :: string
  argsSchema :: "json option"
  template :: "string option"

record McpResource =
  name :: string
  uri :: string
  description :: string
  mimeType :: "string option"
  handler :: "string option"

record SmitheryMigrationParams =
  tools :: "McpTool list"
  prompts :: "McpPrompt list"
  resources :: "McpResource list"
  serverName :: string
  serverVersion :: string
  includeBackwardCompatibility :: bool
  smitheryYaml :: "string option"

text \<open>\<open>s || d\<close> for an optional string.\<close>

definition str_or :: "string option \<Rightarrow> string \<Rightarrow> string" where
  "str_or s d = (if truthy_str s then the s else d)"

text \<open>\<open>replace(/_/g, ' ')\<close>\<close>

definition underscores_to_spaces :: "string \<Rightarrow> string" where
  "underscores_to_spaces s = map (\<lambda>c. if c = CHR ''_'' then CHR '' '' else c) s"

text \<open>
  \<open>replace(/\b\w/g, l => l.toUpperCase())\<close>: a word character that follows no word
  character is put in upper case. The flag tells whether the previous character was a
  word character.
\<close>

definition is_word :: "char \<Rightarrow> bool" where
  "is_word c = (is_upper c \<or> is_lower c \<or> is_digit c \<or> c = CHR ''_'')"

fun capitalize_from :: "bool \<Rightarrow> string \<Rightarrow> string" where
  "capitalize_from prev [] = []"
| "capitalize_from prev (c # cs) =
     (if is_word c \<and> \<not> prev then upper_char c else c) # capitalize_from (is_word c) cs"

definition title_of :: "string \<Rightarrow> string" where
  "title_of n = capitalize_from False (underscores_to_spaces n)"

text \<open>\<open>replace(/"/g, '\\"')\<close>\<close>

definition escape_quotes :: "string \<Rightarrow> string" where
  "escape_quotes s = concat (map (\<lambda>c. if c = CHR 0x22 then [CHR 0x5C, CHR 0x22] else [c]) s)"

text \<open>\<open>replace(/([A-Z])/g, '_$1')\<close>\<close>

definition underscore_before_upper :: "string \<Rightarrow> string" where
  "underscore_before_upper s = concat (map (\<lambda>c. if is_upper c then [CHR ''_'', c] else [c]) s)"

text \<open>\<open>replace(/-/g, '_')\<close>\<close>

definition dashes_to_underscores :: "string \<Rightarrow> string" where
  "dashes_to_underscores s = map (\<lambda>c. if c = CHR ''-'' then CHR ''_'' else c) s"

text \<open>
  \<open>required.includes(key)\<close> on a truthy value: membership for an array, the substring test
  for a string; any other value has no \<open>includes\<close> and the call throws.
\<close>

definition js_includes :: "json \<Rightarrow> string \<Rightarrow> error + bool" where
  "js_includes required' key =
     (case required' of
        JArr xs \<Rightarrow> Inr (JStr key \<in> set xs)
      | JStr s \<Rightarrow> Inr (sublist key s)
      | _ \<Rightarrow> Inl TypeError)"

text \<open>\<open>schema.required || []\<close>\<close>

definition or_empty_array :: "json option \<Rightarrow> json" where
  "or_empty_array v = (case v of None \<Rightarrow> JArr [] | Some x \<Rightarrow> if truthy x then x else JArr [])"

text \<open>
  The text of a default value: a string in double quotes, any other value converted by
  \<open>String\<close> or by the template literal.
\<close>

definition default_text :: "json \<Rightarrow> error + string" where
  \<open>default_text d =
     (case d of
        JStr s \<Rightarrow> Inr (''"'' @ s @ ''"'')
      | _ \<Rightarrow> js_String d)\<close>

text \<open>
  The callback of \<open>generateZodSchemaFromJson\<close> for one property. Reading \<open>prop.type\<close>
  throws when the property is \<open>null\<close>; a truthy description that is not a string has no
  \<open>replace\<close>.
\<close>

definition zod_property_line :: "json \<Rightarrow> string \<Rightarrow> string \<times> json \<Rightarrow> error + string" where
  \<open>zod_property_line required' indent kv =
     (let key = fst kv; prop = snd kv in
      if prop = JNull then Inl TypeError
      else
        let t = get prop ''type'';
            zodType0 =
              (if t = Some (JStr ''string'') then ''z.string()''
               else if t = Some (JStr ''number'') then ''z.number()''
               else if t = Some (JStr ''integer'') then ''z.number().int()''
               else if t = Some (JStr ''boolean'') then ''z.boolean()''
               else if t = Some (JStr ''array'') then ''z.array(z.any())''
               else if t = Some (JStr ''object'') then ''z.record(z.any())''
               else ''z.unknown()'')
        in case (case get prop ''default'' of
                   Some d \<Rightarrow>
                     (case default_text d of
                        Inl e \<Rightarrow> Inl e
                      | Inr defaultValue \<Rightarrow> Inr (zodType0 @ ''.default('' @ defaultValue @ '')''))
                 | None \<Rightarrow>
                     (case js_includes required' key of
                        Inl e \<Rightarrow> Inl e
                      | Inr b \<Rightarrow> Inr (if \<not> b then zodType0 @ ''.optional()'' else zodType0))) of
             Inl e \<Rightarrow> Inl e
           | Inr zodType1 \<Rightarrow>
               (case get prop ''description'' of
                  None \<Rightarrow> Inr (indent @ key @ '': '' @ zodType1 @ '','')
                | Some d \<Rightarrow>
                    if \<not> truthy d then Inr (indent @ key @ '': '' @ zodType1 @ '','')
                    else (case d of
                            JStr s \<Rightarrow>
                              Inr (indent @ key @ '': '' @ zodType1
                                   @ ''.describe("'' @ escape_quotes s @ ''")'' @ '','')
                          | _ \<Rightarrow> Inl TypeError)))\<close>

text \<open>
  \<open>generateZodSchemaFromJson\<close>. Every caller passes a truthy schema; reading a property of
  \<open>null\<close> would throw.
\<close>

definition generateZodSchemaFromJson :: "json \<Rightarrow> string \<Rightarrow> error + string" where
  \<open>generateZodSchemaFromJson schema indent =
     (if schema = JNull then Inl TypeError
      else
        let properties = or_empty (get schema ''properties'');
            required' = or_empty_array (get schema ''required'')
        in case sequence_err (map (zod_property_line required' indent) (entries properties)) of
             Inl e \<Rightarrow> Inl e
           | Inr ls \<Rightarrow> Inr (join ''\<newline>'' ls))\<close>

text \<open>The callback of \<open>generateEnvConfigParsing\<close> for one property.\<close>

definition env_config_line :: "string \<times> json \<Rightarrow> error + string" where
  \<open>env_config_line kv =
     (let key = fst kv; prop = snd kv; envVar = ''process.env.'' @ toUpperCase key in
      if prop = JNull then Inl TypeError
      else if get prop ''type'' = Some (JStr ''boolean'') then
        Inr (''    '' @ key @ '': '' @ envVar @ '' === 'true','')
      else if get prop ''type'' = Some (JStr ''number'') \<or> get prop ''type'' = Some (JStr ''integer'') then
        Inr (''    '' @ key @ '': '' @ envVar @ '' ? Number('' @ envVar @ '') : undefined,'')
      else Inr (''    '' @ key @ '': '' @ envVar @ '',''))\<close>

definition generateEnvConfigParsing :: "json option \<Rightarrow> error + string" where
  \<open>generateEnvConfigParsing configSchema' =
     (if \<not> truthy_opt configSchema' \<or> \<not> truthy_opt (get (the configSchema') ''properties'') then
        Inr ''const config = {};''
      else
        case sequence_err (map env_config_line (entries (the (get (the configSchema') ''properties'')))) of
          Inl e \<Rightarrow> Inl e
        | Inr configLines \<Rightarrow>
            Inr (''const config = configSchema.parse({\<newline>'' @ join ''\<newline>'' configLines @ (''\<newline>'' @
                                       ''  });'')))\<close>

definition generateResourcesCode :: "McpResource list \<Rightarrow> string" where
  \<open>generateResourcesCode rs =
     (if length rs = 0 then ''  // No resources to register''
      else
        let firstResource = hd rs;
            mime = str_or (mimeType firstResource) ''text/plain'';
            isHttpsUrl = prefix ''https://'' (uri firstResource);
            resourcesCode0 =
              (if isHttpsUrl then
                 ''  // Resource: '' @ McpResource.name firstResource @ (''\<newline>'' @
                                                                         ''  server.registerResource(\<newline>'' @
                                                                         ''    "'') @ sanitizeId (McpResource.name firstResource) @ (''",\<newline>'' @
                                                        ''    "'') @ uri firstResource @ (''",\<newline>'' @
                              ''    {\<newline>'' @
                              ''      title: "'') @ McpResource.name firstResource @ (''",\<newline>'' @
                                                    ''      description: "'') @ McpResource.description firstResource @ (''",\<newline>'' @
                                                                 ''      mimeType: "'') @ mime @ (''"\<newline>'' @
                             ''    },\<newline>'' @
                             ''    async (uri) => {\<newline>'' @
                             ''      try {\<newline>'' @
                             ''        const response = await fetch(uri.href);\<newline>'' @
                             ''        if (!response.ok) {\<newline>'' @
                             ''          throw new Error(`Failed to fetch resource: ${response.status}`);\<newline>'' @
                             ''        }\<newline>'' @
                             ''        const content = await response.text();\<newline>'' @
                             ''        return {\<newline>'' @
                             ''          contents: [{\<newline>'' @
                             ''            uri: uri.href,\<newline>'' @
                             ''            mimeType: "'') @ mime @ (''",\<newline>'' @
                                   ''            text: content\<newline>'' @
                                   ''          }]\<newline>'' @
                                   ''        };\<newline>'' @
                                   ''      } catch (error) {\<newline>'' @
                                   ''        throw new Error(`Failed to read resource ${uri.href}: ${error instanceof Error ? error.message : String(error)}`);\<newline>'' @
                                   ''      }\<newline>'' @
                                   ''    }\<newline>'' @
                                   ''  );'')
               else
                 ''  // Resource: '' @ McpResource.name firstResource @ (''\<newline>'' @
                                                                         ''  server.registerResource(\<newline>'' @
                                                                         ''    "'') @ sanitizeId (McpResource.name firstResource) @ (''",\<newline>'' @
                                                        ''    "'') @ uri firstResource @ (''",\<newline>'' @
                              ''    {\<newline>'' @
                              ''      title: "'') @ McpResource.name firstResource @ (''",\<newline>'' @
                                                    ''      description: "'') @ McpResource.description firstResource @ (''",\<newline>'' @
                                                                 ''      mimeType: "'') @ mime @ (''"\<newline>'' @
                             ''    },\<newline>'' @
                             ''    async (uri) => {\<newline>'' @
                             ''      // TODO: Implement resource handler for '') @ McpResource.name firstResource @ (''\<newline>'' @
                                                                                    ''      return {\<newline>'' @
                                                                                    ''        contents: [{\<newline>'' @
                                                                                    ''          uri: uri.href,\<newline>'' @
                                                                                    ''          mimeType: "'') @ mime @ (''",\<newline>'' @
                                 ''          text: "Resource content here"\<newline>'' @
                                 ''        }]\<newline>'' @
                                 ''      };\<newline>'' @
                                 ''    }\<newline>'' @
                                 ''  );''));
            resourcesCode =
              (if length rs > 1 then
                 let remainingResources =
                       join ''\<newline>''
                         (map (\<lambda>r. ''  // TODO: Register resource "'' @ McpResource.name r @ ''" - ''
                                    @ McpResource.description r @ '' ('' @ uri r @ '')'')
                              (drop 1 rs))
                 in resourcesCode0 @ (''\<newline>'' @
                                      ''\<newline>'' @
                                      ''  // Additional resources to implement:\<newline>'') @ remainingResources
               else resourcesCode0)
        in ''  // Register resources\<newline>'' @ resourcesCode)\<close>

definition generatePromptsCode :: "McpPrompt list \<Rightarrow> error + string" where
  \<open>generatePromptsCode ps =
     (if length ps = 0 then Inr ''  // No prompts to register''
      else
        let firstPrompt = hd ps in
        case (case argsSchema firstPrompt of
                None \<Rightarrow> Inr ''      argsSchema: {}''
              | Some a \<Rightarrow>
                  if \<not> truthy a then Inr ''      argsSchema: {}''
                  else (case generateZodSchemaFromJson a ''        '' of
                          Inl e \<Rightarrow> Inl e
                        | Inr z \<Rightarrow> Inr (''      argsSchema: {\<newline>'' @ z @ (''\<newline>'' @
         ''      }'')))) of
          Inl e \<Rightarrow> Inl e
        | Inr argsSchemaString \<Rightarrow>
            let promptsCode0 =
                  ''  // Prompt: '' @ McpPrompt.name firstPrompt @ (''\<newline>'' @
                                                                    ''  server.registerPrompt(\<newline>'' @
                                                                    ''    "'') @ McpPrompt.name firstPrompt @ (''",\<newline>'' @
                                       ''    {\<newline>'' @
                                       ''      title: "'') @ title_of (McpPrompt.name firstPrompt) @ (''",\<newline>'' @
                                                           ''      description: "'') @ McpPrompt.description firstPrompt @ ''",\<newline>'' @ argsSchemaString @ (''\<newline>'' @
                        ''    },\<newline>'' @
                        ''    async (args) => {\<newline>'' @
                        ''      // TODO: Implement prompt handler for '') @ McpPrompt.name firstPrompt @ (''\<newline>'' @
                                                                              ''      return {\<newline>'' @
                                                                              ''        messages: [\<newline>'' @
                                                                              ''          {\<newline>'' @
                                                                              ''            role: "user",\<newline>'' @
                                                                              ''            content: {\<newline>'' @
                                                                              ''              type: "text",\<newline>'' @
                                                                              ''              text: "'') @ str_or (template firstPrompt) ''Prompt template here'' @ (''"\<newline>'' @
                                                                                   ''            }\<newline>'' @
                                                                                   ''          }\<newline>'' @
                                                                                   ''        ]\<newline>'' @
                                                                                   ''      };\<newline>'' @
                                                                                   ''    }\<newline>'' @
                                                                                   ''  );'');
                promptsCode =
                  (if length ps > 1 then
                     let remainingPrompts =
                           join ''\<newline>''
                             (map (\<lambda>p. ''  // TODO: Register prompt "'' @ McpPrompt.name p @ ''" - ''
                                        @ McpPrompt.description p)
                                  (drop 1 ps))
                     in promptsCode0 @ (''\<newline>'' @
                                        ''\<newline>'' @
                                        ''  // Additional prompts to implement:\<newline>'') @ remainingPrompts
                   else promptsCode0)
            in Inr (''  // Register prompts\<newline>'' @ promptsCode))\<close>

definition generateServerReturn :: string where
  \<open>generateServerReturn = ''  return server.server;''\<close>

section \<open>CLI-managed TypeScript generator (templates/smithery-cli-template.ts)\<close>

definition generateImports :: "bool \<Rightarrow> string" where
  \<open>generateImports includeBackwardCompatibility' =
     (let imports = (''import { McpServer } from "@modelcontextprotocol/sdk/server/mcp.js";\<newline>'' @
                     ''import { z } from "zod";'')
      in if includeBackwardCompatibility' then imports @ (''\<newline>'' @
                                                          ''import { StdioServerTransport } from "@modelcontextprotocol/sdk/server/stdio.js";'')
         else imports)\<close>

definition generateConfigSchema :: "json option \<Rightarrow> error + string" where
  \<open>generateConfigSchema actualConfigSchema =
     (if has_keys actualConfigSchema then
        (case generateZodSchemaFromJson (the actualConfigSchema) ''  '' of
           Inl e \<Rightarrow> Inl e
         | Inr schemaString \<Rightarrow>
             Inr ((''// Configuration schema extracted from your existing server\<newline>'' @
                   ''export const configSchema = z.object({\<newline>'') @ schemaString @ (''\<newline>'' @
                    ''});'')))
      else Inr (''// Configuration schema for smithery.yaml\<newline>'' @
                ''export const configSchema = z.object({});''))\<close>

definition generateServerCreation :: "string \<Rightarrow> string \<Rightarrow> string" where
  \<open>generateServerCreation serverName' serverVersion' =
     (''  const server = new McpServer({\<newline>'' @
      ''    name: "'') @ serverName' @ (''",\<newline>'' @
                              ''    version: "'') @ serverVersion' @ (''",\<newline>'' @
                                    ''  });'')\<close>

text \<open>The text of \<open>inputSchema\<close> in a tool registration (both TypeScript generators).\<close>

definition inputSchemaString :: "McpTool \<Rightarrow> error + string" where
  \<open>inputSchemaString tool =
     (case inputSchema tool of
        None \<Rightarrow> Inr ''      inputSchema: {}''
      | Some a \<Rightarrow>
          if \<not> truthy a then Inr ''      inputSchema: {}''
          else (case generateZodSchemaFromJson a ''        '' of
                  Inl e \<Rightarrow> Inl e
                | Inr z \<Rightarrow> Inr (''      inputSchema: {\<newline>'' @ z @ (''\<newline>'' @
         ''      }''))))\<close>

definition configComment :: "bool \<Rightarrow> string" where
  \<open>configComment hasConfig =
     (if hasConfig then (''\<newline>'' @
                         ''      // TODO: Use the config parameter for API calls, timeout settings, etc.'') else [])\<close>

definition configLog :: "bool \<Rightarrow> string" where
  \<open>configLog hasConfig =
     (if hasConfig then (''\<newline>'' @
                         ''      console.log('Available config:', config);'') else [])\<close>

definition generateToolsCode :: "McpTool list \<Rightarrow> bool \<Rightarrow> error + string" where
  \<open>generateToolsCode ts hasConfig =
     (if length ts = 0 then Inr ''  // No tools to register''
      else
        let firstTool = hd ts in
        case inputSchemaString firstTool of
          Inl e \<Rightarrow> Inl e
        | Inr inputSchemaString' \<Rightarrow>
            let toolsCode0 =
                  ''  // Tool: '' @ McpTool.name firstTool @ (''\<newline>'' @
                                                              ''  server.registerTool(\<newline>'' @
                                                              ''    "'') @ McpTool.name firstTool @ (''",\<newline>'' @
                                   ''    {\<newline>'' @
                                   ''      title: "'') @ title_of (McpTool.name firstTool) @ (''",\<newline>'' @
                                                       ''      description: "'') @ McpTool.description firstTool @ ''",\<newline>'' @ inputSchemaString' @ (''\<newline>'' @
                          ''    },\<newline>'' @
                          ''    async (request) => {\<newline>'' @
                          ''      // TODO: Implement tool handler for '') @ McpTool.name firstTool @ configComment hasConfig @ (''\<newline>'' @
                                                                                                  ''      console.log('Tool '') @ McpTool.name firstTool @ '' called with args:', request);'' @ configLog hasConfig @ (''\<newline>'' @
                                                                                                               ''      return {\<newline>'' @
                                                                                                               ''        content: [{\<newline>'' @
                                                                                                               ''          type: "text" as const,\<newline>'' @
                                                                                                               ''          text: "Tool '') @ McpTool.name firstTool @ ('' executed successfully"\<newline>'' @
                                                    ''        }]\<newline>'' @
                                                    ''      };\<newline>'' @
                                                    ''    }\<newline>'' @
                                                    ''  );'');
                toolsCode =
                  (if length ts > 1 then
                     let remainingTools =
                           join ''\<newline>''
                             (map (\<lambda>tool. ''  // TODO: Register tool "'' @ McpTool.name tool @ ''" - ''
                                           @ McpTool.description tool)
                                  (drop 1 ts))
                     in toolsCode0 @ (''\<newline>'' @
                                      ''\<newline>'' @
                                      ''  // Additional tools to implement:\<newline>'') @ remainingTools
                   else toolsCode0)
            in Inr (''  // Register tools\<newline>'' @ toolsCode))\<close>

text \<open>Both branches of \<open>serverCall\<close> in the source are the same text.\<close>

definition generateBackwardsCompatibilityCode :: "json option \<Rightarrow> error + string" where
  \<open>generateBackwardsCompatibilityCode configSchema' =
     (case generateEnvConfigParsing configSchema' of
        Inl e \<Rightarrow> Inl e
      | Inr configParsing \<Rightarrow>
          let hasConfig = has_keys configSchema';
              serverCall = (if hasConfig then (''const server = createServer({\<newline>'' @
                                               ''    config\<newline>'' @
                                               ''  });'') else (''const server = createServer({\<newline>'' @
             ''    config\<newline>'' @
             ''  });''))
          in Inr ((''\<newline>'' @
                   ''\<newline>'' @
                   ''// STDIO backwards compatibility - only runs when executed directly\<newline>'' @
                   ''async function main() {\<newline>'' @
                   ''  // Get configuration from environment variables\<newline>'' @
                   ''  '') @ configParsing @ (''\<newline>'' @
                       ''  \<newline>'' @
                       ''  // Create server with configuration\<newline>'' @
                       ''  '') @ serverCall @ (''\<newline>'' @
                    ''\<newline>'' @
                    ''  const transport = new StdioServerTransport();\<newline>'' @
                    ''  await server.connect(transport);\<newline>'' @
                    ''  console.error("MCP Server running in stdio mode");\<newline>'' @
                    ''}\<newline>'' @
                    ''\<newline>'' @
                    ''// By default run the server with stdio transport\<newline>'' @
                    ''main().catch((error) => {\<newline>'' @
                    ''  console.error("Server error:", error);\<newline>'' @
                    ''  process.exit(1);\<newline>'' @
                    ''});'')))\<close>

record template_params =
  tools :: "McpTool list"
  prompts :: "McpPrompt list"
  resources :: "McpResource list"
  serverName :: string
  serverVersion :: string
  includeBackwardCompatibility :: bool
  configSchema :: "json option"

definition generateIndexTsTemplate :: "template_params \<Rightarrow> error + string" where
  \<open>generateIndexTsTemplate params =
     (let imports = generateImports (template_params.includeBackwardCompatibility params);
          hasConfig = has_keys (template_params.configSchema params)
      in case (if hasConfig then generateConfigSchema (template_params.configSchema params) else Inr []) of
           Inl e \<Rightarrow> Inl e
         | Inr configSchemaCode \<Rightarrow>
             let serverCreation = generateServerCreation (template_params.serverName params)
                                    (template_params.serverVersion params);
                 resourcesCode = generateResourcesCode (template_params.resources params)
             in (case generateToolsCode (template_params.tools params) hasConfig of
                   Inl e \<Rightarrow> Inl e
                 | Inr toolsCode \<Rightarrow>
                     (case generatePromptsCode (template_params.prompts params) of
                        Inl e \<Rightarrow> Inl e
                      | Inr promptsCode \<Rightarrow>
                          (case (if template_params.includeBackwardCompatibility params
                                 then generateBackwardsCompatibilityCode (template_params.configSchema params)
                                 else Inr []) of
                             Inl e \<Rightarrow> Inl e
                           | Inr backwardsCompatibilityCode \<Rightarrow>
                               Inr (imports @ ''\<newline>''
                                    @ (if configSchemaCode \<noteq> [] then ''\<newline>'' @ configSchemaCode @ ''\<newline>''
                                       else (''\<newline>'' @
                                             ''// Configuration schema for smithery.yaml\<newline>'' @
                                             ''export const configSchema = z.object({});\<newline>''))
                                    @ (''\<newline>'' @
                                       ''export default function createServer({\<newline>'' @
                                       ''  config,\<newline>'' @
                                       ''}: {\<newline>'' @
                                       ''  config: z.infer<typeof configSchema>;\<newline>'' @
                                       ''}) {\<newline>'') @ serverCreation @ ''\<newline>\<newline>'' @ resourcesCode @ ''\<newline>\<newline>'' @ toolsCode
                                    @ ''\<newline>\<newline>'' @ promptsCode @ ''\<newline>\<newline>'' @ generateServerReturn
                                    @ ''\<newline>}'' @ backwardsCompatibilityCode @ ''\<newline>'')))))\<close>

text \<open>\<open>smitheryYaml ? extractConfigSchemaFromSmitheryYaml(smitheryYaml) : undefined\<close>\<close>

definition extractedConfigSchema :: "(string \<Rightarrow> json option) \<Rightarrow> string option \<Rightarrow> json option" where
  "extractedConfigSchema parse y =
     (if truthy_str y then extractConfigSchemaFromSmitheryYaml parse (the y) else None)"

definition template_params_of :: "(string \<Rightarrow> json option) \<Rightarrow> SmitheryMigrationParams \<Rightarrow> template_params" where
  "template_params_of parse params =
     \<lparr>template_params.tools = SmitheryMigrationParams.tools params,
      template_params.prompts = SmitheryMigrationParams.prompts params,
      template_params.resources = SmitheryMigrationParams.resources params,
      template_params.serverName = SmitheryMigrationParams.serverName params,
      template_params.serverVersion = SmitheryMigrationParams.serverVersion params,
      template_params.includeBackwardCompatibility = SmitheryMigrationParams.includeBackwardCompatibility params,
      template_params.configSchema = extractedConfigSchema parse (smitheryYaml params)\<rparr>"

definition generateSmitheryCliMigration :: "(string \<Rightarrow> json option) \<Rightarrow> SmitheryMigrationParams \<Rightarrow> error + string" where
  "generateSmitheryCliMigration parse params = generateIndexTsTemplate (template_params_of parse params)"

section \<open>Custom-container TypeScript generator (templates/custom-container-template.ts)\<close>

definition generateCustomContainerImports :: "bool \<Rightarrow> string" where
  \<open>generateCustomContainerImports includeBackwardCompatibility' =
     (let imports = (''import express, { Request, Response } from "express";\<newline>'' @
                     ''import cors from "cors";\<newline>'' @
                     ''import { McpServer } from "@modelcontextprotocol/sdk/server/mcp.js";\<newline>'' @
                     ''import { StreamableHTTPServerTransport } from "@modelcontextprotocol/sdk/server/streamableHttp.js";\<newline>'' @
                     ''import { z } from "zod";'')
      in if includeBackwardCompatibility' then imports @ (''\<newline>'' @
                                                          ''import { StdioServerTransport } from "@modelcontextprotocol/sdk/server/stdio.js";'')
         else imports)\<close>

definition generateExpressSetup :: string where
  \<open>generateExpressSetup = (''const app = express();\<newline>'' @
                                 ''const PORT = process.env.PORT || 8081;\<newline>'' @
                                 ''\<newline>'' @
                                 ''// CORS configuration for browser-based MCP clients\<newline>'' @
                                 ''app.use(cors({\<newline>'' @
                                 ''  origin: '*', // Configure appropriately for production\<newline>'' @
                                 ''  exposedHeaders: ['Mcp-Session-Id', 'mcp-protocol-version'],\<newline>'' @
                                 ''  allowedHeaders: ['Content-Type', 'mcp-session-id'],\<newline>'' @
                                 ''}));\<newline>'' @
                                 ''\<newline>'' @
                                 ''app.use(express.json());'')\<close>

definition generateCustomContainerConfigSchema :: "json option \<Rightarrow> error + string" where
  \<open>generateCustomContainerConfigSchema actualConfigSchema =
     (if has_keys actualConfigSchema then
        (case generateZodSchemaFromJson (the actualConfigSchema) ''  '' of
           Inl e \<Rightarrow> Inl e
         | Inr schemaString \<Rightarrow>
             Inr ((''// Configuration schema extracted from your existing server\<newline>'' @
                   ''export const configSchema = z.object({\<newline>'') @ schemaString @ (''\<newline>'' @
                    ''});'')))
      else Inr (''// Configuration schema for custom container\<newline>'' @
                ''export const configSchema = z.object({});''))\<close>

definition generateConfigFunctions :: string where
  \<open>generateConfigFunctions = (''// Parse configuration from query parameters\<newline>'' @
                                    ''function parseConfig(req: Request) {\<newline>'' @
                                    ''  const configParam = req.query.config as string;\<newline>'' @
                                    ''  if (configParam) {\<newline>'' @
                                    ''    return JSON.parse(Buffer.from(configParam, 'base64').toString());\<newline>'' @
                                    ''  }\<newline>'' @
                                    ''  return {};\<newline>'' @
                                    ''}'')\<close>

definition generateCustomContainerServerCreation :: "string \<Rightarrow> string \<Rightarrow> string" where
  \<open>generateCustomContainerServerCreation serverName' serverVersion' =
     (''  const server = new McpServer({\<newline>'' @
      ''    name: "'') @ serverName' @ (''",\<newline>'' @
                              ''    version: "'') @ serverVersion' @ (''",\<newline>'' @
                                    ''  });'')\<close>

text \<open>The callback of \<open>tools.map\<close> in \<open>generateCustomContainerToolsCode\<close>.\<close>

definition custom_container_tool :: "bool \<Rightarrow> McpTool \<Rightarrow> error + string" where
  \<open>custom_container_tool hasConfig tool =
     (case inputSchemaString tool of
        Inl e \<Rightarrow> Inl e
      | Inr inputSchemaString' \<Rightarrow>
          Inr (''  // Tool: '' @ McpTool.name tool @ (''\<newline>'' @
                                                      ''  server.registerTool(\<newline>'' @
                                                      ''    "'') @ McpTool.name tool @ (''",\<newline>'' @
                              ''    {\<newline>'' @
                              ''      title: "'') @ title_of (McpTool.name tool) @ (''",\<newline>'' @
                                                  ''      description: "'') @ McpTool.description tool @ ''",\<newline>'' @ inputSchemaString' @ (''\<newline>'' @
                          ''    },\<newline>'' @
                          ''    async (params) => {\<newline>'' @
                          ''      // TODO: Implement tool handler for '') @ McpTool.name tool @ configComment hasConfig @ (''\<newline>'' @
                                                                                             ''      console.log('Tool '') @ McpTool.name tool @ '' called with params:', params);'' @ configLog hasConfig @ (''\<newline>'' @
                                                                                                           ''      return {\<newline>'' @
                                                                                                           ''        content: [{\<newline>'' @
                                                                                                           ''          type: "text",\<newline>'' @
                                                                                                           ''          text: "Tool '') @ McpTool.name tool @ ('' executed successfully"\<newline>'' @
                                               ''        }]\<newline>'' @
                                               ''      };\<newline>'' @
                                               ''    }\<newline>'' @
                                               ''  );'')))\<close>

definition generateCustomContainerToolsCode :: "McpTool list \<Rightarrow> bool \<Rightarrow> error + string" where
  \<open>generateCustomContainerToolsCode ts hasConfig =
     (if length ts = 0 then Inr ''  // No tools to register''
      else
        case sequence_err (map (custom_container_tool hasConfig) ts) of
          Inl e \<Rightarrow> Inl e
        | Inr blocks \<Rightarrow> Inr (''  // Register tools\<newline>'' @ join ''\<newline>\<newline>'' blocks))\<close>

definition generateMcpRequestHandler :: "bool \<Rightarrow> string" where
  \<open>generateMcpRequestHandler hasConfig =
     (if hasConfig then (''// Handle MCP requests at /mcp endpoint\<newline>'' @
                         ''app.all('/mcp', async (req: Request, res: Response) => {\<newline>'' @
                         ''  try {\<newline>'' @
                         ''    // Parse configuration\<newline>'' @
                         ''    const rawConfig = parseConfig(req);\<newline>'' @
                         ''    \<newline>'' @
                         ''    // Validate and parse configuration\<newline>'' @
                         ''    const config = configSchema.parse(rawConfig);\<newline>'' @
                         ''    \<newline>'' @
                         ''    const server = createServer({ config });\<newline>'' @
                         ''    const transport = new StreamableHTTPServerTransport({\<newline>'' @
                         ''      sessionIdGenerator: undefined,\<newline>'' @
                         ''    });\<newline>'' @
                         ''\<newline>'' @
                         ''    // Clean up on request close\<newline>'' @
                         ''    res.on('close', () => {\<newline>'' @
                         ''      transport.close();\<newline>'' @
                         ''      server.close();\<newline>'' @
                         ''    });\<newline>'' @
                         ''\<newline>'' @
                         ''    await server.connect(transport);\<newline>'' @
                         ''    await transport.handleRequest(req, res, req.body);\<newline>'' @
                         ''  } catch (error) {\<newline>'' @
                         ''    console.error('Error handling MCP request:', error);\<newline>'' @
                         ''    if (!res.headersSent) {\<newline>'' @
                         ''      res.status(500).json({\<newline>'' @
                         ''        jsonrpc: '2.0',\<newline>'' @
                         ''        error: { code: -32603, message: 'Internal server error' },\<newline>'' @
                         ''        id: null,\<newline>'' @
                         ''      });\<newline>'' @
                         ''    }\<newline>'' @
                         ''  }\<newline>'' @
                         ''});'')
      else (''// Handle MCP requests at /mcp endpoint\<newline>'' @
            ''app.all('/mcp', async (req: Request, res: Response) => {\<newline>'' @
            ''  try {\<newline>'' @
            ''    const server = createServer();\<newline>'' @
            ''    const transport = new StreamableHTTPServerTransport({\<newline>'' @
            ''      sessionIdGenerator: undefined,\<newline>'' @
            ''    });\<newline>'' @
            ''\<newline>'' @
            ''    // Clean up on request close\<newline>'' @
            ''    res.on('close', () => {\<newline>'' @
            ''      transport.close();\<newline>'' @
            ''      server.close();\<newline>'' @
            ''    });\<newline>'' @
            ''\<newline>'' @
            ''    await server.connect(transport);\<newline>'' @
            ''    await transport.handleRequest(req, res, req.body);\<newline>'' @
            ''  } catch (error) {\<newline>'' @
            ''    console.error('Error handling MCP request:', error);\<newline>'' @
            ''    if (!res.headersSent) {\<newline>'' @
            ''      res.status(500).json({\<newline>'' @
            ''        jsonrpc: '2.0',\<newline>'' @
            ''        error: { code: -32603, message: 'Internal server error' },\<newline>'' @
            ''        id: null,\<newline>'' @
            ''      });\<newline>'' @
            ''    }\<newline>'' @
            ''  }\<newline>'' @
            ''});''))\<close>

text \<open>
  \<open>generateCustomContainerMainFunction\<close>. After the early return the flag is known to
  hold, so the last \<open>else\<close> branch of the source ("STDIO mode not enabled") is dead code;
  it is kept here as the source has it.
\<close>

definition generateCustomContainerMainFunction :: "bool \<Rightarrow> bool \<Rightarrow> json option \<Rightarrow> error + string" where
  \<open>generateCustomContainerMainFunction includeBackwardCompatibility' hasConfig configSchema' =
     (if \<not> includeBackwardCompatibility' then
        Inr (''\<newline>'' @
             ''// Main function to start the HTTP server\<newline>'' @
             ''async function main() {\<newline>'' @
             ''  app.listen(PORT, () => {\<newline>'' @
             ''    console.log(`MCP HTTP Server listening on port ${PORT}`);\<newline>'' @
             ''  });\<newline>'' @
             ''}\<newline>'' @
             ''\<newline>'' @
             ''// Start the server\<newline>'' @
             ''main().catch((error) => {\<newline>'' @
             ''  console.error("Server error:", error);\<newline>'' @
             ''  process.exit(1);\<newline>'' @
             ''});'')
      else
        let mainFunction0 = (''// Main function to start the server in the appropriate mode\<newline>'' @
                             ''async function main() {\<newline>'' @
                             ''  const transport = process.env.TRANSPORT || 'stdio';\<newline>'' @
                             ''  \<newline>'' @
                             ''  if (transport === 'http') {\<newline>'' @
                             ''    // Run in HTTP mode\<newline>'' @
                             ''    app.listen(PORT, () => {\<newline>'' @
                             ''      console.log(`MCP HTTP Server listening on port ${PORT}`);\<newline>'' @
                             ''    });\<newline>'' @
                             ''  }'')
        in case (if includeBackwardCompatibility' then
                   (if hasConfig then
                      (case generateEnvConfigParsing configSchema' of
                         Inl e \<Rightarrow> Inl e
                       | Inr configParsing \<Rightarrow>
                           Inr (mainFunction0 @ ('' else {\<newline>'' @
                                                 ''    // Optional: if you need backward compatibility, add stdio transport\<newline>'' @
                                                 ''    // Parse config from environment variables\<newline>'' @
                                                 ''    '') @ configParsing @ (''\<newline>'' @
                         ''\<newline>'' @
                         ''    // Create server with configuration\<newline>'' @
                         ''    const server = createServer({ config });\<newline>'' @
                         ''\<newline>'' @
                         ''    // Start receiving messages on stdin and sending messages on stdout\<newline>'' @
                         ''    const stdioTransport = new StdioServerTransport();\<newline>'' @
                         ''    await server.connect(stdioTransport);\<newline>'' @
                         ''    console.error("MCP Server running in stdio mode");\<newline>'' @
                         ''  }'')))
                    else
                      Inr (mainFunction0 @ ('' else {\<newline>'' @
                                            ''    // Optional: if you need backward compatibility, add stdio transport\<newline>'' @
                                            ''    const server = createServer();\<newline>'' @
                                            ''\<newline>'' @
                                            ''    // Start receiving messages on stdin and sending messages on stdout\<newline>'' @
                                            ''    const stdioTransport = new StdioServerTransport();\<newline>'' @
                                            ''    await server.connect(stdioTransport);\<newline>'' @
                                            ''    console.error("MCP Server running in stdio mode");\<newline>'' @
                                            ''  }'')))
                 else
                   Inr (mainFunction0 @ ('' else {\<newline>'' @
                                         ''    console.error("STDIO mode not enabled. Set TRANSPORT=http to run in HTTP mode.");\<newline>'' @
                                         ''    process.exit(1);\<newline>'' @
                                         ''  }''))) of
             Inl e \<Rightarrow> Inl e
           | Inr mainFunction1 \<Rightarrow>
               Inr (mainFunction1 @ (''\<newline>'' @
                                     ''}\<newline>'' @
                                     ''\<newline>'' @
                                     ''// Start the server\<newline>'' @
                                     ''main().catch((error) => {\<newline>'' @
                                     ''  console.error("Server error:", error);\<newline>'' @
                                     ''  process.exit(1);\<newline>'' @
                                     ''});'')))\<close>

definition generateCustomContainerTemplate :: "template_params \<Rightarrow> error + string" where
  \<open>generateCustomContainerTemplate params =
     (let imports = generateCustomContainerImports (template_params.includeBackwardCompatibility params);
          expressSetup = generateExpressSetup;
          hasConfig = has_keys (template_params.configSchema params)
      in case (if hasConfig then generateCustomContainerConfigSchema (template_params.configSchema params)
               else Inr []) of
           Inl e \<Rightarrow> Inl e
         | Inr configSchemaCode \<Rightarrow>
             let configFunctions = generateConfigFunctions;
                 serverCreation = generateCustomContainerServerCreation (template_params.serverName params)
                                    (template_params.serverVersion params);
                 resourcesCode = generateResourcesCode (template_params.resources params)
             in (case generateCustomContainerToolsCode (template_params.tools params) hasConfig of
                   Inl e \<Rightarrow> Inl e
                 | Inr toolsCode \<Rightarrow>
                     (case generatePromptsCode (template_params.prompts params) of
                        Inl e \<Rightarrow> Inl e
                      | Inr promptsCode \<Rightarrow>
                          let mcpHandler = generateMcpRequestHandler (configSchemaCode \<noteq> []) in
                          (case generateCustomContainerMainFunction
                                  (template_params.includeBackwardCompatibility params)
                                  (configSchemaCode \<noteq> []) (template_params.configSchema params) of
                             Inl e \<Rightarrow> Inl e
                           | Inr mainFunction \<Rightarrow>
                               Inr (imports @ ''\<newline>\<newline>'' @ expressSetup @ ''\<newline>''
                                    @ (if configSchemaCode \<noteq> [] then ''\<newline>'' @ configSchemaCode @ ''\<newline>'' else [])
                                    @ ''\<newline>''
                                    @ (if configSchemaCode \<noteq> [] then configFunctions else [])
                                    @ (''\<newline>'' @
                                       ''\<newline>'' @
                                       ''export default function createServer('')
                                    @ (if configSchemaCode \<noteq> [] then (''{\<newline>'' @
                                                                             ''  config,\<newline>'' @
                                                                             ''}: {\<newline>'' @
                                                                             ''  config: z.infer<typeof configSchema>;\<newline>'' @
                                                                             ''}'') else [])
                                    @ '') {\<newline>''
                                    @ serverCreation @ ''\<newline>\<newline>'' @ resourcesCode @ ''\<newline>\<newline>'' @ toolsCode
                                    @ ''\<newline>\<newline>'' @ promptsCode @ ''\<newline>\<newline>'' @ generateServerReturn
                                    @ ''\<newline>}\<newline>\<newline>'' @ mcpHandler @ ''\<newline>\<newline>'' @ mainFunction
                                    @ ''\<newline>'')))))\<close>

definition generateCustomContainerMigration :: "(string \<Rightarrow> json option) \<Rightarrow> SmitheryMigrationParams \<Rightarrow> error + string" where
  "generateCustomContainerMigration parse params =
     generateCustomContainerTemplate (template_params_of parse params)"

section \<open>Custom-container Python generator (templates/python-custom-container-template.ts)\<close>

definition generatePythonImports :: "bool \<Rightarrow> string" where
  \<open>generatePythonImports includeBackwardCompatibility' =
     (let imports = (''# src/main.py\<newline>'' @
                     ''import os\<newline>'' @
                     ''import uvicorn\<newline>'' @
                     ''from mcp.server.fastmcp import FastMCP\<newline>'' @
                     ''from starlette.middleware.cors import CORSMiddleware\<newline>'' @
                     ''from typing import Optional'')
      in if includeBackwardCompatibility' then imports @ (''\<newline>'' @
                                                          ''import contextvars'')
         else imports)\<close>

definition generateServerInit :: "string \<Rightarrow> string" where
  \<open>generateServerInit serverName' = (''# Initialize MCP server\<newline>'' @
                                           ''mcp = FastMCP(name="'') @ serverName' @ ''")''\<close>

definition generatePythonConfigFunctions :: string where
  \<open>generatePythonConfigFunctions = (''def get_request_config() -> dict:\<newline>'' @
                                          ''    """Get full config from current request context."""\<newline>'' @
                                          ''    try:\<newline>'' @
                                          ''        # Access the current request context from FastMCP\<newline>'' @
                                          ''        import contextvars\<newline>'' @
                                          ''        \<newline>'' @
                                          ''        # Try to get from request context if available\<newline>'' @
                                          ''        request = contextvars.copy_context().get('request')\<newline>'' @
                                          ''        if hasattr(request, 'scope') and request.scope:\<newline>'' @
                                          ''            return request.scope.get('smithery_config', {})\<newline>'' @
                                          ''    except:\<newline>'' @
                                          ''        pass\<newline>'' @
                                          ''    return {}\<newline>'' @
                                          ''\<newline>'' @
                                          ''def get_config_value(key: str, default=None):\<newline>'' @
                                          ''    """Get a specific config value from current request."""\<newline>'' @
                                          ''    config = get_request_config()\<newline>'' @
                                          ''    return config.get(key, default)'')\<close>

text \<open>
  The default of a configuration property as it is written into the Python text:
  a string in double quotes, any other value converted by the template literal, and
  \<open>None\<close> when the property has no default. Reading \<open>propSchema.default\<close> throws when the
  property is \<open>null\<close>.
\<close>

definition python_default :: "json \<Rightarrow> error + string" where
  \<open>python_default propSchema =
     (if propSchema = JNull then Inl TypeError
      else case get propSchema ''default'' of
             None \<Rightarrow> Inr ''None''
           | Some d \<Rightarrow> default_text d)\<close>

definition http_config_line :: "json \<Rightarrow> string \<Rightarrow> error + string" where
  \<open>http_config_line properties prop =
     (case python_default (the (get properties prop)) of
        Inl e \<Rightarrow> Inl e
      | Inr defaultValue \<Rightarrow>
          Inr (''    '' @ toLowerCase (underscore_before_upper prop)
               @ '' = get_config_value("'' @ prop @ ''", '' @ defaultValue @ '')''))\<close>

definition env_var_line :: "json \<Rightarrow> string \<Rightarrow> error + string" where
  \<open>env_var_line properties prop =
     (let envVar = toUpperCase (underscore_before_upper prop) in
      case python_default (the (get properties prop)) of
        Inl e \<Rightarrow> Inl e
      | Inr defaultValue \<Rightarrow>
          Inr (''    # '' @ toLowerCase (underscore_before_upper prop)
               @ '' = os.getenv("'' @ envVar @ ''", '' @ defaultValue @ '')''))\<close>

text \<open>\<open>configAccessCode\<close> of one tool; it is the same for every tool.\<close>

definition configAccessCode :: "json option \<Rightarrow> error + string" where
  \<open>configAccessCode configSchema' =
     (if truthy_opt configSchema' \<and> truthy_opt (get (the configSchema') ''properties'') then
        let properties = the (get (the configSchema') ''properties'');
            configProperties = map fst (entries properties)
        in case sequence_err (map (http_config_line properties) configProperties) of
             Inl e \<Rightarrow> Inl e
           | Inr httpLines \<Rightarrow>
               (case sequence_err (map (env_var_line properties) configProperties) of
                  Inl e \<Rightarrow> Inl e
                | Inr envLines \<Rightarrow>
                    let httpConfigCode = join ''\<newline>'' httpLines;
                        envVarCode = join ''\<newline>'' envLines
                    in if httpConfigCode \<noteq> [] then
                         Inr (''    # Get config values (HTTP mode uses request context, stdio mode uses environment variables)\<newline>'' @ httpConfigCode @ ''\<newline>'' @ envVarCode @ (''\<newline>'' @
                                                    ''    \<newline>'' @
                                                    ''    # TODO: Add your validation logic here using the config values\<newline>'' @
                                                    ''    ''))
                       else Inr [])
      else Inr (''    # Get config values (HTTP mode uses request context, stdio mode uses environment variables)\<newline>'' @
                ''    # No config schema provided - add your config access here if needed\<newline>'' @
                ''    ''))\<close>

text \<open>The callback of \<open>tools.map\<close> in \<open>generatePythonToolsCode\<close>.\<close>

definition python_tool :: "json option \<Rightarrow> McpTool \<Rightarrow> error + string" where
  \<open>python_tool configSchema' tool =
     (let functionName = dashes_to_underscores (sanitizeId (McpTool.name tool)) in
      case configAccessCode configSchema' of
        Inl e \<Rightarrow> Inl e
      | Inr configAccessCode' \<Rightarrow>
          Inr (''# Tool: '' @ McpTool.name tool @ (''\<newline>'' @
                                                   ''@mcp.tool()\<newline>'' @
                                                   ''def '') @ functionName @ (''() -> str:\<newline>'' @
                        ''    """'') @ McpTool.description tool @ ''"""\<newline>'' @ configAccessCode' @ (''\<newline>'' @
                         ''    # TODO: Implement tool logic for '') @ McpTool.name tool @ (''\<newline>'' @
                                                              ''    return f"Tool '') @ McpTool.name tool @ '' executed successfully"''))\<close>

definition generatePythonToolsCode :: "McpTool list \<Rightarrow> json option \<Rightarrow> error + string" where
  \<open>generatePythonToolsCode ts configSchema' =
     (if length ts = 0 then Inr ''# No tools to register''
      else
        case sequence_err (map (python_tool configSchema') ts) of
          Inl e \<Rightarrow> Inl e
        | Inr blocks \<Rightarrow> Inr (''# Register tools\<newline>'' @ join ''\<newline>\<newline>'' blocks))\<close>

definition python_prompt :: "McpPrompt \<Rightarrow> string" where
  \<open>python_prompt prompt =
     (let functionName = dashes_to_underscores (sanitizeId (McpPrompt.name prompt)) in
      ''# Prompt: '' @ McpPrompt.name prompt @ (''\<newline>'' @
                                                ''@mcp.prompt()\<newline>'' @
                                                ''def '') @ functionName @ (''() -> str:\<newline>'' @
                        ''    """'') @ McpPrompt.description prompt @ (''"""\<newline>'' @
                                           ''    # TODO: Implement prompt logic for '') @ McpPrompt.name prompt @ (''\<newline>'' @
                                                                    ''    return "'') @ str_or (template prompt) ''Prompt template here'' @ ''"'')\<close>

definition generatePythonPromptsCode :: "McpPrompt list \<Rightarrow> string" where
  \<open>generatePythonPromptsCode ps =
     (if length ps = 0 then ''# No prompts to register''
      else ''# Register prompts\<newline>'' @ join ''\<newline>\<newline>'' (map python_prompt ps))\<close>

definition python_resource :: "McpResource \<Rightarrow> string" where
  \<open>python_resource resource =
     (let functionName = dashes_to_underscores (sanitizeId (McpResource.name resource));
          isHttpsUrl = prefix ''https://'' (uri resource)
      in if isHttpsUrl then
           ''# Resource: '' @ McpResource.name resource @ (''\<newline>'' @
                                                           ''@mcp.resource("'') @ uri resource @ (''")\<newline>'' @
                                   ''def '') @ functionName @ (''() -> str:\<newline>'' @
                        ''    """'') @ McpResource.description resource @ (''"""\<newline>'' @
                                               ''    import requests\<newline>'' @
                                               ''    try:\<newline>'' @
                                               ''        response = requests.get("'') @ uri resource @ (''")\<newline>'' @
                                                     ''        response.raise_for_status()\<newline>'' @
                                                     ''        return response.text\<newline>'' @
                                                     ''    except requests.RequestException as e:\<newline>'' @
                                                     ''        raise ValueError(f"Failed to fetch resource '') @ uri resource @ '': {str(e)}")''
         else
           ''# Resource: '' @ McpResource.name resource @ (''\<newline>'' @
                                                           ''@mcp.resource("'') @ uri resource @ (''")\<newline>'' @
                                   ''def '') @ functionName @ (''() -> str:\<newline>'' @
                        ''    """'') @ McpResource.description resource @ (''"""\<newline>'' @
                                               ''    # TODO: Implement resource handler for '') @ uri resource @ (''\<newline>'' @
                                                               ''    return "Resource content here"''))\<close>

definition generatePythonResourcesCode :: "McpResource list \<Rightarrow> string" where
  \<open>generatePythonResourcesCode rs =
     (if length rs = 0 then ''# No resources to register''
      else ''# Register resources\<newline>'' @ join ''\<newline>\<newline>'' (map python_resource rs))\<close>

definition generatePythonMainFunction :: "bool \<Rightarrow> bool \<Rightarrow> string" where
  \<open>generatePythonMainFunction includeBackwardCompatibility' hasConfig =
     (if includeBackwardCompatibility' then
        (''def main():\<newline>'' @
         ''    transport_mode = os.getenv("TRANSPORT", "stdio")\<newline>'' @
         ''    \<newline>'' @
         ''    if transport_mode == "http":\<newline>'' @
         ''        # HTTP mode with config extraction from URL parameters\<newline>'' @
         ''        print("MCP Server starting in HTTP mode...")\<newline>'' @
         ''        \<newline>'' @
         ''        # Setup Starlette app with CORS for cross-origin requests\<newline>'' @
         ''        app = mcp.streamable_http_app()\<newline>'' @
         ''        \<newline>'' @
         ''        # IMPORTANT: add CORS middleware for browser based clients\<newline>'' @
         ''        app.add_middleware(\<newline>'' @
         ''            CORSMiddleware,\<newline>'' @
         ''            allow_origins=["*"],\<newline>'' @
         ''            allow_credentials=True,\<newline>'' @
         ''            allow_methods=["GET", "POST", "OPTIONS"],\<newline>'' @
         ''            allow_headers=["*"],\<newline>'' @
         ''            expose_headers=["mcp-session-id", "mcp-protocol-version"],\<newline>'' @
         ''            max_age=86400,\<newline>'' @
         ''        )\<newline>'' @
         ''\<newline>'' @
         ''        '') @ (if hasConfig then (''# Apply custom middleware for config extraction (per-request API key handling)\<newline>'' @
                                ''        app = SmitheryConfigMiddleware(app)\<newline>'' @
                                ''\<newline>'' @
                                ''        '') else []) @ (''# Use Smithery-required PORT environment variable\<newline>'' @
                      ''        port = int(os.environ.get("PORT", 8081))\<newline>'' @
                      ''        print(f"Listening on port {port}")\<newline>'' @
                      ''\<newline>'' @
                      ''        uvicorn.run(app, host="0.0.0.0", port=port, log_level="debug")\<newline>'' @
                      ''    else:\<newline>'' @
                      ''        # Optional: add stdio transport for backwards compatibility\<newline>'' @
                      ''        # You can publish this to uv for users to run locally\<newline>'' @
                      ''        print("MCP Server starting in stdio mode...")\<newline>'' @
                      ''        \<newline>'' @
                      ''        # In stdio mode, config comes from environment variables\<newline>'' @
                      ''        # Tools will read directly from environment using os.getenv() as needed\<newline>'' @
                      ''        \<newline>'' @
                      ''        # Run with stdio transport (default)\<newline>'' @
                      ''        mcp.run()\<newline>'' @
                      ''\<newline>'' @
                      ''if __name__ == "__main__":\<newline>'' @
                      ''    main()'')
      else
        (''def main():\<newline>'' @
         ''    # HTTP mode for Smithery deployment\<newline>'' @
         ''    print("MCP Server starting in HTTP mode...")\<newline>'' @
         ''    \<newline>'' @
         ''    # Setup Starlette app with CORS for cross-origin requests\<newline>'' @
         ''    app = mcp.streamable_http_app()\<newline>'' @
         ''    \<newline>'' @
         ''    # IMPORTANT: add CORS middleware for browser based clients\<newline>'' @
         ''    app.add_middleware(\<newline>'' @
         ''        CORSMiddleware,\<newline>'' @
         ''        allow_origins=["*"],\<newline>'' @
         ''        allow_credentials=True,\<newline>'' @
         ''        allow_methods=["GET", "POST", "OPTIONS"],\<newline>'' @
         ''        allow_headers=["*"],\<newline>'' @
         ''        expose_headers=["mcp-session-id", "mcp-protocol-version"],\<newline>'' @
         ''        max_age=86400,\<newline>'' @
         ''    )\<newline>'' @
         ''\<newline>'' @
         ''    '') @ (if hasConfig then (''# Apply custom middleware for config extraction (per-request API key handling)\<newline>'' @
                            ''    app = SmitheryConfigMiddleware(app)\<newline>'' @
                            ''\<newline>'' @
                            ''    '') else []) @ (''# Use Smithery-required PORT environment variable\<newline>'' @
                  ''    port = int(os.environ.get("PORT", 8081))\<newline>'' @
                  ''    print(f"Listening on port {port}")\<newline>'' @
                  ''\<newline>'' @
                  ''    uvicorn.run(app, host="0.0.0.0", port=port, log_level="debug")\<newline>'' @
                  ''\<newline>'' @
                  ''if __name__ == "__main__":\<newline>'' @
                  ''    main()''))\<close>

definition generateMiddleware :: string where
  \<open>generateMiddleware = (''# src/middleware.py - Custom middleware for Smithery configuration\<newline>'' @
                               ''import json\<newline>'' @
                               ''import base64\<newline>'' @
                               ''from urllib.parse import parse_qs, unquote\<newline>'' @
                               ''\<newline>'' @
                               ''class SmitheryConfigMiddleware:\<newline>'' @
                               ''    def __init__(self, app):\<newline>'' @
                               ''        self.app = app\<newline>'' @
                               ''\<newline>'' @
                               ''    async def __call__(self, scope, receive, send):\<newline>'' @
                               ''        if scope.get('type') == 'http':\<newline>'' @
                               ''            query = scope.get('query_string', b'' @ [CHR 0x27, CHR 0x27] @ '').decode()\<newline>'' @
                               ''            \<newline>'' @
                               ''            if 'config=' in query:\<newline>'' @
                               ''                try:\<newline>'' @
                               ''                    config_b64 = unquote(parse_qs(query)['config'][0])\<newline>'' @
                               ''                    config = json.loads(base64.b64decode(config_b64))\<newline>'' @
                               ''                    \<newline>'' @
                               ''                    # Inject full config into request scope for per-request access\<newline>'' @
                               ''                    scope['smithery_config'] = config\<newline>'' @
                               ''                except Exception as e:\<newline>'' @
                               ''                    print(f"SmitheryConfigMiddleware: Error parsing config: {e}")\<newline>'' @
                               ''                    scope['smithery_config'] = {}\<newline>'' @
                               ''            else:\<newline>'' @
                               ''                scope['smithery_config'] = {}\<newline>'' @
                               ''        \<newline>'' @
                               ''        await self.app(scope, receive, send)'')\<close>

definition generatePythonTemplate :: "template_params \<Rightarrow> error + string" where
  \<open>generatePythonTemplate params =
     (let imports = generatePythonImports (template_params.includeBackwardCompatibility params);
          serverInit = generateServerInit (template_params.serverName params);
          hasConfig = has_keys (template_params.configSchema params);
          configFunctions = (if hasConfig then generatePythonConfigFunctions else []);
          middleware = (if hasConfig then generateMiddleware else [])
      in case generatePythonToolsCode (template_params.tools params) (template_params.configSchema params) of
           Inl e \<Rightarrow> Inl e
         | Inr toolsCode \<Rightarrow>
             let promptsCode = generatePythonPromptsCode (template_params.prompts params);
                 resourcesCode = generatePythonResourcesCode (template_params.resources params);
                 mainFunction = generatePythonMainFunction
                                  (template_params.includeBackwardCompatibility params) hasConfig
             in Inr (imports @ ''\<newline>\<newline>'' @ serverInit @ ''\<newline>''
                     @ (if configFunctions \<noteq> [] then ''\<newline>'' @ configFunctions @ ''\<newline>'' else [])
                     @ ''\<newline>'' @ toolsCode @ ''\<newline>\<newline>'' @ promptsCode @ ''\<newline>\<newline>'' @ resourcesCode
                     @ ''\<newline>\<newline>'' @ mainFunction @ ''\<newline>''
                     @ (if middleware \<noteq> [] then ''\<newline>'' @ middleware else [])
                     @ ''\<newline>''))\<close>

definition generatePythonCustomContainerMigration :: "(string \<Rightarrow> json option) \<Rightarrow> SmitheryMigrationParams \<Rightarrow> error + string" where
  "generatePythonCustomContainerMigration parse params =
     generatePythonTemplate (template_params_of parse params)"

section \<open>The migration-template dispatcher (templates/index.ts)\<close>

record UnifiedMigrationParams = SmitheryMigrationParams +
  migrationMode :: string

definition generateMigrationTemplate :: "(string \<Rightarrow> json option) \<Rightarrow> UnifiedMigrationParams \<Rightarrow> error + string" where
  \<open>generateMigrationTemplate parse params =
     (let migrationParams =
            \<lparr>SmitheryMigrationParams.tools = SmitheryMigrationParams.tools params,
             prompts = SmitheryMigrationParams.prompts params,
             resources = SmitheryMigrationParams.resources params,
             serverName = SmitheryMigrationParams.serverName params,
             serverVersion = SmitheryMigrationParams.serverVersion params,
             includeBackwardCompatibility = SmitheryMigrationParams.includeBackwardCompatibility params,
             smitheryYaml = smitheryYaml params\<rparr>
      in if migrationMode params = ''ts-smithery-cli'' then generateSmitheryCliMigration parse migrationParams
         else if migrationMode params = ''ts-custom-container'' then generateCustomContainerMigration parse migrationParams
         else if migrationMode params = ''py-custom-container'' then generatePythonCustomContainerMigration parse migrationParams
         else Inl (Error (''Unsupported migration mode: '' @ migrationMode params)))\<close>

definition getFileExtension :: "string \<Rightarrow> string" where
  \<open>getFileExtension mode =
     (if mode = ''ts-smithery-cli'' \<or> mode = ''ts-custom-container'' then ''ts''
      else if mode = ''py-custom-container'' then ''py''
      else ''txt'')\<close>

section \<open>Text that does not occur in a generated file\<close>

text \<open>
  \<open>absent m s\<close>: the text \<open>m\<close> occurs nowhere in \<open>s\<close>. \<open>junction_ok m a b\<close>: no occurrence of
  \<open>m\<close> can start in \<open>a\<close> and end in \<open>b\<close>, because \<open>b\<close> is empty or starts with a character
  that \<open>m\<close> does not have, or \<open>a\<close> is empty or ends with such a character.
\<close>

definition absent :: "string \<Rightarrow> string \<Rightarrow> bool" where
  "absent m s = (\<not> sublist m s)"

definition junction_ok :: "string \<Rightarrow> string \<Rightarrow> string \<Rightarrow> bool" where
  "junction_ok m a b =
     (if b = [] then True
      else if hd b \<notin> set m then True
      else (a = [] \<or> last a \<notin> set m))"

definition guarded :: "string \<Rightarrow> bool \<Rightarrow> string \<Rightarrow> bool" where
  "guarded m g s = (absent m s \<and> (g \<longrightarrow> s = [] \<or> hd s \<notin> set m))"

text \<open>
  The texts that a request passes on to the generated file: names, titles, descriptions,
  addresses, and the keys, defaults and descriptions of schema properties.
  \<open>clean_params m p\<close> says that none of them contains \<open>m\<close>.
\<close>

definition clean_property :: "string \<Rightarrow> string \<times> json \<Rightarrow> bool" where
  "clean_property m kv =
     (absent m (fst kv)
      \<and> (case get (snd kv) ''default'' of
            None \<Rightarrow> True
          | Some d \<Rightarrow> (case js_String d of Inl e \<Rightarrow> True | Inr t \<Rightarrow> absent m t))
      \<and> (case get (snd kv) ''description'' of Some (JStr d) \<Rightarrow> absent m d | _ \<Rightarrow> True))"

definition clean_schema :: "string \<Rightarrow> json option \<Rightarrow> bool" where
  "clean_schema m so =
     (case so of
        None \<Rightarrow> True
      | Some s \<Rightarrow> list_all (clean_property m) (entries (or_empty (get s ''properties''))))"

definition clean_tool :: "string \<Rightarrow> McpTool \<Rightarrow> bool" where
  "clean_tool m t =
     (absent m (McpTool.name t) \<and> absent m (title_of (McpTool.name t))
      \<and> absent m (McpTool.description t) \<and> clean_schema m (inputSchema t))"

definition clean_prompt :: "string \<Rightarrow> McpPrompt \<Rightarrow> bool" where
  "clean_prompt m p =
     (absent m (McpPrompt.name p) \<and> absent m (title_of (McpPrompt.name p))
      \<and> absent m (McpPrompt.description p) \<and> clean_schema m (argsSchema p)
      \<and> (case template p of None \<Rightarrow> True | Some t \<Rightarrow> absent m t))"

definition clean_resource :: "string \<Rightarrow> McpResource \<Rightarrow> bool" where
  "clean_resource m r =
     (absent m (McpResource.name r) \<and> absent m (uri r) \<and> absent m (McpResource.description r)
      \<and> (case mimeType r of None \<Rightarrow> True | Some t \<Rightarrow> absent m t))"


section \<open>Notions used to state the properties of the generators\<close>


text \<open>
  A value that \<open>String\<close> converts without a run-time error: it is no object with a key
  \<open>toString\<close> of its own, and no array that holds such an object.
\<close>

fun printable :: "json \<Rightarrow> bool" where
  "printable (JObj kvs) = (''toString'' \<notin> set (map fst kvs))"
| "printable (JArr xs) = list_all printable xs"
| "printable v = True"

text \<open>
  A schema whose properties can be read without a run-time error: no property is \<open>null\<close>,
  a default can be converted to text, \<open>required\<close> is an array or a string wherever a
  property without default is looked up in it, and a truthy description is a string.
\<close>

definition includes_ok :: "json \<Rightarrow> bool" where
  "includes_ok req = (case req of JArr xs \<Rightarrow> True | JStr s \<Rightarrow> True | _ \<Rightarrow> False)"

definition wf_property :: "json \<Rightarrow> string \<times> json \<Rightarrow> bool" where
  "wf_property req kv =
     (snd kv \<noteq> JNull
      \<and> (case get (snd kv) ''default'' of None \<Rightarrow> includes_ok req | Some d \<Rightarrow> printable d)
      \<and> (case get (snd kv) ''description'' of
           None \<Rightarrow> True
         | Some d \<Rightarrow> (case d of JStr s \<Rightarrow> True | _ \<Rightarrow> \<not> truthy d)))"

definition wf_schema :: "json option \<Rightarrow> bool" where
  "wf_schema so =
     (case so of
        None \<Rightarrow> True
      | Some s \<Rightarrow> list_all (wf_property (or_empty_array (get s ''required'')))
                   (entries (or_empty (get s ''properties''))))"

definition wf_request :: "(string \<Rightarrow> json option) \<Rightarrow> 'a SmitheryMigrationParams_scheme \<Rightarrow> bool" where
  "wf_request parse p =
     (list_all (\<lambda>t. wf_schema (inputSchema t)) (SmitheryMigrationParams.tools p)
      \<and> list_all (\<lambda>q. wf_schema (argsSchema q)) (SmitheryMigrationParams.prompts p)
      \<and> wf_schema (extractedConfigSchema parse (smitheryYaml p)))"

text \<open>Sample requests.\<close>

definition no_descriptor :: "string \<Rightarrow> json option" where
  "no_descriptor text = None"

definition tool_weather :: McpTool where
  \<open>tool_weather =
     \<lparr>McpTool.name = ''get_weather'', description = ''Get the weather'',
      inputSchema = Some (JObj [(''type'', JStr ''object''),
                                (''properties'', JObj [(''city'', JObj [(''type'', JStr ''string'')])]),
                                (''required'', JArr [JStr ''city''])]),
      handler = None\<rparr>\<close>

definition tool_mail :: McpTool where
  \<open>tool_mail =
     \<lparr>McpTool.name = ''send_mail'', description = ''Send a mail'', inputSchema = None, handler = None\<rparr>\<close>

definition tool_files :: McpTool where
  \<open>tool_files =
     \<lparr>McpTool.name = ''list_files'', description = ''List the files'', inputSchema = None, handler = None\<rparr>\<close>

definition tool_null_property :: McpTool where
  \<open>tool_null_property =
     \<lparr>McpTool.name = ''t'', description = ''d'',
      inputSchema = Some (JObj [(''properties'', JObj [(''a'', JNull)])]),
      handler = None\<rparr>\<close>

definition tool_unprintable_default :: McpTool where
  \<open>tool_unprintable_default =
     \<lparr>McpTool.name = ''t'', description = ''d'',
      inputSchema = Some (JObj [(''properties'',
                                 JObj [(''a'', JObj [(''default'', JObj [(''toString'', JNum ''1'')])])])]),
      handler = None\<rparr>\<close>

definition request_null_property :: UnifiedMigrationParams where
  \<open>request_null_property =
     \<lparr>SmitheryMigrationParams.tools = [tool_null_property], prompts = [], resources = [],
      serverName = ''S'', serverVersion = ''1.0.0'', includeBackwardCompatibility = False,
      smitheryYaml = None, migrationMode = ''ts-smithery-cli''\<rparr>\<close>

text \<open>A configuration schema with two properties, and a parser that finds it in a descriptor.\<close>

definition config_api_key :: json where
  \<open>config_api_key =
     JObj [(''type'', JStr ''object''),
           (''properties'', JObj [(''apiKey'', JObj [(''type'', JStr ''string''), (''default'', JStr ''none'')]),
                                  (''verbose'', JObj [(''type'', JStr ''boolean'')])]),
           (''required'', JArr [JStr ''apiKey''])]\<close>

definition descriptor_with_config :: "string \<Rightarrow> json option" where
  \<open>descriptor_with_config text =
     Some (JObj [(''startCommand'', JObj [(''type'', JStr ''http''), (''configSchema'', config_api_key)])])\<close>

definition request_unprintable_default :: UnifiedMigrationParams where
  \<open>request_unprintable_default =
     \<lparr>SmitheryMigrationParams.tools = [tool_unprintable_default], prompts = [], resources = [],
      serverName = ''S'', serverVersion = ''1.0.0'', includeBackwardCompatibility = False,
      smitheryYaml = None, migrationMode = ''ts-custom-container''\<rparr>\<close>

definition request_three_tools :: UnifiedMigrationParams where
  \<open>request_three_tools =
     \<lparr>SmitheryMigrationParams.tools = [tool_weather, tool_mail, tool_files], prompts = [], resources = [],
      serverName = ''S'', serverVersion = ''1.0.0'', includeBackwardCompatibility = False,
      smitheryYaml = None, migrationMode = ''py-custom-container''\<rparr>\<close>

definition request_with_config :: UnifiedMigrationParams where
  \<open>request_with_config =
     \<lparr>SmitheryMigrationParams.tools = [tool_weather, tool_mail, tool_files], prompts = [], resources = [],
      serverName = ''S'', serverVersion = ''1.0.0'', includeBackwardCompatibility = True,
      smitheryYaml = Some ''startCommand: ...'', migrationMode = ''ts-custom-container''\<rparr>\<close>







section \<open>Identifier sanitization\<close>

lemma lower_char_id: "id_char c \<Longrightarrow> lower_char c = c"
  by (auto simp: id_char_def lower_char_def is_upper_def is_lower_def is_digit_def)

lemma replace_non_alnum_chars: "c \<in> set (replace_non_alnum s) \<Longrightarrow> id_char c"
  by (auto simp: replace_non_alnum_def id_char_def)

lemma replace_non_alnum_id: "\<forall>c\<in>set s. id_char c \<Longrightarrow> replace_non_alnum s = s"
  by (induction s) (auto simp: replace_non_alnum_def id_char_def is_lower_def is_digit_def)

lemma id_char_ascii: "id_char c \<Longrightarrow> c \<noteq> CHR 0xE2 \<and> c \<noteq> CHR 0xC4"
  by (auto simp: id_char_def is_lower_def is_digit_def)

lemma toLowerCase_id: "\<forall>c\<in>set s. id_char c \<Longrightarrow> toLowerCase s = s"
  by (induction s rule: toLowerCase.induct) (auto simp: lower_char_id dest: id_char_ascii)

lemma collapse_dashes_set: "set (collapse_dashes s) \<subseteq> set s"
  by (induction s rule: collapse_dashes.induct) auto

lemma collapse_dashes_hd: "s \<noteq> [] \<Longrightarrow> hd (collapse_dashes s) = hd s"
  by (induction s rule: collapse_dashes.induct) auto

lemma collapse_dashes_Nil: "collapse_dashes s = [] \<longleftrightarrow> s = []"
  by (induction s rule: collapse_dashes.induct) auto

lemma collapse_dashes_no_double: "no_double_dash (collapse_dashes s)"
proof (induction s rule: collapse_dashes.induct)
  case (3 c d cs)
  have ne: "collapse_dashes (d # cs) \<noteq> []" by (simp add: collapse_dashes_Nil)
  then obtain e es where e: "collapse_dashes (d # cs) = e # es" by (cases "collapse_dashes (d # cs)") auto
  with collapse_dashes_hd[of "d # cs"] have "e = d" by simp
  with 3 e show ?case by auto
qed auto

lemma collapse_dashes_id: "no_double_dash s \<Longrightarrow> collapse_dashes s = s"
  by (induction s rule: collapse_dashes.induct) auto

lemma no_double_dash_tl: "no_double_dash (c # cs) \<Longrightarrow> no_double_dash cs"
  by (cases cs) auto

lemma no_double_dash_butlast: "no_double_dash s \<Longrightarrow> no_double_dash (butlast s)"
  by (induction s rule: no_double_dash.induct) (auto split: if_splits)

lemma no_double_dash_last: "no_double_dash s \<Longrightarrow> s \<noteq> [] \<Longrightarrow> last s = CHR ''-'' \<Longrightarrow> butlast s \<noteq> [] \<Longrightarrow> last (butlast s) \<noteq> CHR ''-''"
  by (induction s rule: no_double_dash.induct) (auto split: if_splits)


lemma strip_dashes_set: "set (strip_dashes s) \<subseteq> set s"
  by (cases s) (auto simp: strip_dashes_def Let_def dest: in_set_butlastD)

lemma strip_dashes_no_double:
  assumes "no_double_dash s"
  shows "no_double_dash (strip_dashes s)"
proof -
  define r where "r = (case s of [] \<Rightarrow> [] | c # cs \<Rightarrow> if c = CHR ''-'' then cs else s)"
  have "no_double_dash r"
    using assms by (cases s) (auto simp: r_def dest: no_double_dash_tl)
  then have "no_double_dash (if r \<noteq> [] \<and> last r = CHR ''-'' then butlast r else r)"
    by (simp add: no_double_dash_butlast)
  then show ?thesis unfolding strip_dashes_def Let_def r_def[symmetric] .
qed

lemma hd_butlast: "butlast s \<noteq> [] \<Longrightarrow> hd (butlast s) = hd s"
  by (cases s) auto

lemma strip_dashes_trimmed: "no_double_dash s \<Longrightarrow> trimmed (strip_dashes s)"
proof (cases s)
  case Nil
  then show ?thesis by (simp add: strip_dashes_def trimmed_def)
next
  case (Cons c cs)
  assume nd: "no_double_dash s"
  define r where "r = (if c = CHR ''-'' then cs else s)"
  have r_nd: "no_double_dash r" using nd Cons by (auto simp: r_def dest: no_double_dash_tl)
  have r_hd: "r \<noteq> [] \<Longrightarrow> hd r \<noteq> CHR ''-''"
    using nd Cons by (cases cs) (auto simp: r_def)
  have s: "strip_dashes s = (if r \<noteq> [] \<and> last r = CHR ''-'' then butlast r else r)"
    using Cons by (simp add: strip_dashes_def r_def)
  show ?thesis
  proof (cases "r \<noteq> [] \<and> last r = CHR ''-''")
    case True
    then show ?thesis
      using s r_hd no_double_dash_last[OF r_nd] hd_butlast[of r]
      by (auto simp: trimmed_def)
  next
    case False
    then show ?thesis using s r_hd by (auto simp: trimmed_def)
  qed
qed

lemma strip_dashes_id: "trimmed s \<Longrightarrow> strip_dashes s = s"
  by (cases s) (auto simp: strip_dashes_def trimmed_def)

lemma sanitizeId_chars: "c \<in> set (sanitizeId x) \<Longrightarrow> id_char c"
  unfolding sanitizeId_def
  using strip_dashes_set collapse_dashes_set replace_non_alnum_chars by blast

text \<open>
  Claim C8. \<open>sanitizeId\<close> applied to "My Tool! v2" returns "my-tool-v2", and
  \<open>sanitizeId\<close> is idempotent: sanitizing a sanitized identifier changes nothing.
\<close>

theorem sanitizeId_example_and_idempotent:
  "sanitizeId ''My Tool! v2'' = ''my-tool-v2'' \<and> sanitizeId (sanitizeId x) = sanitizeId x"
proof
  show "sanitizeId ''My Tool! v2'' = ''my-tool-v2''" by code_simp
next
  let ?r = "sanitizeId x"
  have chars: "\<forall>c\<in>set ?r. id_char c" using sanitizeId_chars by blast
  have nd: "no_double_dash ?r"
    unfolding sanitizeId_def by (intro strip_dashes_no_double collapse_dashes_no_double)
  have tr: "trimmed ?r"
    unfolding sanitizeId_def by (intro strip_dashes_trimmed collapse_dashes_no_double)
  have "sanitizeId ?r = strip_dashes (collapse_dashes ?r)"
    using chars by (simp add: sanitizeId_def[of ?r] toLowerCase_id replace_non_alnum_id)
  also have "\<dots> = ?r" using nd tr by (simp add: collapse_dashes_id strip_dashes_id)
  finally show "sanitizeId ?r = ?r" .
qed

section \<open>Package descriptor validation\<close>

lemma errors_push [simp]:
  "errors (push_error m r) = errors r @ [m]"
  "errors (push_warning m r) = errors r"
  "errors (push_suggestion m r) = errors r"
  "errors (push_change c r) = errors r"
  by (simp_all add: push_error_def push_warning_def push_suggestion_def push_change_def)

lemma requiredChanges_push [simp]:
  "requiredChanges (push_error m r) = requiredChanges r"
  "requiredChanges (push_warning m r) = requiredChanges r"
  "requiredChanges (push_suggestion m r) = requiredChanges r"
  "requiredChanges (push_change c r) = requiredChanges r @ [c]"
  by (simp_all add: push_error_def push_warning_def push_suggestion_def push_change_def)

text \<open>
  Claim C5. Whatever the descriptor and the mode, a result returned by \<open>performValidation\<close>
  has \<open>isValid\<close> equal to "\<open>errors\<close> is empty": the flag is set last, from the errors
  alone, so warnings and suggestions have no part in it.
\<close>

theorem performValidation_isValid:
  "performValidation packageJson mode = Inr r \<Longrightarrow> isValid r = (errors r = [])"
  by (auto simp: performValidation_def Let_def split: sum.splits)

theorem performValidation_isValid_witness:
  "\<exists>r. performValidation sample_package ''ts-smithery-cli'' = Inr r \<and> \<not> isValid r \<and> errors r \<noteq> []
     \<and> isValid r = (errors r = [])"
proof -
  have "\<not> isl (performValidation sample_package ''ts-smithery-cli'')" by code_simp
  then obtain r where r: "performValidation sample_package ''ts-smithery-cli'' = Inr r"
    by (cases "performValidation sample_package ''ts-smithery-cli''") auto
  have "\<not> isValid (projr (performValidation sample_package ''ts-smithery-cli''))" by code_simp
  with r have "\<not> isValid r" by simp
  with r performValidation_isValid[OF r] show ?thesis by auto
qed






section \<open>Migration overview\<close>

lemma generateLocalStdioOverview_fixed: "generateLocalStdioOverview cp = contact_support_plan"
  by (simp add: generateLocalStdioOverview_def contact_support_plan_def Let_def)

text \<open>
  Claim C6. With the path "local-stdio-only" the overview generator returns the same fixed
  "contact support" plan (title, description, prerequisites, no files, the three contact
  steps, no notes, no next steps) whatever the three flags, the descriptor text and the
  descriptor parser are.
\<close>

theorem local_stdio_only_fixed_plan:
  "generateMigrationOverview parse
     \<lparr>MigrationOverviewParams.migrationPath = ''local-stdio-only'',
      includeBackwardCompatibility = ibc, needsFileSystemAccess = fs, needsLocalApps = apps,
      existingSmitheryYaml = yaml\<rparr> = Inr contact_support_plan
   \<and> filesNeeded contact_support_plan = []
   \<and> additionalNotes contact_support_plan = []
   \<and> nextSteps contact_support_plan = []
   \<and> title contact_support_plan = ''Local STDIO Servers - Contact Support''"
  by (simp add: generateMigrationOverview_def Let_def generateLocalStdioOverview_fixed)
     (simp add: contact_support_plan_def)

section \<open>Deployment descriptor generator\<close>

lemma trimEnd_append:
  assumes "\<exists>c\<in>set t. \<not> is_space c"
  shows "trimEnd (s @ t) = s @ trimEnd t"
proof -
  from assms have "\<exists>c\<in>set (rev t). \<not> is_space c" by simp
  then have "dropWhile is_space (rev t @ rev s) = dropWhile is_space (rev t) @ rev s"
    by (auto simp: dropWhile_append1)
  then show ?thesis by (simp add: trimEnd_def)
qed

lemma trimEnd_newline:
  "\<not> is_space c \<Longrightarrow> trimEnd (s @ [c, CHR 0x0A]) = s @ [c]"
  by (simp add: trimEnd_def is_space_def)

lemma json_quote_nonspace: "\<exists>c\<in>set (json_quote s). \<not> is_space c"
  by (simp add: json_quote_def is_space_def)

lemma formatObjectAsYaml_nonspace:
  assumes "entries c \<noteq> []"
  shows "\<exists>x\<in>set (formatObjectAsYaml c 4). \<not> is_space x"
proof (cases "is_object c")
  case False
  with assms obtain s where c: "c = JStr s" by (cases c) auto
  have "formatObjectAsYaml c 4 = replicate 4 CHR '' '' @ json_quote s @ ''\<newline>''"
    by (subst formatObjectAsYaml.simps) (simp add: c)
  with json_quote_nonspace[of s] show ?thesis by auto
next
  case True
  from assms obtain kv kvs where e: "entries c = kv # kvs" by (cases "entries c") auto
  have colon: "\<not> is_space CHR '':''" by (simp add: is_space_def)
  have "CHR '':'' \<in> set (formatObjectAsYaml c 4)"
    by (subst formatObjectAsYaml.simps) (auto simp: True e Let_def split: json.splits)
  with colon show ?thesis by blast
qed

lemma render_config_nonspace: "\<exists>x\<in>set (render_config c). \<not> is_space x"
  using formatObjectAsYaml_nonspace[of c]
  by (auto simp: render_config_def is_space_def)

lemma render_config_empty: "entries c = [] \<Longrightarrow> render_config c = ''    {}\<newline>''"
  by (simp add: render_config_def)

lemma yamlContent_explicit:
  "yamlContent p =
     (if runtime p = Some ''typescript''
      then [FRuntime ''typescript''] @ (case env p of None \<Rightarrow> [] | Some e \<Rightarrow> [FEnv e])
           @ [FStartCommand (startCommand_of p)]
      else (if \<not> is_local_only_stdio p \<and> truthy_str (runtime p) then [FRuntime (the (runtime p))] else [])
           @ (if \<not> is_local_only_stdio p
                 \<and> (truthy_str (SmitheryYamlParams.dockerfile p) \<or> truthy_str (SmitheryYamlParams.dockerBuildPath p))
              then [FBuild \<lparr>build_object.dockerfile =
                              (if truthy_str (SmitheryYamlParams.dockerfile p)
                               then SmitheryYamlParams.dockerfile p else None),
                            build_object.dockerBuildPath =
                              (if truthy_str (SmitheryYamlParams.dockerBuildPath p)
                               then SmitheryYamlParams.dockerBuildPath p else None)\<rparr>]
              else [])
           @ [FStartCommand (startCommand_of p)]
           @ (case env p of None \<Rightarrow> [] | Some e \<Rightarrow> [FEnv e]))"
  by (auto simp: yamlContent_def Let_def split: option.splits)

lemma yamlContent_startCommand:
  "\<exists>pre post. yamlContent p = pre @ [FStartCommand (startCommand_of p)] @ post"
proof (cases "runtime p = Some ''typescript''")
  case True
  then have "yamlContent p = ([FRuntime ''typescript''] @ (case env p of None \<Rightarrow> [] | Some e \<Rightarrow> [FEnv e]))
      @ [FStartCommand (startCommand_of p)] @ []"
    by (simp add: yamlContent_explicit)
  then show ?thesis by blast
next
  case False
  let ?pre = "(if \<not> is_local_only_stdio p \<and> truthy_str (runtime p) then [FRuntime (the (runtime p))] else [])
           @ (if \<not> is_local_only_stdio p
                 \<and> (truthy_str (SmitheryYamlParams.dockerfile p) \<or> truthy_str (SmitheryYamlParams.dockerBuildPath p))
              then [FBuild \<lparr>build_object.dockerfile =
                              (if truthy_str (SmitheryYamlParams.dockerfile p)
                               then SmitheryYamlParams.dockerfile p else None),
                            build_object.dockerBuildPath =
                              (if truthy_str (SmitheryYamlParams.dockerBuildPath p)
                               then SmitheryYamlParams.dockerBuildPath p else None)\<rparr>]
              else [])"
  from False have "yamlContent p = ?pre @ [FStartCommand (startCommand_of p)]
      @ (case env p of None \<Rightarrow> [] | Some e \<Rightarrow> [FEnv e])"
    by (simp add: yamlContent_explicit)
  then show ?thesis by blast
qed

lemma join_Cons: "join sep (x # xs) = x @ (if xs = [] then [] else sep @ join sep xs)"
  by (cases xs) auto

lemma join_middle:
  "\<exists>a b. join sep (xs @ [x] @ ys) = a @ x @ b \<and> (b = [] \<or> prefix sep b)"
proof (induction xs)
  case Nil
  show ?case by (cases ys) (auto simp: join_Cons intro: exI[of _ "[]"])
next
  case (Cons z zs)
  then obtain a b where ab: "join sep (zs @ [x] @ ys) = a @ x @ b" "b = [] \<or> prefix sep b" by blast
  have "join sep ((z # zs) @ [x] @ ys) = (z @ sep @ a) @ x @ b"
    using ab(1) by (simp add: join_Cons)
  with ab(2) show ?case by blast
qed

lemma output_startCommand:
  "\<exists>u v. generateSmitheryYaml p = u @ render_startCommand (startCommand_of p) @ ''\<newline>'' @ v"
proof -
  obtain pre post where pp: "yamlContent p = pre @ [FStartCommand (startCommand_of p)] @ post"
    using yamlContent_startCommand by blast
  obtain a b where ab:
    "join ''\<newline>'' (map render_entry pre @ [render_startCommand (startCommand_of p)] @ map render_entry post)
       = a @ render_startCommand (startCommand_of p) @ b"
    "b = [] \<or> prefix ''\<newline>'' b"
    using join_middle by blast
  obtain b' where b': "b @ ''\<newline>'' = ''\<newline>'' @ b'"
    using ab(2) by (auto simp: prefix_def)
  have "generateSmitheryYaml p =
      (''# Smithery configuration file: https://smithery.ai/docs/build/project-config/smithery-yaml\<newline>'' @ a) @ render_startCommand (startCommand_of p) @ (b @ ''\<newline>'')"
    using ab(1) by (simp add: generateSmitheryYaml_def pp Let_def)
  with b' show ?thesis by metis
qed

lemma render_startCommand_shape:
  "\<exists>head. render_startCommand (startCommand_of p) =
      (head @ ''  configSchema:\<newline>'' @ render_config (or_empty (SmitheryYamlParams.configSchema p))
       @ ''  exampleConfig:\<newline>'') @ trimEnd (render_config (or_empty (SmitheryYamlParams.exampleConfig p)))"
proof -
  let ?sc = "startCommand_of p"
  let ?head = \<open>''startCommand:\<newline>''
        @ ''  type: "'' @ type ?sc @ ''"\<newline>''
        @ (if truthy_str (start_command.commandFunction ?sc) then
             (''  commandFunction:\<newline>'' @
              ''    # A JS function that produces the CLI command based on the given config to start the MCP on stdio.\<newline>'' @
              ''    |-\<newline>'')
             @ concat (map (\<lambda>line. ''    '' @ line @ ''\<newline>'')
                         (split_on CHR 0x0A (the (start_command.commandFunction ?sc))))
           else [])
        @ ''  # JSON Schema defining the configuration options for the MCP.\<newline>''\<close>
  have "render_startCommand ?sc =
      trimEnd ((?head @ ''  configSchema:\<newline>'' @ render_config (or_empty (SmitheryYamlParams.configSchema p))
       @ ''  exampleConfig:\<newline>'') @ render_config (or_empty (SmitheryYamlParams.exampleConfig p)))"
    by (simp add: render_startCommand_def startCommand_of_def)
  also have "\<dots> = (?head @ ''  configSchema:\<newline>'' @ render_config (or_empty (SmitheryYamlParams.configSchema p))
       @ ''  exampleConfig:\<newline>'') @ trimEnd (render_config (or_empty (SmitheryYamlParams.exampleConfig p)))"
    by (rule trimEnd_append) (rule render_config_nonspace)
  finally show ?thesis by blast
qed

lemma or_empty_None: "entries (or_empty None) = []"
  by (simp add: or_empty_def)

text \<open>
  Claim C10. For every input of the descriptor generator the \<open>startCommand\<close> block of the
  output has a \<open>configSchema\<close> entry and an \<open>exampleConfig\<close> entry; when the parameter
  is absent the entry is the empty object \<open>{}\<close>.
\<close>

theorem startCommand_always_has_both_configs:
  \<open>sublist ''  configSchema:\<newline>'' (generateSmitheryYaml p)
   \<and> sublist ''  exampleConfig:\<newline>'' (generateSmitheryYaml p)
   \<and> (SmitheryYamlParams.configSchema p = None \<longrightarrow>
        sublist ''  configSchema:\<newline>    {}\<newline>'' (generateSmitheryYaml p))
   \<and> (SmitheryYamlParams.exampleConfig p = None \<longrightarrow>
        sublist ''  exampleConfig:\<newline>    {}\<newline>'' (generateSmitheryYaml p))\<close>
proof -
  let ?cs = "render_config (or_empty (SmitheryYamlParams.configSchema p))"
  let ?ex = "render_config (or_empty (SmitheryYamlParams.exampleConfig p))"
  obtain u v where uv: "generateSmitheryYaml p = u @ render_startCommand (startCommand_of p) @ ''\<newline>'' @ v"
    using output_startCommand by blast
  obtain head where h: "render_startCommand (startCommand_of p) =
      (head @ ''  configSchema:\<newline>'' @ ?cs @ ''  exampleConfig:\<newline>'') @ trimEnd ?ex"
    using render_startCommand_shape by blast
  have out: "generateSmitheryYaml p =
      u @ head @ ''  configSchema:\<newline>'' @ ?cs @ ''  exampleConfig:\<newline>'' @ trimEnd ?ex @ ''\<newline>'' @ v"
    using uv h by simp
  have 1: "sublist ''  configSchema:\<newline>'' (generateSmitheryYaml p)"
    unfolding out sublist_def
    by (rule exI[of _ "u @ head"], rule exI[of _ "?cs @ ''  exampleConfig:\<newline>'' @ trimEnd ?ex @ ''\<newline>'' @ v"]) simp
  have 2: "sublist ''  exampleConfig:\<newline>'' (generateSmitheryYaml p)"
    unfolding out sublist_def
    by (rule exI[of _ "u @ head @ ''  configSchema:\<newline>'' @ ?cs"], rule exI[of _ "trimEnd ?ex @ ''\<newline>'' @ v"]) simp
  have 3: "sublist ''  configSchema:\<newline>    {}\<newline>'' (generateSmitheryYaml p)"
    if "SmitheryYamlParams.configSchema p = None"
  proof -
    from that have "?cs = ''    {}\<newline>''" by (simp add: render_config_empty or_empty_None)
    then show ?thesis
      unfolding out sublist_def
      by (intro exI[of _ "u @ head"] exI[of _ "''  exampleConfig:\<newline>'' @ trimEnd ?ex @ ''\<newline>'' @ v"]) simp
  qed
  have 4: "sublist ''  exampleConfig:\<newline>    {}\<newline>'' (generateSmitheryYaml p)"
    if "SmitheryYamlParams.exampleConfig p = None"
  proof -
    from that have "?ex = ''    {}\<newline>''" by (simp add: render_config_empty or_empty_None)
    then have "trimEnd ?ex = ''    {}''" by (simp add: trimEnd_def is_space_def)
    then show ?thesis
      unfolding out sublist_def
      by (intro exI[of _ "u @ head @ ''  configSchema:\<newline>'' @ ?cs"] exI[of _ v]) simp
  qed
  from 1 2 3 4 show ?thesis by blast
qed

theorem startCommand_always_has_both_configs_witness:
  \<open>SmitheryYamlParams.configSchema typescript_env_params = None
   \<and> SmitheryYamlParams.exampleConfig typescript_env_params = None
   \<and> sublist ''  configSchema:\<newline>    {}\<newline>'' (generateSmitheryYaml typescript_env_params)
   \<and> sublist ''  exampleConfig:\<newline>    {}\<newline>'' (generateSmitheryYaml typescript_env_params)\<close>
proof -
  have a: "SmitheryYamlParams.configSchema typescript_env_params = None"
    and b: "SmitheryYamlParams.exampleConfig typescript_env_params = None"
    by (simp_all add: typescript_env_params_def)
  from startCommand_always_has_both_configs[of typescript_env_params] a b show ?thesis by blast
qed

lemma trimEnd_prefix:
  assumes "a \<noteq> []" and "\<not> is_space (last a)"
  shows "prefix a (trimEnd (a @ b))"
proof (cases "\<exists>c\<in>set b. \<not> is_space c")
  case True
  then show ?thesis by (simp add: trimEnd_append)
next
  case False
  then have "dropWhile is_space (rev b @ rev a) = dropWhile is_space (rev a)"
    by (intro dropWhile_append2) auto
  moreover have "dropWhile is_space (rev a) = rev a"
    using assms by (cases "rev a") (auto simp: last_rev hd_rev[symmetric])
  ultimately show ?thesis by (simp add: trimEnd_def)
qed

lemma render_entry_key: "prefix (key_of f @ '':'') (render_entry f)"
proof (cases f)
  case (FRuntime v)
  then show ?thesis by simp
next
  case (FBuild b)
  have \<open>prefix ''build:'' (trimEnd (''build:'' @ (''\<newline>''
        @ (if truthy_str (build_object.dockerfile b)
           then ''  dockerfile: "'' @ the (build_object.dockerfile b) @ ''"\<newline>'' else [])
        @ (if truthy_str (build_object.dockerBuildPath b)
           then ''  dockerBuildPath: "'' @ the (build_object.dockerBuildPath b) @ ''"\<newline>'' else []))))\<close>
    by (rule trimEnd_prefix) (simp_all add: is_space_def)
  with FBuild show ?thesis by (simp add: render_build_def)
next
  case (FStartCommand sc)
  have \<open>prefix ''startCommand:'' (trimEnd (''startCommand:'' @ (''\<newline>''
        @ ''  type: "'' @ type sc @ ''"\<newline>''
        @ (if truthy_str (start_command.commandFunction sc) then
             (''  commandFunction:\<newline>'' @
              ''    # A JS function that produces the CLI command based on the given config to start the MCP on stdio.\<newline>'' @
              ''    |-\<newline>'')
             @ concat (map (\<lambda>line. ''    '' @ line @ ''\<newline>'')
                         (split_on CHR 0x0A (the (start_command.commandFunction sc))))
           else [])
        @ (case start_command.configSchema sc of
             None \<Rightarrow> []
           | Some c \<Rightarrow>
               ''  # JSON Schema defining the configuration options for the MCP.\<newline>''
               @ ''  configSchema:\<newline>'' @ render_config c)
        @ (case start_command.exampleConfig sc of
             None \<Rightarrow> []
           | Some c \<Rightarrow> ''  exampleConfig:\<newline>'' @ render_config c))))\<close>
    by (rule trimEnd_prefix) (simp_all add: is_space_def)
  with FStartCommand show ?thesis by (simp add: render_startCommand_def)
next
  case (FEnv e)
  have \<open>prefix ''env:'' (trimEnd (''env:'' @ (''\<newline>''
          @ concat (map (\<lambda>kv. ''  '' @ fst kv @ '': "'' @ snd kv @ ''"\<newline>'') e))))\<close>
    by (rule trimEnd_prefix) (simp_all add: is_space_def)
  with FEnv show ?thesis by (simp add: render_env_def)
qed

lemma yamlContent_keys:
  "map key_of (yamlContent p) =
     (if runtime p = Some ''typescript''
      then [''runtime''] @ (if env p = None then [] else [''env'']) @ [''startCommand'']
      else (if \<not> is_local_only_stdio p \<and> truthy_str (runtime p) then [''runtime''] else [])
           @ (if \<not> is_local_only_stdio p
                 \<and> (truthy_str (SmitheryYamlParams.dockerfile p) \<or> truthy_str (SmitheryYamlParams.dockerBuildPath p))
              then [''build''] else [])
           @ [''startCommand''] @ (if env p = None then [] else [''env'']))"
  by (auto simp: yamlContent_explicit split: option.splits)

lemma container_keys_in_order:
  "runtime p \<noteq> Some ''typescript'' \<Longrightarrow> subseq (map key_of (yamlContent p)) spec_field_order"
  by (auto simp: yamlContent_keys spec_field_order_def)

lemma startCommand_block_order:
  \<open>\<exists>cf. render_startCommand (startCommand_of p) =
          trimEnd (''startCommand:\<newline>  type: "'' @ startCommandType p @ ''"\<newline>'' @ cf
                   @ ''  # JSON Schema defining the configuration options for the MCP.\<newline>''
                   @ ''  configSchema:\<newline>'' @ render_config (or_empty (SmitheryYamlParams.configSchema p))
                   @ ''  exampleConfig:\<newline>'' @ render_config (or_empty (SmitheryYamlParams.exampleConfig p)))
        \<and> (if is_local_only_stdio p then prefix ''  commandFunction:\<newline>'' cf else cf = [])\<close>
proof (cases "is_local_only_stdio p")
  case True
  show ?thesis
    by (rule exI[of _ "(''  commandFunction:\<newline>'' @
                        ''    # A JS function that produces the CLI command based on the given config to start the MCP on stdio.\<newline>'' @
                        ''    |-\<newline>'') @ concat (map (\<lambda>line. ''    '' @ line @ ''\<newline>'')
              (split_on CHR 0x0A (the (SmitheryYamlParams.commandFunction p))))"])
       (use True in \<open>simp add: render_startCommand_def startCommand_of_def is_local_only_stdio_def\<close>)
next
  case False
  show ?thesis
    by (rule exI[of _ "[]"])
       (use False in \<open>auto simp: render_startCommand_def startCommand_of_def is_local_only_stdio_def truthy_str_def\<close>)
qed

text \<open>
  Claim C7 says that the top-level fields always come in the order runtime, build,
  startCommand, env. For the TypeScript runtime with an environment the generator stores
  \<open>env\<close> before \<open>startCommand\<close>, and the output has them in that order.
\<close>

theorem typescript_env_order_counterexample:
  \<open>\<not> subseq (map key_of (yamlContent typescript_env_params)) spec_field_order
   \<and> generateSmitheryYaml typescript_env_params =
       (''# Smithery configuration file: https://smithery.ai/docs/build/project-config/smithery-yaml\<newline>'' @
        ''runtime: "typescript"\<newline>'' @
        ''env:\<newline>'' @
        ''  API_URL: "https://example.com"\<newline>'' @
        ''startCommand:\<newline>'' @
        ''  type: "http"\<newline>'' @
        ''  # JSON Schema defining the configuration options for the MCP.\<newline>'' @
        ''  configSchema:\<newline>'' @
        ''    {}\<newline>'' @
        ''  exampleConfig:\<newline>'' @
        ''    {}\<newline>'')\<close>
  by code_simp

text \<open>
  Claim C7, amended. The keys of the output are, in this order: for the runtime
  "typescript", \<open>runtime\<close>, then \<open>env\<close> if an environment is given, then \<open>startCommand\<close>;
  for any other runtime, \<open>runtime\<close> and \<open>build\<close> (each only if the request is not a
  local-only stdio server, that is stdio with a non-empty command function, and only if a
  non-empty runtime, respectively a non-empty dockerfile or build path, is given), then
  \<open>startCommand\<close>, then \<open>env\<close> if given, so that the order runtime, build, startCommand, env
  holds there. The output is the comment line and the entries joined by line breaks, each
  entry starting with its key; the \<open>startCommand\<close> block has the type, then the command
  function exactly for a local-only stdio server, then \<open>configSchema\<close>, then \<open>exampleConfig\<close>.
\<close>

theorem descriptor_fields_and_order:
  \<open>map key_of (yamlContent p) =
     (if runtime p = Some ''typescript''
      then [''runtime''] @ (if env p = None then [] else [''env'']) @ [''startCommand'']
      else (if \<not> is_local_only_stdio p \<and> truthy_str (runtime p) then [''runtime''] else [])
           @ (if \<not> is_local_only_stdio p
                 \<and> (truthy_str (SmitheryYamlParams.dockerfile p) \<or> truthy_str (SmitheryYamlParams.dockerBuildPath p))
              then [''build''] else [])
           @ [''startCommand''] @ (if env p = None then [] else [''env'']))
   \<and> (runtime p \<noteq> Some ''typescript'' \<longrightarrow> subseq (map key_of (yamlContent p)) spec_field_order)
   \<and> (\<forall>f\<in>set (yamlContent p). prefix (key_of f @ '':'') (render_entry f))
   \<and> generateSmitheryYaml p =
         ''# Smithery configuration file: https://smithery.ai/docs/build/project-config/smithery-yaml\<newline>'' @ join ''\<newline>'' (map render_entry (yamlContent p)) @ ''\<newline>''
   \<and> FStartCommand (startCommand_of p) \<in> set (yamlContent p)
   \<and> (\<exists>cf. render_startCommand (startCommand_of p) =
          trimEnd (''startCommand:\<newline>  type: "'' @ startCommandType p @ ''"\<newline>'' @ cf
                   @ ''  # JSON Schema defining the configuration options for the MCP.\<newline>''
                   @ ''  configSchema:\<newline>'' @ render_config (or_empty (SmitheryYamlParams.configSchema p))
                   @ ''  exampleConfig:\<newline>'' @ render_config (or_empty (SmitheryYamlParams.exampleConfig p)))
        \<and> (if is_local_only_stdio p then prefix ''  commandFunction:\<newline>'' cf else cf = []))\<close>
proof (intro conjI)
  show "map key_of (yamlContent p) =
     (if runtime p = Some ''typescript''
      then [''runtime''] @ (if env p = None then [] else [''env'']) @ [''startCommand'']
      else (if \<not> is_local_only_stdio p \<and> truthy_str (runtime p) then [''runtime''] else [])
           @ (if \<not> is_local_only_stdio p
                 \<and> (truthy_str (SmitheryYamlParams.dockerfile p) \<or> truthy_str (SmitheryYamlParams.dockerBuildPath p))
              then [''build''] else [])
           @ [''startCommand''] @ (if env p = None then [] else [''env'']))"
    by (rule yamlContent_keys)
  show "runtime p \<noteq> Some ''typescript'' \<longrightarrow> subseq (map key_of (yamlContent p)) spec_field_order"
    by (rule impI) (rule container_keys_in_order)
  show "\<forall>f\<in>set (yamlContent p). prefix (key_of f @ '':'') (render_entry f)"
    by (rule ballI) (rule render_entry_key)
  show "generateSmitheryYaml p =
         ''# Smithery configuration file: https://smithery.ai/docs/build/project-config/smithery-yaml\<newline>'' @ join ''\<newline>'' (map render_entry (yamlContent p)) @ ''\<newline>''"
    by (simp add: generateSmitheryYaml_def Let_def)
  show "FStartCommand (startCommand_of p) \<in> set (yamlContent p)"
    using yamlContent_startCommand[of p] by auto
  show \<open>\<exists>cf. render_startCommand (startCommand_of p) =
          trimEnd (''startCommand:\<newline>  type: "'' @ startCommandType p @ ''"\<newline>'' @ cf
                   @ ''  # JSON Schema defining the configuration options for the MCP.\<newline>''
                   @ ''  configSchema:\<newline>'' @ render_config (or_empty (SmitheryYamlParams.configSchema p))
                   @ ''  exampleConfig:\<newline>'' @ render_config (or_empty (SmitheryYamlParams.exampleConfig p)))
        \<and> (if is_local_only_stdio p then prefix ''  commandFunction:\<newline>'' cf else cf = [])\<close>
    by (rule startCommand_block_order)
qed

theorem descriptor_fields_and_order_witness:
  \<open>runtime container_http_params \<noteq> Some ''typescript''
   \<and> map key_of (yamlContent container_http_params) = [''runtime'', ''build'', ''startCommand'', ''env'']
   \<and> subseq (map key_of (yamlContent container_http_params)) spec_field_order
   \<and> FStartCommand (startCommand_of container_http_params) \<in> set (yamlContent container_http_params)
   \<and> prefix ''startCommand:'' (render_entry (FStartCommand (startCommand_of container_http_params)))
   \<and> map key_of (yamlContent container_stdio_params) = [''startCommand'']\<close>
proof -
  note T = descriptor_fields_and_order[of container_http_params]
  note U = descriptor_fields_and_order[of container_stdio_params]
  have r: "runtime container_http_params \<noteq> Some ''typescript''"
    by (simp add: container_http_params_def)
  have k: "map key_of (yamlContent container_http_params) = [''runtime'', ''build'', ''startCommand'', ''env'']"
    using T[THEN conjunct1]
    by (simp add: container_http_params_def is_local_only_stdio_def truthy_str_def)
  have l: "map key_of (yamlContent container_stdio_params) = [''startCommand'']"
    using U[THEN conjunct1]
    by (simp add: container_stdio_params_def is_local_only_stdio_def truthy_str_def)
  have s: "subseq (map key_of (yamlContent container_http_params)) spec_field_order"
    using T[THEN conjunct2, THEN conjunct1] r by (rule mp)
  have m: "FStartCommand (startCommand_of container_http_params) \<in> set (yamlContent container_http_params)"
    by (rule T[THEN conjunct2, THEN conjunct2, THEN conjunct2, THEN conjunct2, THEN conjunct1])
  have "prefix (key_of (FStartCommand (startCommand_of container_http_params)) @ '':'')
          (render_entry (FStartCommand (startCommand_of container_http_params)))"
    using T[THEN conjunct2, THEN conjunct2, THEN conjunct1] m by (rule bspec)
  then have q: "prefix ''startCommand:'' (render_entry (FStartCommand (startCommand_of container_http_params)))"
    by simp
  from r k l s m q show ?thesis by (intro conjI)
qed

section \<open>Occurrence of a text in a concatenation\<close>

lemma absent_cat:
  assumes a: "absent m a" and b: "absent m b" and j: "junction_ok m a b"
  shows "absent m (a @ b)"
proof -
  have False if s: "sublist m (a @ b)"
  proof -
    from s a b obtain xs1 xs2 where x: "m = xs1 @ xs2" "suffix xs1 a" "prefix xs2 b"
      by (auto simp: sublist_append absent_def)
    have "xs1 \<noteq> []" using x b by (auto simp: absent_def)
    moreover have "xs2 \<noteq> []" using x a by (auto simp: absent_def)
    ultimately have "a \<noteq> []" "b \<noteq> []" "last a = last xs1" "hd b = hd xs2" "last xs1 \<in> set m" "hd xs2 \<in> set m"
      using x by (auto simp: suffix_def prefix_def)
    with j show False by (auto simp: junction_ok_def split: if_splits)
  qed
  then show ?thesis by (auto simp: absent_def)
qed

lemma absent_lit:
  "absent (x # xs) [] = True"
  "y \<noteq> x \<Longrightarrow> absent (x # xs) (y # ys) = absent (x # xs) ys"
  "absent (x # xs) (x # ys) = (\<not> prefix xs ys \<and> absent (x # xs) ys)"
  by (auto simp: absent_def sublist_Cons_right)

lemma sublist_lit:
  "y \<noteq> x \<Longrightarrow> sublist (x # xs) (y # ys) = sublist (x # xs) ys"
  "sublist (x # xs) (x # ys) = (prefix xs ys \<or> sublist (x # xs) ys)"
  by (auto simp: sublist_Cons_right)

lemma absent_Nil: "m \<noteq> [] \<Longrightarrow> absent m []"
  by (cases m) (simp_all add: absent_lit)

lemma absent_join:
  assumes "\<forall>x\<in>set xs. absent m x" and "m \<noteq> []" and "absent m sep" and "sep \<noteq> []"
    and "hd sep \<notin> set m" and "last sep \<notin> set m"
  shows "absent m (join sep xs)"
  using assms
proof (induction sep xs rule: join.induct)
  case (3 sep x y ys)
  have r: "absent m (join sep (y # ys))" using 3 by simp
  have s: "absent m (sep @ join sep (y # ys))"
    by (rule absent_cat[OF "3.prems"(3) r]) (use 3 in \<open>auto simp: junction_ok_def\<close>)
  have x: "absent m x" using 3 by simp
  have "absent m (x @ sep @ join sep (y # ys))"
    by (rule absent_cat[OF x s]) (use 3 in \<open>auto simp: junction_ok_def\<close>)
  then show ?case by simp
qed (auto simp: absent_Nil)

lemma absent_no_char: "c \<in> set m \<Longrightarrow> c \<notin> set s \<Longrightarrow> absent m s"
  by (auto simp: absent_def sublist_def)



lemma sequence_err_Inr:
  "sequence_err ms = Inr ys \<Longrightarrow> ms = map Inr ys"
proof (induction ms arbitrary: ys)
  case (Cons m ms)
  then show ?case by (auto split: sum.splits)
qed simp

lemma sequence_err_map:
  assumes "sequence_err (map f xs) = Inr ys"
  shows "length ys = length xs \<and> (\<forall>i<length xs. f (xs ! i) = Inr (ys ! i))"
proof -
  from sequence_err_Inr[OF assms] have e: "map f xs = map Inr ys" .
  then have l: "length ys = length xs" by (metis length_map)
  moreover have "f (xs ! i) = Inr (ys ! i)" if "i < length xs" for i
    using e that l by (metis nth_map)
  ultimately show ?thesis by blast
qed

lemma sequence_err_all:
  assumes "sequence_err (map f xs) = Inr ys" and "\<And>x y. x \<in> set xs \<Longrightarrow> f x = Inr y \<Longrightarrow> P y"
  shows "\<forall>y\<in>set ys. P y"
proof
  fix y assume "y \<in> set ys"
  then obtain i where i: "i < length ys" "ys ! i = y" by (auto simp: in_set_conv_nth)
  with sequence_err_map[OF assms(1)] have "f (xs ! i) = Inr y" "xs ! i \<in> set xs" by auto
  then show "P y" using assms(2) by blast
qed

lemma sequence_err_total:
  assumes "\<And>x. x \<in> set xs \<Longrightarrow> \<exists>y. f x = Inr y"
  shows "\<exists>ys. sequence_err (map f xs) = Inr ys"
  using assms
proof (induction xs)
  case (Cons x xs)
  then obtain y ys where "f x = Inr y" "sequence_err (map f xs) = Inr ys" by (meson list.set_intros)
  then show ?case by simp
qed simp

lemma escape_quotes_absent_gen:
  assumes "CHR 0x22 \<notin> set m" and "CHR 0x5C \<notin> set m" and "m \<noteq> []"
  shows "absent m (a @ escape_quotes s) = absent m (a @ s)"
proof (induction s arbitrary: a)
  case Nil
  show ?case by (simp add: escape_quotes_def)
next
  case (Cons c s)
  have e: "escape_quotes (c # s) = (if c = CHR 0x22 then [CHR 0x5C, CHR 0x22] else [c]) @ escape_quotes s"
    by (simp add: escape_quotes_def)
  show ?case
  proof (cases "c = CHR 0x22")
    case False
    with Cons[of "a @ [c]"] e show ?thesis by simp
  next
    case True
    have sep: "absent m (u @ q # v) = (absent m u \<and> absent m v)" if "q \<notin> set m" for u q v
    proof -
      have "sublist m (u @ q # v) = (sublist m u \<or> sublist m (q # v))"
        using that by (auto simp: sublist_append suffix_def prefix_def Cons_eq_append_conv append_eq_Cons_conv)
      moreover have "sublist m (q # v) = sublist m v"
        using that assms(3) by (cases m) (auto simp: sublist_Cons_right prefix_def)
      ultimately show ?thesis by (simp add: absent_def)
    qed
    have "absent m (a @ escape_quotes (c # s)) = (absent m a \<and> absent m (CHR 0x22 # escape_quotes s))"
      using sep[OF assms(2), of a "CHR 0x22 # escape_quotes s"] e True by simp
    also have "absent m (CHR 0x22 # escape_quotes s) = absent m ([] @ escape_quotes s)"
      using sep[OF assms(1), of "[]" "escape_quotes s"] assms(3) by (cases m) (auto simp: absent_lit)
    also have "\<dots> = absent m ([] @ s)" by (rule Cons)
    finally show ?thesis using sep[OF assms(1), of a s] True by simp
  qed
qed

lemma escape_quotes_absent:
  "CHR 0x22 \<notin> set m \<Longrightarrow> CHR 0x5C \<notin> set m \<Longrightarrow> m \<noteq> [] \<Longrightarrow> absent m s \<Longrightarrow> absent m (escape_quotes s)"
  using escape_quotes_absent_gen[of m "[]" s] by simp

section \<open>Inputs on which the generators return\<close>

lemma sequence_err_total':
  assumes "list_all (\<lambda>x. \<exists>y. f x = Inr y) xs"
  shows "\<exists>ys. sequence_err (map f xs) = Inr ys"
  using assms by (intro sequence_err_total) (simp add: list_all_iff)

lemma js_String_total: "printable v \<Longrightarrow> \<exists>s. js_String v = Inr s"
proof (induction v)
  case (JArr xs)
  have "\<exists>ss. sequence_err (map (\<lambda>x. if x = JNull then Inr [] else js_String x) xs) = Inr ss"
  proof (rule sequence_err_total)
    fix x assume "x \<in> set xs"
    with JArr show "\<exists>y. (if x = JNull then Inr [] else js_String x) = Inr y"
      by (auto simp: list_all_iff)
  qed
  then show ?case by auto
qed simp_all

lemma default_text_total: "printable d \<Longrightarrow> \<exists>s. default_text d = Inr s"
  using js_String_total[of d] by (cases d) (simp_all add: default_text_def)

lemma zod_property_line_total:
  assumes "wf_property req kv"
  shows "\<exists>l. zod_property_line req indent kv = Inr l"
proof -
  from assms have nn: "snd kv \<noteq> JNull" by (simp add: wf_property_def)
  define zt0 where \<open>zt0 =
     (if get (snd kv) ''type'' = Some (JStr ''string'') then ''z.string()''
      else if get (snd kv) ''type'' = Some (JStr ''number'') then ''z.number()''
      else if get (snd kv) ''type'' = Some (JStr ''integer'') then ''z.number().int()''
      else if get (snd kv) ''type'' = Some (JStr ''boolean'') then ''z.boolean()''
      else if get (snd kv) ''type'' = Some (JStr ''array'') then ''z.array(z.any())''
      else if get (snd kv) ''type'' = Some (JStr ''object'') then ''z.record(z.any())''
      else ''z.unknown()'')\<close>
  define A where \<open>A =
     (case get (snd kv) ''default'' of
        Some d \<Rightarrow>
          (case default_text d of
             Inl e \<Rightarrow> Inl e
           | Inr defaultValue \<Rightarrow> Inr (zt0 @ ''.default('' @ defaultValue @ '')''))
      | None \<Rightarrow>
          (case js_includes req (fst kv) of
             Inl e \<Rightarrow> Inl e
           | Inr b \<Rightarrow> Inr (if \<not> b then zt0 @ ''.optional()'' else zt0)))\<close>
  define B where \<open>B = (\<lambda>zodType1.
     (case get (snd kv) ''description'' of
        None \<Rightarrow> Inr (indent @ fst kv @ '': '' @ zodType1 @ '','')
      | Some d \<Rightarrow>
          if \<not> truthy d then Inr (indent @ fst kv @ '': '' @ zodType1 @ '','')
          else (case d of
                  JStr s \<Rightarrow>
                    Inr (indent @ fst kv @ '': '' @ zodType1
                         @ ''.describe("'' @ escape_quotes s @ ''")'' @ '','')
                | _ \<Rightarrow> Inl TypeError)))\<close>
  have eq: "zod_property_line req indent kv =
      (if snd kv = JNull then Inl TypeError
       else case A of Inl e \<Rightarrow> Inl e | Inr zodType1 \<Rightarrow> B zodType1)"
    by (simp only: zod_property_line_def Let_def zt0_def A_def B_def)
  have "\<exists>z. A = Inr z"
  proof (cases "get (snd kv) ''default''")
    case None
    with assms have "includes_ok req" by (simp add: wf_property_def)
    then obtain b where "js_includes req (fst kv) = Inr b"
      by (cases req) (simp_all add: includes_ok_def js_includes_def)
    with None show ?thesis by (simp add: A_def)
  next
    case (Some d)
    with assms have "printable d" by (simp add: wf_property_def)
    from default_text_total[OF this] obtain t where "default_text d = Inr t" ..
    with Some show ?thesis by (simp add: A_def)
  qed
  then obtain z where z: "A = Inr z" ..
  have "\<exists>l. B z = Inr l"
  proof (cases "get (snd kv) ''description''")
    case None
    then show ?thesis by (simp add: B_def)
  next
    case (Some d)
    with assms have "case d of JStr s \<Rightarrow> True | _ \<Rightarrow> \<not> truthy d" by (simp add: wf_property_def)
    with Some show ?thesis by (cases d) (simp_all add: B_def)
  qed
  with eq nn z show ?thesis by simp
qed

lemma generateZodSchemaFromJson_total:
  assumes "s \<noteq> JNull" and "wf_schema (Some s)"
  shows "\<exists>z. generateZodSchemaFromJson s indent = Inr z"
proof -
  have "\<exists>ls. sequence_err (map (zod_property_line (or_empty_array (get s ''required'')) indent)
          (entries (or_empty (get s ''properties'')))) = Inr ls"
    using assms(2)
    by (intro sequence_err_total zod_property_line_total) (simp add: wf_schema_def list_all_iff)
  then show ?thesis using assms(1) by (auto simp: generateZodSchemaFromJson_def Let_def)
qed

lemma truthy_not_null: "truthy a \<Longrightarrow> a \<noteq> JNull"
  by auto

lemma inputSchemaString_total:
  assumes "wf_schema (inputSchema t)"
  shows "\<exists>z. inputSchemaString t = Inr z"
proof (cases "inputSchema t")
  case None
  then show ?thesis by (simp add: inputSchemaString_def)
next
  case (Some a)
  show ?thesis
  proof (cases "truthy a")
    case False
    with Some show ?thesis by (simp add: inputSchemaString_def)
  next
    case True
    with generateZodSchemaFromJson_total[of a "''        ''"] assms Some
    obtain z where "generateZodSchemaFromJson a ''        '' = Inr z" by (auto dest: truthy_not_null)
    with Some True show ?thesis by (simp add: inputSchemaString_def)
  qed
qed

lemma generateToolsCode_total:
  assumes "list_all (\<lambda>t. wf_schema (inputSchema t)) ts"
  shows "\<exists>s. generateToolsCode ts h = Inr s"
proof (cases ts)
  case Nil
  then show ?thesis by (simp add: generateToolsCode_def)
next
  case (Cons t ts')
  with assms obtain z where "inputSchemaString t = Inr z"
    using inputSchemaString_total[of t] by auto
  with Cons show ?thesis by (simp add: generateToolsCode_def Let_def)
qed

lemma generatePromptsCode_total:
  assumes "list_all (\<lambda>q. wf_schema (argsSchema q)) ps"
  shows "\<exists>s. generatePromptsCode ps = Inr s"
proof (cases ps)
  case Nil
  then show ?thesis by (simp add: generatePromptsCode_def)
next
  case (Cons q ps')
  show ?thesis
  proof (cases "argsSchema q")
    case None
    with Cons show ?thesis by (simp add: generatePromptsCode_def Let_def)
  next
    case (Some a)
    show ?thesis
    proof (cases "truthy a")
      case False
      with Some Cons show ?thesis by (simp add: generatePromptsCode_def Let_def)
    next
      case True
      with generateZodSchemaFromJson_total[of a "''        ''"] assms Some Cons
      obtain z where "generateZodSchemaFromJson a ''        '' = Inr z" by (auto dest: truthy_not_null)
      with Some True Cons show ?thesis by (simp add: generatePromptsCode_def Let_def)
    qed
  qed
qed

lemma wf_schema_property:
  assumes "wf_schema (Some s)" and "truthy_opt (get s ''properties'')"
    and "kv \<in> set (entries (the (get s ''properties'')))"
  shows "wf_property (or_empty_array (get s ''required'')) kv"
proof -
  from assms(2) have "or_empty (get s ''properties'') = the (get s ''properties'')"
    by (auto simp: or_empty_def truthy_opt_def split: option.splits)
  with assms(1,3) show ?thesis by (auto simp: wf_schema_def list_all_iff)
qed

lemma wf_schema_values:
  assumes "wf_schema (Some s)" and "truthy_opt (get s ''properties'')"
    and "kv \<in> set (entries (the (get s ''properties'')))"
  shows "snd kv \<noteq> JNull"
  using wf_schema_property[OF assms] by (simp add: wf_property_def)

lemma wf_schema_defaults:
  assumes "wf_schema (Some s)" and "truthy_opt (get s ''properties'')"
    and "kv \<in> set (entries (the (get s ''properties'')))"
  shows "case get (snd kv) ''default'' of None \<Rightarrow> True | Some d \<Rightarrow> printable d"
  using wf_schema_property[OF assms] by (simp add: wf_property_def split: option.splits)

lemma generateEnvConfigParsing_total:
  assumes "wf_schema cs"
  shows "\<exists>s. generateEnvConfigParsing cs = Inr s"
proof (cases "\<not> truthy_opt cs \<or> \<not> truthy_opt (get (the cs) ''properties'')")
  case True
  then show ?thesis by (auto simp: generateEnvConfigParsing_def)
next
  case False
  then obtain s where s: "cs = Some s" by (cases cs) (auto simp: truthy_opt_def)
  have "\<exists>ls. sequence_err (map env_config_line (entries (the (get s ''properties'')))) = Inr ls"
  proof (rule sequence_err_total)
    fix kv assume "kv \<in> set (entries (the (get s ''properties'')))"
    with wf_schema_values[of s kv] assms s False have "snd kv \<noteq> JNull" by simp
    then show "\<exists>y. env_config_line kv = Inr y" by (simp add: env_config_line_def Let_def)
  qed
  with False s show ?thesis by (auto simp: generateEnvConfigParsing_def)
qed

lemma has_keys_not_null: "has_keys cs \<Longrightarrow> the cs \<noteq> JNull"
  by (cases cs) (auto simp: has_keys_def)

lemma generateConfigSchema_total:
  assumes "wf_schema cs"
  shows "\<exists>s. generateConfigSchema cs = Inr s"
proof (cases "has_keys cs")
  case False
  then show ?thesis by (simp add: generateConfigSchema_def)
next
  case True
  then obtain s where s: "cs = Some s" by (cases cs) (auto simp: has_keys_def)
  with generateZodSchemaFromJson_total[of s "''  ''"] has_keys_not_null[OF True] assms
  obtain z where "generateZodSchemaFromJson s ''  '' = Inr z" by auto
  with True s show ?thesis by (simp add: generateConfigSchema_def)
qed

lemma generateCustomContainerConfigSchema_total:
  assumes "wf_schema cs"
  shows "\<exists>s. generateCustomContainerConfigSchema cs = Inr s"
proof (cases "has_keys cs")
  case False
  then show ?thesis by (simp add: generateCustomContainerConfigSchema_def)
next
  case True
  then obtain s where s: "cs = Some s" by (cases cs) (auto simp: has_keys_def)
  with generateZodSchemaFromJson_total[of s "''  ''"] has_keys_not_null[OF True] assms
  obtain z where "generateZodSchemaFromJson s ''  '' = Inr z" by auto
  with True s show ?thesis by (simp add: generateCustomContainerConfigSchema_def)
qed

lemma generateBackwardsCompatibilityCode_total:
  assumes "wf_schema cs"
  shows "\<exists>s. generateBackwardsCompatibilityCode cs = Inr s"
proof -
  from generateEnvConfigParsing_total[OF assms] obtain p where "generateEnvConfigParsing cs = Inr p" ..
  then show ?thesis by (simp add: generateBackwardsCompatibilityCode_def Let_def)
qed


lemma template_params_of_simps:
  "template_params.tools (template_params_of parse p) = SmitheryMigrationParams.tools p"
  "template_params.prompts (template_params_of parse p) = SmitheryMigrationParams.prompts p"
  "template_params.resources (template_params_of parse p) = SmitheryMigrationParams.resources p"
  "template_params.serverName (template_params_of parse p) = SmitheryMigrationParams.serverName p"
  "template_params.serverVersion (template_params_of parse p) = SmitheryMigrationParams.serverVersion p"
  "template_params.includeBackwardCompatibility (template_params_of parse p)
     = SmitheryMigrationParams.includeBackwardCompatibility p"
  "template_params.configSchema (template_params_of parse p) = extractedConfigSchema parse (smitheryYaml p)"
  by (simp_all add: template_params_of_def)

lemma generateIndexTsTemplate_total:
  assumes "list_all (\<lambda>t. wf_schema (inputSchema t)) (template_params.tools tp)"
    and "list_all (\<lambda>q. wf_schema (argsSchema q)) (template_params.prompts tp)"
    and "wf_schema (template_params.configSchema tp)"
  shows "\<exists>s. generateIndexTsTemplate tp = Inr s"
proof -
  obtain c where c: "generateConfigSchema (template_params.configSchema tp) = Inr c"
    using generateConfigSchema_total[OF assms(3)] ..
  obtain t where t: "generateToolsCode (template_params.tools tp)
      (has_keys (template_params.configSchema tp)) = Inr t"
    using generateToolsCode_total[OF assms(1)] ..
  obtain q where q: "generatePromptsCode (template_params.prompts tp) = Inr q"
    using generatePromptsCode_total[OF assms(2)] ..
  obtain b where b: "generateBackwardsCompatibilityCode (template_params.configSchema tp) = Inr b"
    using generateBackwardsCompatibilityCode_total[OF assms(3)] ..
  show ?thesis
    unfolding generateIndexTsTemplate_def Let_def c t q b
    by (cases "has_keys (template_params.configSchema tp)";
        cases "template_params.includeBackwardCompatibility tp") simp_all
qed

lemma custom_container_tool_total:
  assumes "wf_schema (inputSchema t)"
  shows "\<exists>s. custom_container_tool h t = Inr s"
proof -
  obtain z where "inputSchemaString t = Inr z" using inputSchemaString_total[OF assms] ..
  then show ?thesis by (simp add: custom_container_tool_def Let_def)
qed

lemma generateCustomContainerToolsCode_total:
  assumes "list_all (\<lambda>t. wf_schema (inputSchema t)) ts"
  shows "\<exists>s. generateCustomContainerToolsCode ts h = Inr s"
proof -
  have "\<exists>ls. sequence_err (map (custom_container_tool h) ts) = Inr ls"
    using assms by (intro sequence_err_total custom_container_tool_total) (simp add: list_all_iff)
  then show ?thesis by (auto simp: generateCustomContainerToolsCode_def)
qed

lemma generateCustomContainerMainFunction_total:
  assumes "wf_schema cs"
  shows "\<exists>s. generateCustomContainerMainFunction ibc h cs = Inr s"
proof -
  obtain e where e: "generateEnvConfigParsing cs = Inr e"
    using generateEnvConfigParsing_total[OF assms] ..
  show ?thesis
    unfolding generateCustomContainerMainFunction_def Let_def e
    by (cases ibc; cases h) simp_all
qed

lemma generateCustomContainerTemplate_total:
  assumes "list_all (\<lambda>t. wf_schema (inputSchema t)) (template_params.tools tp)"
    and "list_all (\<lambda>q. wf_schema (argsSchema q)) (template_params.prompts tp)"
    and "wf_schema (template_params.configSchema tp)"
  shows "\<exists>s. generateCustomContainerTemplate tp = Inr s"
proof -
  obtain c where c: "generateCustomContainerConfigSchema (template_params.configSchema tp) = Inr c"
    using generateCustomContainerConfigSchema_total[OF assms(3)] ..
  obtain t where t: "generateCustomContainerToolsCode (template_params.tools tp) True = Inr t"
    using generateCustomContainerToolsCode_total[OF assms(1)] ..
  obtain t' where t': "generateCustomContainerToolsCode (template_params.tools tp) False = Inr t'"
    using generateCustomContainerToolsCode_total[OF assms(1)] ..
  obtain q where q: "generatePromptsCode (template_params.prompts tp) = Inr q"
    using generatePromptsCode_total[OF assms(2)] ..
  obtain m1 where m1: "generateCustomContainerMainFunction
      (template_params.includeBackwardCompatibility tp) (c \<noteq> []) (template_params.configSchema tp) = Inr m1"
    using generateCustomContainerMainFunction_total[OF assms(3)] ..
  obtain m2 where m2: "generateCustomContainerMainFunction
      (template_params.includeBackwardCompatibility tp) False (template_params.configSchema tp) = Inr m2"
    using generateCustomContainerMainFunction_total[OF assms(3)] ..
  show ?thesis
  proof (cases "has_keys (template_params.configSchema tp)")
    case True
    then show ?thesis
      unfolding generateCustomContainerTemplate_def Let_def
      by (simp only: if_True c t q m1 sum.case) blast
  next
    case False
    then show ?thesis
      unfolding generateCustomContainerTemplate_def Let_def
      by (simp only: if_False t' q m2 sum.case list.simps not_False_eq_True not_True_eq_False simp_thms) blast
  qed
qed

lemma python_default_total:
  assumes "v \<noteq> JNull" and "case get v ''default'' of None \<Rightarrow> True | Some d \<Rightarrow> printable d"
  shows "\<exists>s. python_default v = Inr s"
proof (cases "get v ''default''")
  case None
  with assms show ?thesis by (simp add: python_default_def)
next
  case (Some d)
  with assms have "printable d" by simp
  from default_text_total[OF this] Some assms(1) show ?thesis by (simp add: python_default_def)
qed

lemma get_entries_value:
  assumes "k \<in> set (map fst (entries v))"
  shows "(k, the (get v k)) \<in> set (entries v)"
proof -
  from assms obtain x where "map_of (entries v) k = Some x"
    by (cases "map_of (entries v) k") (auto simp: map_of_eq_None_iff)
  then show ?thesis by (auto simp: get_def dest: map_of_SomeD)
qed

lemma configAccessCode_total:
  assumes "wf_schema cs"
  shows "\<exists>s. configAccessCode cs = Inr s"
proof (cases "truthy_opt cs \<and> truthy_opt (get (the cs) ''properties'')")
  case False
  then show ?thesis unfolding configAccessCode_def by (simp only: if_False) blast
next
  case True
  then obtain s where s: "cs = Some s" by (cases cs) (auto simp: truthy_opt_def)
  let ?props = "the (get s ''properties'')"
  have nn: "\<And>k. k \<in> set (map fst (entries ?props)) \<Longrightarrow> the (get ?props k) \<noteq> JNull"
  proof -
    fix k assume "k \<in> set (map fst (entries ?props))"
    then have "(k, the (get ?props k)) \<in> set (entries ?props)" by (rule get_entries_value)
    with wf_schema_values[of s "(k, the (get ?props k))"] assms s True
    show "the (get ?props k) \<noteq> JNull" by simp
  qed
  have pd: "\<And>k. k \<in> set (map fst (entries ?props)) \<Longrightarrow>
      (case get (the (get ?props k)) ''default'' of None \<Rightarrow> True | Some d \<Rightarrow> printable d)"
  proof -
    fix k assume "k \<in> set (map fst (entries ?props))"
    then have "(k, the (get ?props k)) \<in> set (entries ?props)" by (rule get_entries_value)
    with wf_schema_defaults[of s "(k, the (get ?props k))"] assms s True
    show "case get (the (get ?props k)) ''default'' of None \<Rightarrow> True | Some d \<Rightarrow> printable d"
      by simp
  qed
  have "\<exists>ls. sequence_err (map (http_config_line ?props) (map fst (entries ?props))) = Inr ls"
  proof (rule sequence_err_total)
    fix k assume "k \<in> set (map fst (entries ?props))"
    from python_default_total[OF nn[OF this] pd[OF this]] obtain d where "python_default (the (get ?props k)) = Inr d" ..
    then show "\<exists>y. http_config_line ?props k = Inr y" by (simp add: http_config_line_def)
  qed
  then obtain hl where hl: "sequence_err (map (http_config_line ?props) (map fst (entries ?props))) = Inr hl" ..
  have "\<exists>ls. sequence_err (map (env_var_line ?props) (map fst (entries ?props))) = Inr ls"
  proof (rule sequence_err_total)
    fix k assume "k \<in> set (map fst (entries ?props))"
    from python_default_total[OF nn[OF this] pd[OF this]] obtain d where "python_default (the (get ?props k)) = Inr d" ..
    then show "\<exists>y. env_var_line ?props k = Inr y" by (simp add: env_var_line_def Let_def)
  qed
  then obtain el where el: "sequence_err (map (env_var_line ?props) (map fst (entries ?props))) = Inr el" ..
  from True s hl el show ?thesis
    unfolding configAccessCode_def Let_def
    by (cases "join ''\<newline>'' hl = []") simp_all
qed

lemma python_tool_total:
  assumes "wf_schema cs"
  shows "\<exists>s. python_tool cs t = Inr s"
proof -
  obtain a where "configAccessCode cs = Inr a" using configAccessCode_total[OF assms] ..
  then show ?thesis by (simp add: python_tool_def Let_def)
qed

lemma generatePythonToolsCode_total:
  assumes "wf_schema cs"
  shows "\<exists>s. generatePythonToolsCode ts cs = Inr s"
proof -
  have "\<exists>ls. sequence_err (map (python_tool cs) ts) = Inr ls"
    by (intro sequence_err_total python_tool_total assms)
  then show ?thesis by (auto simp: generatePythonToolsCode_def)
qed

lemma generatePythonTemplate_total:
  assumes "wf_schema (template_params.configSchema tp)"
  shows "\<exists>s. generatePythonTemplate tp = Inr s"
proof -
  obtain t where t: "generatePythonToolsCode (template_params.tools tp) (template_params.configSchema tp) = Inr t"
    using generatePythonToolsCode_total[OF assms] ..
  show ?thesis
    unfolding generatePythonTemplate_def Let_def
    by (simp only: t sum.case) blast
qed


lemma wf_request_more:
  "wf_request parse
     \<lparr>SmitheryMigrationParams.tools = SmitheryMigrationParams.tools p,
      prompts = SmitheryMigrationParams.prompts p,
      resources = SmitheryMigrationParams.resources p,
      serverName = SmitheryMigrationParams.serverName p,
      serverVersion = SmitheryMigrationParams.serverVersion p,
      includeBackwardCompatibility = SmitheryMigrationParams.includeBackwardCompatibility p,
      smitheryYaml = smitheryYaml p\<rparr> = wf_request parse p"
  by (simp add: wf_request_def)

lemma generateSmitheryCliMigration_total:
  assumes "wf_request parse p"
  shows "\<exists>s. generateSmitheryCliMigration parse p = Inr s"
  unfolding generateSmitheryCliMigration_def
  using assms by (intro generateIndexTsTemplate_total) (simp_all add: wf_request_def template_params_of_simps)

lemma generateCustomContainerMigration_total:
  assumes "wf_request parse p"
  shows "\<exists>s. generateCustomContainerMigration parse p = Inr s"
  unfolding generateCustomContainerMigration_def
  using assms by (intro generateCustomContainerTemplate_total) (simp_all add: wf_request_def template_params_of_simps)

lemma generatePythonCustomContainerMigration_total:
  assumes "wf_request parse p"
  shows "\<exists>s. generatePythonCustomContainerMigration parse p = Inr s"
  unfolding generatePythonCustomContainerMigration_def
  using assms by (intro generatePythonTemplate_total) (simp_all add: wf_request_def template_params_of_simps)

section \<open>Registration of tools\<close>
















section \<open>The dispatcher\<close>

text \<open>
  Claim C9, amended. The dispatcher fails with the error
  \<open>Unsupported migration mode: <mode>\<close> for every mode other than \<open>ts-smithery-cli\<close>,
  \<open>ts-custom-container\<close> and \<open>py-custom-container\<close>. For each of these three modes it returns
  text whenever the request is well formed: in every tool input schema, every prompt argument
  schema and the configuration schema extracted from the descriptor, no property is \<open>null\<close>,
  every default can be converted to text (it is no object with a key \<open>toString\<close> and no
  array holding one), \<open>required\<close> is an array or a string wherever a property without default
  is looked up in it, and every truthy \<open>description\<close> is a string.
\<close>

theorem dispatcher_error_policy:
  "(migrationMode p \<notin> {''ts-smithery-cli'', ''ts-custom-container'', ''py-custom-container''}
      \<longrightarrow> generateMigrationTemplate parse p
            = Inl (Error (''Unsupported migration mode: '' @ migrationMode p)))
   \<and> (migrationMode p \<in> {''ts-smithery-cli'', ''ts-custom-container'', ''py-custom-container''}
        \<and> wf_request parse p
      \<longrightarrow> (\<exists>s. generateMigrationTemplate parse p = Inr s))"
proof (intro conjI impI)
  assume "migrationMode p \<notin> {''ts-smithery-cli'', ''ts-custom-container'', ''py-custom-container''}"
  then show "generateMigrationTemplate parse p
      = Inl (Error (''Unsupported migration mode: '' @ migrationMode p))"
    by (simp add: generateMigrationTemplate_def)
next
  assume a: "migrationMode p \<in> {''ts-smithery-cli'', ''ts-custom-container'', ''py-custom-container''}
      \<and> wf_request parse p"
  let ?m = "\<lparr>SmitheryMigrationParams.tools = SmitheryMigrationParams.tools p,
      prompts = SmitheryMigrationParams.prompts p,
      resources = SmitheryMigrationParams.resources p,
      serverName = SmitheryMigrationParams.serverName p,
      serverVersion = SmitheryMigrationParams.serverVersion p,
      includeBackwardCompatibility = SmitheryMigrationParams.includeBackwardCompatibility p,
      smitheryYaml = smitheryYaml p\<rparr>"
  from a have wf: "wf_request parse ?m" by (simp only: wf_request_more)
  from a consider "migrationMode p = ''ts-smithery-cli''" | "migrationMode p = ''ts-custom-container''"
    | "migrationMode p = ''py-custom-container''" by auto
  then show "\<exists>s. generateMigrationTemplate parse p = Inr s"
  proof cases
    case 1
    with generateSmitheryCliMigration_total[OF wf] show ?thesis
      by (simp add: generateMigrationTemplate_def)
  next
    case 2
    with generateCustomContainerMigration_total[OF wf] show ?thesis
      by (simp add: generateMigrationTemplate_def)
  next
    case 3
    with generatePythonCustomContainerMigration_total[OF wf] show ?thesis
      by (simp add: generateMigrationTemplate_def)
  qed
qed

lemma wf_request_with_config:
  "wf_request descriptor_with_config (request_with_config\<lparr>migrationMode := ''ts-smithery-cli''\<rparr>)"
  "wf_request descriptor_with_config (request_with_config\<lparr>migrationMode := ''ts-custom-container''\<rparr>)"
  "wf_request descriptor_with_config (request_with_config\<lparr>migrationMode := ''py-custom-container''\<rparr>)"
  by code_simp+

theorem dispatcher_error_policy_witness:
  "generateMigrationTemplate descriptor_with_config (request_with_config\<lparr>migrationMode := ''go''\<rparr>)
     = Inl (Error ''Unsupported migration mode: go'')
   \<and> wf_request descriptor_with_config (request_with_config\<lparr>migrationMode := ''ts-smithery-cli''\<rparr>)
   \<and> (\<exists>s. generateMigrationTemplate descriptor_with_config
              (request_with_config\<lparr>migrationMode := ''ts-smithery-cli''\<rparr>) = Inr s)
   \<and> wf_request descriptor_with_config (request_with_config\<lparr>migrationMode := ''ts-custom-container''\<rparr>)
   \<and> (\<exists>s. generateMigrationTemplate descriptor_with_config
              (request_with_config\<lparr>migrationMode := ''ts-custom-container''\<rparr>) = Inr s)
   \<and> wf_request descriptor_with_config (request_with_config\<lparr>migrationMode := ''py-custom-container''\<rparr>)
   \<and> (\<exists>s. generateMigrationTemplate descriptor_with_config
              (request_with_config\<lparr>migrationMode := ''py-custom-container''\<rparr>) = Inr s)"
  using dispatcher_error_policy[of "request_with_config\<lparr>migrationMode := ''go''\<rparr>" descriptor_with_config]
    dispatcher_error_policy[of "request_with_config\<lparr>migrationMode := ''ts-smithery-cli''\<rparr>"
      descriptor_with_config]
    dispatcher_error_policy[of "request_with_config\<lparr>migrationMode := ''ts-custom-container''\<rparr>"
      descriptor_with_config]
    dispatcher_error_policy[of "request_with_config\<lparr>migrationMode := ''py-custom-container''\<rparr>"
      descriptor_with_config]
    wf_request_with_config
  by simp

text \<open>
  Claim C9 says that the dispatcher returns a string for every supported mode, whatever
  the tools are. A tool whose input schema has a \<open>null\<close> property makes the
  \<open>ts-smithery-cli\<close> generator read \<open>prop.type\<close> of \<open>null\<close>, and a default that is an object
  with a key \<open>toString\<close> makes the \<open>ts-custom-container\<close> generator convert it to text: in
  both cases the dispatcher throws a \<open>TypeError\<close>.
\<close>

theorem dispatcher_throws_on_null_property_counterexample:
  "migrationMode request_null_property = ''ts-smithery-cli''
   \<and> generateMigrationTemplate no_descriptor request_null_property = Inl TypeError
   \<and> migrationMode request_unprintable_default = ''ts-custom-container''
   \<and> generateMigrationTemplate no_descriptor request_unprintable_default = Inl TypeError"
  by code_simp

section \<open>Texts that the generated files do not contain\<close>

text \<open>
  \<open>guarded m g s\<close>: the text \<open>m\<close> does not occur in \<open>s\<close> and, when \<open>g\<close> holds, \<open>s\<close> is empty or
  starts with a character that \<open>m\<close> does not have, so that \<open>m\<close> cannot occur across the end of
  an arbitrary text put in front of \<open>s\<close>. The rules below go through a concatenation from
  left to right: a fixed text that ends with a character foreign to \<open>m\<close> may be followed by
  anything; a text supplied by the caller must be followed by a fixed text that starts with
  such a character.
\<close>

lemma absent_if: "absent m a \<Longrightarrow> absent m b \<Longrightarrow> absent m (if c then a else b)"
  by simp

lemma guarded_absent: "guarded m False s \<Longrightarrow> absent m s"
  by (simp add: guarded_def)

lemma guarded_lit:
  assumes "absent m l" and "hd l \<notin> set m" and "last l \<notin> set m" and "l \<noteq> []"
    and "guarded m False r"
  shows "guarded m g (l @ r)"
proof -
  have "absent m (l @ r)"
    using assms by (intro absent_cat) (simp_all add: guarded_def junction_ok_def)
  with assms show ?thesis by (simp add: guarded_def)
qed

lemma guarded_lit_after_lit:
  assumes "absent m l" and "last l \<notin> set m" and "l \<noteq> []" and "guarded m False r"
  shows "guarded m False (l @ r)"
proof -
  have "absent m (l @ r)"
    using assms by (intro absent_cat) (simp_all add: guarded_def junction_ok_def)
  then show ?thesis by (simp add: guarded_def)
qed

lemma guarded_usr:
  assumes "absent m u" and "guarded m True r"
  shows "guarded m False (u @ r)"
proof -
  have "junction_ok m u r" using assms(2) by (auto simp: guarded_def junction_ok_def)
  with assms have "absent m (u @ r)" by (intro absent_cat) (simp_all add: guarded_def)
  then show ?thesis by (simp add: guarded_def)
qed

lemma guarded_assoc: "guarded m g (a @ b @ r) \<Longrightarrow> guarded m g ((a @ b) @ r)"
  by simp

lemma guarded_if:
  "guarded m g (a @ r) \<Longrightarrow> guarded m g (b @ r) \<Longrightarrow> guarded m g ((if c then a else b) @ r)"
  by simp

lemma guarded_Nil: "guarded m g r \<Longrightarrow> guarded m g ([] @ r)"
  by simp

lemma guarded_end_if:
  "guarded m g a \<Longrightarrow> guarded m g b \<Longrightarrow> guarded m g (if c then a else b)"
  by simp

lemma guarded_end_lit: "absent m l \<Longrightarrow> l = [] \<or> hd l \<notin> set m \<Longrightarrow> guarded m g l"
  by (auto simp: guarded_def)

lemma guarded_end_usr: "absent m u \<Longrightarrow> guarded m False u"
  by (simp add: guarded_def)

lemma Inr_absent: "Inr x = (Inr b :: error + string) \<Longrightarrow> absent m x \<Longrightarrow> absent m b"
  by simp




lemma sanitizeId_absent_st: "absent ''StdioServerTransport'' (sanitizeId x)"
proof (rule absent_no_char[of "CHR ''S''"])
  show "CHR ''S'' \<in> set ''StdioServerTransport''" by simp
  show "CHR ''S'' \<notin> set (sanitizeId x)"
    using sanitizeId_chars[of "CHR ''S''" x]
    by (auto simp: id_char_def is_lower_def is_digit_def)
qed

lemma str_or_absent_st:
  "(case s of None \<Rightarrow> True | Some t \<Rightarrow> absent ''StdioServerTransport'' t) \<Longrightarrow> absent ''StdioServerTransport'' d
   \<Longrightarrow> absent ''StdioServerTransport'' (str_or s d)"
  by (cases s) (simp_all add: str_or_def truthy_str_def)

lemma sanitizeId_absent_mw: "absent ''SmitheryConfigMiddleware'' (sanitizeId x)"
proof (rule absent_no_char[of "CHR ''S''"])
  show "CHR ''S'' \<in> set ''SmitheryConfigMiddleware''" by simp
  show "CHR ''S'' \<notin> set (sanitizeId x)"
    using sanitizeId_chars[of "CHR ''S''" x]
    by (auto simp: id_char_def is_lower_def is_digit_def)
qed







lemma zod_types_absent_st:
  \<open>absent ''StdioServerTransport''
     (if t = Some (JStr ''string'') then ''z.string()''
      else if t = Some (JStr ''number'') then ''z.number()''
      else if t = Some (JStr ''integer'') then ''z.number().int()''
      else if t = Some (JStr ''boolean'') then ''z.boolean()''
      else if t = Some (JStr ''array'') then ''z.array(z.any())''
      else if t = Some (JStr ''object'') then ''z.record(z.any())''
      else ''z.unknown()'')\<close>
  by (simp add: absent_lit)

lemma default_text_absent_st:
  assumes "default_text d = Inr t"
    and "case js_String d of Inl e \<Rightarrow> True | Inr x \<Rightarrow> absent ''StdioServerTransport'' x"
  shows "absent ''StdioServerTransport'' t"
proof (cases d)
  case (JStr s)
  with assms have s: "absent ''StdioServerTransport'' s" and t: \<open>t = ''"'' @ s @ ''"''\<close>
    by (simp_all add: default_text_def)
  show ?thesis unfolding t by (rule guarded_absent, ((rule guarded_assoc) | (rule guarded_lit, (simp add: absent_lit s; fail), ((simp only: s simp_thms; fail) | (simp; fail)), ((simp only: s simp_thms; fail) | (simp; fail)), ((simp only: s simp_thms; fail) | (simp; fail))) | (rule guarded_lit_after_lit, (simp add: absent_lit s; fail), ((simp only: s simp_thms; fail) | (simp; fail)), ((simp only: s simp_thms; fail) | (simp; fail))) | (rule guarded_if) | (rule guarded_Nil) | (rule guarded_usr, (simp only: s; fail)) | (rule guarded_end_if) | (rule guarded_end_lit, (simp add: absent_lit s; fail), ((simp only: s simp_thms; fail) | (simp; fail))) | (rule guarded_end_usr, (simp only: s; fail)))+)
qed (use assms in \<open>auto simp: default_text_def\<close>)

lemma zod_line_absent_st:
  assumes r: "zod_property_line req indent kv = Inr l" and c: "clean_property ''StdioServerTransport'' kv"
    and i: "indent = ''  '' \<or> indent = ''        ''"
  shows "absent ''StdioServerTransport'' l"
proof -
  define zt0 where \<open>zt0 =
     (if get (snd kv) ''type'' = Some (JStr ''string'') then ''z.string()''
      else if get (snd kv) ''type'' = Some (JStr ''number'') then ''z.number()''
      else if get (snd kv) ''type'' = Some (JStr ''integer'') then ''z.number().int()''
      else if get (snd kv) ''type'' = Some (JStr ''boolean'') then ''z.boolean()''
      else if get (snd kv) ''type'' = Some (JStr ''array'') then ''z.array(z.any())''
      else if get (snd kv) ''type'' = Some (JStr ''object'') then ''z.record(z.any())''
      else ''z.unknown()'')\<close>
  have z0: "absent ''StdioServerTransport'' zt0" unfolding zt0_def by (rule zod_types_absent_st)
  from i have i': "absent ''StdioServerTransport'' indent" "hd indent \<notin> set ''StdioServerTransport''" "last indent \<notin> set ''StdioServerTransport''"
    "indent \<noteq> []"
    by (auto simp: absent_lit)
  have k: "absent ''StdioServerTransport'' (fst kv)" using c by (simp add: clean_property_def)
  define A where \<open>A =
     (case get (snd kv) ''default'' of
        Some d \<Rightarrow>
          (case default_text d of
             Inl e \<Rightarrow> Inl e
           | Inr defaultValue \<Rightarrow> Inr (zt0 @ ''.default('' @ defaultValue @ '')''))
      | None \<Rightarrow>
          (case js_includes req (fst kv) of
             Inl e \<Rightarrow> Inl e
           | Inr b \<Rightarrow> Inr (if \<not> b then zt0 @ ''.optional()'' else zt0)))\<close>
  define B where \<open>B = (\<lambda>zodType1.
     (case get (snd kv) ''description'' of
        None \<Rightarrow> Inr (indent @ fst kv @ '': '' @ zodType1 @ '','')
      | Some d \<Rightarrow>
          if \<not> truthy d then Inr (indent @ fst kv @ '': '' @ zodType1 @ '','')
          else (case d of
                  JStr s \<Rightarrow>
                    Inr (indent @ fst kv @ '': '' @ zodType1
                         @ ''.describe("'' @ escape_quotes s @ ''")'' @ '','')
                | _ \<Rightarrow> Inl TypeError)))\<close>
  have eq: "zod_property_line req indent kv =
      (if snd kv = JNull then Inl TypeError
       else case A of Inl e \<Rightarrow> Inl e | Inr zodType1 \<Rightarrow> B zodType1)"
    by (simp only: zod_property_line_def Let_def zt0_def A_def B_def)
  from r eq obtain zt1 where zt1': "A = Inr zt1" and l': "B zt1 = Inr l"
    by (cases "snd kv = JNull"; cases A) simp_all
  note zt1 = zt1'[unfolded A_def]
  note l = l'[unfolded B_def]
  have z1: "absent ''StdioServerTransport'' zt1"
  proof (cases "get (snd kv) ''default''")
    case None
    with zt1 obtain b where "zt1 = (if \<not> b then zt0 @ ''.optional()'' else zt0)"
      by (auto split: sum.splits)
    then show ?thesis by (simp only:) (rule guarded_absent, ((rule guarded_assoc) | (rule guarded_lit, (simp add: absent_lit z0; fail), ((simp only: z0 simp_thms; fail) | (simp; fail)), ((simp only: z0 simp_thms; fail) | (simp; fail)), ((simp only: z0 simp_thms; fail) | (simp; fail))) | (rule guarded_lit_after_lit, (simp add: absent_lit z0; fail), ((simp only: z0 simp_thms; fail) | (simp; fail)), ((simp only: z0 simp_thms; fail) | (simp; fail))) | (rule guarded_if) | (rule guarded_Nil) | (rule guarded_usr, (simp only: z0; fail)) | (rule guarded_end_if) | (rule guarded_end_lit, (simp add: absent_lit z0; fail), ((simp only: z0 simp_thms; fail) | (simp; fail))) | (rule guarded_end_usr, (simp only: z0; fail)))+)
  next
    case (Some d)
    with zt1 obtain t where t: "default_text d = Inr t"
      and e: "zt1 = zt0 @ ''.default('' @ t @ '')''"
      by (auto split: sum.splits)
    from c Some have "case js_String d of Inl e \<Rightarrow> True | Inr x \<Rightarrow> absent ''StdioServerTransport'' x"
      by (simp add: clean_property_def)
    with t have dt: "absent ''StdioServerTransport'' t" by (rule default_text_absent_st)
    show ?thesis unfolding e by (rule guarded_absent, ((rule guarded_assoc) | (rule guarded_lit, (simp add: absent_lit z0 dt; fail), ((simp only: z0 dt simp_thms; fail) | (simp; fail)), ((simp only: z0 dt simp_thms; fail) | (simp; fail)), ((simp only: z0 dt simp_thms; fail) | (simp; fail))) | (rule guarded_lit_after_lit, (simp add: absent_lit z0 dt; fail), ((simp only: z0 dt simp_thms; fail) | (simp; fail)), ((simp only: z0 dt simp_thms; fail) | (simp; fail))) | (rule guarded_if) | (rule guarded_Nil) | (rule guarded_usr, (simp only: z0 dt; fail)) | (rule guarded_end_if) | (rule guarded_end_lit, (simp add: absent_lit z0 dt; fail), ((simp only: z0 dt simp_thms; fail) | (simp; fail))) | (rule guarded_end_usr, (simp only: z0 dt; fail)))+)
  qed
  have plain: \<open>absent ''StdioServerTransport'' (indent @ fst kv @ '': '' @ zt1 @ '','')\<close>
    by (rule guarded_absent, ((rule guarded_assoc) | (rule guarded_lit, (simp add: absent_lit z1 k i'; fail), ((simp only: z1 k i' simp_thms; fail) | (simp; fail)), ((simp only: z1 k i' simp_thms; fail) | (simp; fail)), ((simp only: z1 k i' simp_thms; fail) | (simp; fail))) | (rule guarded_lit_after_lit, (simp add: absent_lit z1 k i'; fail), ((simp only: z1 k i' simp_thms; fail) | (simp; fail)), ((simp only: z1 k i' simp_thms; fail) | (simp; fail))) | (rule guarded_if) | (rule guarded_Nil) | (rule guarded_usr, (simp only: z1 k i'; fail)) | (rule guarded_end_if) | (rule guarded_end_lit, (simp add: absent_lit z1 k i'; fail), ((simp only: z1 k i' simp_thms; fail) | (simp; fail))) | (rule guarded_end_usr, (simp only: z1 k i'; fail)))+)
  show ?thesis
  proof (cases "get (snd kv) ''description''")
    case None
    with l plain show ?thesis by simp
  next
    case (Some d)
    show ?thesis
    proof (cases "truthy d")
      case False
      with l Some plain show ?thesis by simp
    next
      case True
      with l Some obtain s where s: "d = JStr s"
        and e: \<open>l = indent @ fst kv @ '': '' @ zt1 @ ''.describe("'' @ escape_quotes s @ ''")'' @ '',''\<close>
        by (cases d) simp_all
      from c Some s have "absent ''StdioServerTransport'' s" by (simp add: clean_property_def)
      then have q: "absent ''StdioServerTransport'' (escape_quotes s)" by (intro escape_quotes_absent) simp_all
      show ?thesis unfolding e by (rule guarded_absent, ((rule guarded_assoc) | (rule guarded_lit, (simp add: absent_lit z1 k i' q; fail), ((simp only: z1 k i' q simp_thms; fail) | (simp; fail)), ((simp only: z1 k i' q simp_thms; fail) | (simp; fail)), ((simp only: z1 k i' q simp_thms; fail) | (simp; fail))) | (rule guarded_lit_after_lit, (simp add: absent_lit z1 k i' q; fail), ((simp only: z1 k i' q simp_thms; fail) | (simp; fail)), ((simp only: z1 k i' q simp_thms; fail) | (simp; fail))) | (rule guarded_if) | (rule guarded_Nil) | (rule guarded_usr, (simp only: z1 k i' q; fail)) | (rule guarded_end_if) | (rule guarded_end_lit, (simp add: absent_lit z1 k i' q; fail), ((simp only: z1 k i' q simp_thms; fail) | (simp; fail))) | (rule guarded_end_usr, (simp only: z1 k i' q; fail)))+)
    qed
  qed
qed

lemma zod_schema_absent_st:
  assumes r: "generateZodSchemaFromJson s indent = Inr z" and c: "clean_schema ''StdioServerTransport'' (Some s)"
    and i: "indent = ''  '' \<or> indent = ''        ''"
  shows "absent ''StdioServerTransport'' z"
proof -
  from r obtain ls where
    ls: "sequence_err (map (zod_property_line (or_empty_array (get s ''required'')) indent)
           (entries (or_empty (get s ''properties'')))) = Inr ls"
    and z: "z = join ''\<newline>'' ls"
    by (auto simp: generateZodSchemaFromJson_def Let_def split: if_splits sum.splits)
  have "\<forall>l\<in>set ls. absent ''StdioServerTransport'' l"
  proof (rule sequence_err_all[OF ls])
    fix kv l
    assume "kv \<in> set (entries (or_empty (get s ''properties'')))"
      and "zod_property_line (or_empty_array (get s ''required'')) indent kv = Inr l"
    with c i show "absent ''StdioServerTransport'' l"
      by (intro zod_line_absent_st[of _ indent kv l]) (simp_all add: clean_schema_def list_all_iff)
  qed
  then show ?thesis unfolding z by (intro absent_join) (simp_all add: absent_lit)
qed

lemma inputSchemaString_absent_st:
  assumes r: "inputSchemaString t = Inr z" and c: "clean_schema ''StdioServerTransport'' (inputSchema t)"
  shows "absent ''StdioServerTransport'' z"
proof (cases "inputSchema t")
  case None
  with r show ?thesis by (auto simp: inputSchemaString_def absent_lit)
next
  case (Some a)
  show ?thesis
  proof (cases "truthy a")
    case False
    with r Some show ?thesis by (auto simp: inputSchemaString_def absent_lit)
  next
    case True
    with r Some obtain y where y: "generateZodSchemaFromJson a ''        '' = Inr y"
      and z: \<open>z = ''      inputSchema: {\<newline>'' @ y @ (''\<newline>'' @
         ''      }'')\<close>
      by (auto simp: inputSchemaString_def split: sum.splits)
    from c Some have y: "absent ''StdioServerTransport'' y"
      by (intro zod_schema_absent_st[OF y]) simp_all
    show ?thesis unfolding z by (rule guarded_absent, ((rule guarded_assoc) | (rule guarded_lit, (simp add: absent_lit y; fail), ((simp only: y simp_thms; fail) | (simp; fail)), ((simp only: y simp_thms; fail) | (simp; fail)), ((simp only: y simp_thms; fail) | (simp; fail))) | (rule guarded_lit_after_lit, (simp add: absent_lit y; fail), ((simp only: y simp_thms; fail) | (simp; fail)), ((simp only: y simp_thms; fail) | (simp; fail))) | (rule guarded_if) | (rule guarded_Nil) | (rule guarded_usr, (simp only: y; fail)) | (rule guarded_end_if) | (rule guarded_end_lit, (simp add: absent_lit y; fail), ((simp only: y simp_thms; fail) | (simp; fail))) | (rule guarded_end_usr, (simp only: y; fail)))+)
  qed
qed



lemma resources_absent_st:
  assumes c: "list_all (clean_resource ''StdioServerTransport'') rs"
  shows "absent ''StdioServerTransport'' (generateResourcesCode rs)"
proof (cases rs)
  case Nil
  then show ?thesis by (simp add: generateResourcesCode_def absent_lit)
next
  case (Cons r rs')
  from c Cons have f: "absent ''StdioServerTransport'' (McpResource.name (hd rs))" "absent ''StdioServerTransport'' (uri (hd rs))"
    "absent ''StdioServerTransport'' (McpResource.description (hd rs))"
    "absent ''StdioServerTransport'' (str_or (mimeType (hd rs)) ''text/plain'')"
    by (simp_all add: clean_resource_def str_or_absent_st absent_lit)
  have todo: \<open>absent ''StdioServerTransport'' (join ''\<newline>''
      (map (\<lambda>r. ''  // TODO: Register resource "'' @ McpResource.name r @ ''" - ''
                 @ McpResource.description r @ '' ('' @ uri r @ '')'')
           (drop 1 rs)))\<close>
  proof (rule absent_join)
    show \<open>\<forall>x\<in>set (map (\<lambda>r. ''  // TODO: Register resource "'' @ McpResource.name r @ ''" - ''
                 @ McpResource.description r @ '' ('' @ uri r @ '')'') (drop 1 rs)). absent ''StdioServerTransport'' x\<close>
    proof
      fix x
      assume \<open>x \<in> set (map (\<lambda>r. ''  // TODO: Register resource "'' @ McpResource.name r @ ''" - ''
                 @ McpResource.description r @ '' ('' @ uri r @ '')'') (drop 1 rs))\<close>
      then obtain q where q: "q \<in> set (drop 1 rs)"
        and x: \<open>x = ''  // TODO: Register resource "'' @ McpResource.name q @ ''" - ''
                 @ McpResource.description q @ '' ('' @ uri q @ '')''\<close>
        by auto
      from q have "q \<in> set rs" by (rule in_set_dropD)
      with c have n: "absent ''StdioServerTransport'' (McpResource.name q)" "absent ''StdioServerTransport'' (McpResource.description q)"
        "absent ''StdioServerTransport'' (uri q)"
        by (simp_all add: list_all_iff clean_resource_def)
      show "absent ''StdioServerTransport'' x" unfolding x
        by (rule guarded_absent, ((rule guarded_assoc) | (rule guarded_lit, (simp add: absent_lit n; fail), ((simp only: n simp_thms; fail) | (simp; fail)), ((simp only: n simp_thms; fail) | (simp; fail)), ((simp only: n simp_thms; fail) | (simp; fail))) | (rule guarded_lit_after_lit, (simp add: absent_lit n; fail), ((simp only: n simp_thms; fail) | (simp; fail)), ((simp only: n simp_thms; fail) | (simp; fail))) | (rule guarded_if) | (rule guarded_Nil) | (rule guarded_usr, (simp only: n; fail)) | (rule guarded_end_if) | (rule guarded_end_lit, (simp add: absent_lit n; fail), ((simp only: n simp_thms; fail) | (simp; fail))) | (rule guarded_end_usr, (simp only: n; fail)))+)
    qed
  qed (simp_all add: absent_lit)
  have ne: "(length rs = 0) = False" using Cons by simp
  show ?thesis
    unfolding generateResourcesCode_def Let_def ne if_False
    by (rule guarded_absent, ((rule guarded_assoc) | (rule guarded_lit, (simp add: absent_lit f todo sanitizeId_absent_st; fail), ((simp only: f todo sanitizeId_absent_st simp_thms; fail) | (simp; fail)), ((simp only: f todo sanitizeId_absent_st simp_thms; fail) | (simp; fail)), ((simp only: f todo sanitizeId_absent_st simp_thms; fail) | (simp; fail))) | (rule guarded_lit_after_lit, (simp add: absent_lit f todo sanitizeId_absent_st; fail), ((simp only: f todo sanitizeId_absent_st simp_thms; fail) | (simp; fail)), ((simp only: f todo sanitizeId_absent_st simp_thms; fail) | (simp; fail))) | (rule guarded_if) | (rule guarded_Nil) | (rule guarded_usr, (simp only: f todo sanitizeId_absent_st; fail)) | (rule guarded_end_if) | (rule guarded_end_lit, (simp add: absent_lit f todo sanitizeId_absent_st; fail), ((simp only: f todo sanitizeId_absent_st simp_thms; fail) | (simp; fail))) | (rule guarded_end_usr, (simp only: f todo sanitizeId_absent_st; fail)))+)
qed

lemma prompts_absent_st:
  assumes r: "generatePromptsCode ps = Inr out" and c: "list_all (clean_prompt ''StdioServerTransport'') ps"
  shows "absent ''StdioServerTransport'' out"
proof (cases ps)
  case Nil
  with r show ?thesis by (auto simp: generatePromptsCode_def absent_lit)
next
  case (Cons p ps')
  from c Cons have f: "absent ''StdioServerTransport'' (McpPrompt.name (hd ps))"
    "absent ''StdioServerTransport'' (title_of (McpPrompt.name (hd ps)))"
    "absent ''StdioServerTransport'' (McpPrompt.description (hd ps))"
    "absent ''StdioServerTransport'' (str_or (template (hd ps)) ''Prompt template here'')"
    by (simp_all add: clean_prompt_def str_or_absent_st absent_lit)
  define A where \<open>A =
     (case argsSchema (hd ps) of
        None \<Rightarrow> Inr ''      argsSchema: {}''
      | Some a \<Rightarrow>
          if \<not> truthy a then Inr ''      argsSchema: {}''
          else (case generateZodSchemaFromJson a ''        '' of
                  Inl e \<Rightarrow> Inl e
                | Inr z \<Rightarrow> Inr (''      argsSchema: {\<newline>'' @ z @ (''\<newline>'' @
         ''      }''))))\<close>
  have todo: \<open>absent ''StdioServerTransport'' (join ''\<newline>''
      (map (\<lambda>p. ''  // TODO: Register prompt "'' @ McpPrompt.name p @ ''" - ''
                 @ McpPrompt.description p)
           (drop 1 ps)))\<close>
  proof (rule absent_join)
    show \<open>\<forall>x\<in>set (map (\<lambda>p. ''  // TODO: Register prompt "'' @ McpPrompt.name p @ ''" - ''
                 @ McpPrompt.description p) (drop 1 ps)). absent ''StdioServerTransport'' x\<close>
    proof
      fix x
      assume \<open>x \<in> set (map (\<lambda>p. ''  // TODO: Register prompt "'' @ McpPrompt.name p @ ''" - ''
                 @ McpPrompt.description p) (drop 1 ps))\<close>
      then obtain q where q: "q \<in> set (drop 1 ps)"
        and x: \<open>x = ''  // TODO: Register prompt "'' @ McpPrompt.name q @ ''" - ''
                 @ McpPrompt.description q\<close>
        by auto
      from q have "q \<in> set ps" by (rule in_set_dropD)
      with c have n: "absent ''StdioServerTransport'' (McpPrompt.name q)" "absent ''StdioServerTransport'' (McpPrompt.description q)"
        by (simp_all add: list_all_iff clean_prompt_def)
      show "absent ''StdioServerTransport'' x" unfolding x
        by (rule guarded_absent, ((rule guarded_assoc) | (rule guarded_lit, (simp add: absent_lit n; fail), ((simp only: n simp_thms; fail) | (simp; fail)), ((simp only: n simp_thms; fail) | (simp; fail)), ((simp only: n simp_thms; fail) | (simp; fail))) | (rule guarded_lit_after_lit, (simp add: absent_lit n; fail), ((simp only: n simp_thms; fail) | (simp; fail)), ((simp only: n simp_thms; fail) | (simp; fail))) | (rule guarded_if) | (rule guarded_Nil) | (rule guarded_usr, (simp only: n; fail)) | (rule guarded_end_if) | (rule guarded_end_lit, (simp add: absent_lit n; fail), ((simp only: n simp_thms; fail) | (simp; fail))) | (rule guarded_end_usr, (simp only: n; fail)))+)
    qed
  qed (simp_all add: absent_lit)
  have ne: "(length ps = 0) = False" using Cons by simp
  from r obtain a where a: "A = Inr a"
    unfolding generatePromptsCode_def Let_def ne if_False A_def[symmetric]
    by (cases A) simp_all
  have aa: "absent ''StdioServerTransport'' a"
  proof (cases "argsSchema (hd ps)")
    case None
    with a show ?thesis by (auto simp: A_def absent_lit)
  next
    case (Some s)
    show ?thesis
    proof (cases "truthy s")
      case False
      with a Some show ?thesis by (auto simp: A_def absent_lit)
    next
      case True
      with a Some obtain z where z: "generateZodSchemaFromJson s ''        '' = Inr z"
        and e: \<open>a = ''      argsSchema: {\<newline>'' @ z @ (''\<newline>'' @
         ''      }'')\<close>
        by (auto simp: A_def split: sum.splits)
      from c Cons Some have za: "absent ''StdioServerTransport'' z"
        by (intro zod_schema_absent_st[OF z]) (simp_all add: clean_prompt_def)
      show ?thesis unfolding e by (rule guarded_absent, ((rule guarded_assoc) | (rule guarded_lit, (simp add: absent_lit za; fail), ((simp only: za simp_thms; fail) | (simp; fail)), ((simp only: za simp_thms; fail) | (simp; fail)), ((simp only: za simp_thms; fail) | (simp; fail))) | (rule guarded_lit_after_lit, (simp add: absent_lit za; fail), ((simp only: za simp_thms; fail) | (simp; fail)), ((simp only: za simp_thms; fail) | (simp; fail))) | (rule guarded_if) | (rule guarded_Nil) | (rule guarded_usr, (simp only: za; fail)) | (rule guarded_end_if) | (rule guarded_end_lit, (simp add: absent_lit za; fail), ((simp only: za simp_thms; fail) | (simp; fail))) | (rule guarded_end_usr, (simp only: za; fail)))+)
    qed
  qed
  define P0 where \<open>P0 =
                  ''  // Prompt: '' @ McpPrompt.name (hd ps) @ (''\<newline>'' @
                                                                ''  server.registerPrompt(\<newline>'' @
                                                                ''    "'') @ McpPrompt.name (hd ps) @ (''",\<newline>'' @
                                   ''    {\<newline>'' @
                                   ''      title: "'') @ title_of (McpPrompt.name (hd ps)) @ (''",\<newline>'' @
                                                       ''      description: "'') @ McpPrompt.description (hd ps) @ ''",\<newline>'' @ a @ (''\<newline>'' @
         ''    },\<newline>'' @
         ''    async (args) => {\<newline>'' @
         ''      // TODO: Implement prompt handler for '') @ McpPrompt.name (hd ps) @ (''\<newline>'' @
                                                                          ''      return {\<newline>'' @
                                                                          ''        messages: [\<newline>'' @
                                                                          ''          {\<newline>'' @
                                                                          ''            role: "user",\<newline>'' @
                                                                          ''            content: {\<newline>'' @
                                                                          ''              type: "text",\<newline>'' @
                                                                          ''              text: "'') @ str_or (template (hd ps)) ''Prompt template here'' @ (''"\<newline>'' @
                                                                               ''            }\<newline>'' @
                                                                               ''          }\<newline>'' @
                                                                               ''        ]\<newline>'' @
                                                                               ''      };\<newline>'' @
                                                                               ''    }\<newline>'' @
                                                                               ''  );'')\<close>
  have p0: "absent ''StdioServerTransport'' P0"
    unfolding P0_def
    by (rule guarded_absent, ((rule guarded_assoc) | (rule guarded_lit, (simp add: absent_lit f aa; fail), ((simp only: f aa simp_thms; fail) | (simp; fail)), ((simp only: f aa simp_thms; fail) | (simp; fail)), ((simp only: f aa simp_thms; fail) | (simp; fail))) | (rule guarded_lit_after_lit, (simp add: absent_lit f aa; fail), ((simp only: f aa simp_thms; fail) | (simp; fail)), ((simp only: f aa simp_thms; fail) | (simp; fail))) | (rule guarded_if) | (rule guarded_Nil) | (rule guarded_usr, (simp only: f aa; fail)) | (rule guarded_end_if) | (rule guarded_end_lit, (simp add: absent_lit f aa; fail), ((simp only: f aa simp_thms; fail) | (simp; fail))) | (rule guarded_end_usr, (simp only: f aa; fail)))+)
  have out: \<open>out = ''  // Register prompts\<newline>'' @ (if length ps > 1 then
             P0 @ (''\<newline>'' @
                   ''\<newline>'' @
                   ''  // Additional prompts to implement:\<newline>'') @ join ''\<newline>''
                             (map (\<lambda>p. ''  // TODO: Register prompt "'' @ McpPrompt.name p @ ''" - ''
                                        @ McpPrompt.description p)
                                  (drop 1 ps))
           else P0)\<close>
    using r unfolding generatePromptsCode_def Let_def ne if_False A_def[symmetric] a sum.case
      P0_def[symmetric]
    by (simp only: sum.inject)
  show ?thesis
    unfolding out
    by (rule guarded_absent, ((rule guarded_assoc) | (rule guarded_lit, (simp add: absent_lit p0 todo; fail), ((simp only: p0 todo simp_thms; fail) | (simp; fail)), ((simp only: p0 todo simp_thms; fail) | (simp; fail)), ((simp only: p0 todo simp_thms; fail) | (simp; fail))) | (rule guarded_lit_after_lit, (simp add: absent_lit p0 todo; fail), ((simp only: p0 todo simp_thms; fail) | (simp; fail)), ((simp only: p0 todo simp_thms; fail) | (simp; fail))) | (rule guarded_if) | (rule guarded_Nil) | (rule guarded_usr, (simp only: p0 todo; fail)) | (rule guarded_end_if) | (rule guarded_end_lit, (simp add: absent_lit p0 todo; fail), ((simp only: p0 todo simp_thms; fail) | (simp; fail))) | (rule guarded_end_usr, (simp only: p0 todo; fail)))+)
qed




lemma cc_tool_absent_st:
  assumes r: "custom_container_tool h t = Inr b" and c: "clean_tool ''StdioServerTransport'' t"
  shows "absent ''StdioServerTransport'' b"
proof -
  from r obtain z where z: "inputSchemaString t = Inr z"
    by (cases "inputSchemaString t") (simp_all add: custom_container_tool_def)
  from c have f: "absent ''StdioServerTransport'' (McpTool.name t)" "absent ''StdioServerTransport'' (title_of (McpTool.name t))"
    "absent ''StdioServerTransport'' (McpTool.description t)"
    by (simp_all add: clean_tool_def)
  from c have za: "absent ''StdioServerTransport'' z"
    by (intro inputSchemaString_absent_st[OF z]) (simp add: clean_tool_def)
  note e = r[unfolded custom_container_tool_def z sum.case configComment_def configLog_def]
  show ?thesis
    by (rule Inr_absent[OF e]) (rule guarded_absent, ((rule guarded_assoc) | (rule guarded_lit, (simp add: absent_lit f za; fail), ((simp only: f za simp_thms; fail) | (simp; fail)), ((simp only: f za simp_thms; fail) | (simp; fail)), ((simp only: f za simp_thms; fail) | (simp; fail))) | (rule guarded_lit_after_lit, (simp add: absent_lit f za; fail), ((simp only: f za simp_thms; fail) | (simp; fail)), ((simp only: f za simp_thms; fail) | (simp; fail))) | (rule guarded_if) | (rule guarded_Nil) | (rule guarded_usr, (simp only: f za; fail)) | (rule guarded_end_if) | (rule guarded_end_lit, (simp add: absent_lit f za; fail), ((simp only: f za simp_thms; fail) | (simp; fail))) | (rule guarded_end_usr, (simp only: f za; fail)))+)
qed

lemma cc_tools_absent_st:
  assumes r: "generateCustomContainerToolsCode ts h = Inr out"
    and c: "list_all (clean_tool ''StdioServerTransport'') ts"
  shows "absent ''StdioServerTransport'' out"
proof (cases ts)
  case Nil
  with r show ?thesis by (auto simp: generateCustomContainerToolsCode_def absent_lit)
next
  case (Cons t ts')
  then have ne: "(length ts = 0) = False" by simp
  from r obtain blocks where bl: "sequence_err (map (custom_container_tool h) ts) = Inr blocks"
    unfolding generateCustomContainerToolsCode_def ne if_False
    by (cases "sequence_err (map (custom_container_tool h) ts)") simp_all
  have "\<forall>b\<in>set blocks. absent ''StdioServerTransport'' b"
  proof (rule sequence_err_all[OF bl])
    fix t b assume "t \<in> set ts" and "custom_container_tool h t = Inr b"
    with c show "absent ''StdioServerTransport'' b"
      by (intro cc_tool_absent_st[of h t b]) (simp_all add: list_all_iff)
  qed
  then have j: "absent ''StdioServerTransport'' (join ''\<newline>\<newline>'' blocks)"
    by (intro absent_join) (simp_all add: absent_lit)
  note e = r[unfolded generateCustomContainerToolsCode_def ne if_False bl sum.case]
  show ?thesis
    by (rule Inr_absent[OF e]) (rule guarded_absent, ((rule guarded_assoc) | (rule guarded_lit, (simp add: absent_lit j; fail), ((simp only: j simp_thms; fail) | (simp; fail)), ((simp only: j simp_thms; fail) | (simp; fail)), ((simp only: j simp_thms; fail) | (simp; fail))) | (rule guarded_lit_after_lit, (simp add: absent_lit j; fail), ((simp only: j simp_thms; fail) | (simp; fail)), ((simp only: j simp_thms; fail) | (simp; fail))) | (rule guarded_if) | (rule guarded_Nil) | (rule guarded_usr, (simp only: j; fail)) | (rule guarded_end_if) | (rule guarded_end_lit, (simp add: absent_lit j; fail), ((simp only: j simp_thms; fail) | (simp; fail))) | (rule guarded_end_usr, (simp only: j; fail)))+)
qed

lemma cc_server_absent_st:
  assumes f: "absent ''StdioServerTransport'' n" "absent ''StdioServerTransport'' v"
  shows "absent ''StdioServerTransport'' (generateCustomContainerServerCreation n v)"
  unfolding generateCustomContainerServerCreation_def
  by (rule guarded_absent, ((rule guarded_assoc) | (rule guarded_lit, (simp add: absent_lit f; fail), ((simp only: f simp_thms; fail) | (simp; fail)), ((simp only: f simp_thms; fail) | (simp; fail)), ((simp only: f simp_thms; fail) | (simp; fail))) | (rule guarded_lit_after_lit, (simp add: absent_lit f; fail), ((simp only: f simp_thms; fail) | (simp; fail)), ((simp only: f simp_thms; fail) | (simp; fail))) | (rule guarded_if) | (rule guarded_Nil) | (rule guarded_usr, (simp only: f; fail)) | (rule guarded_end_if) | (rule guarded_end_lit, (simp add: absent_lit f; fail), ((simp only: f simp_thms; fail) | (simp; fail))) | (rule guarded_end_usr, (simp only: f; fail)))+)

section \<open>Configuration schema in the generated files\<close>





























end
